(* ===== verification/Prelude.thy ===== *)
theory Prelude
  imports Complex_Main
begin

text \<open>
  Shared vocabulary of the development: how the JavaScript values the
  sources manipulate are represented in HOL, and the generic lemmas about
  them that the component theories use.
  \<^item> A JavaScript string is its sequence of UTF-16 code units, a \<open>nat list\<close>
    (type \<open>jstr\<close>); \<open>.length\<close>, \<open>substring\<close> and the regular expressions of
    the sources (no \<open>u\<close> flag) all work on code units. ASCII literals of the
    sources are written \<open>js ''...''\<close>.
  \<^item> \<open>Date.now()\<close> is an \<open>int\<close> number of milliseconds (type \<open>time\<close>).
  \<^item> A \<open>Map\<close> is an insertion-ordered association list (type \<open>jsmap\<close>):
    \<open>set\<close> on a present key keeps its position, \<open>delete\<close> removes it,
    iteration follows the list. \<open>map_of\<close> is its abstraction to a HOL map.
  \<^item> A \<open>Set\<close> is an insertion-ordered list without duplicates.
  \<^item> \<open>parseInt(process.env.X) || d\<close> is \<open>js_int_or v d\<close>, with \<open>None\<close> for
    \<open>NaN\<close> (an unset or non-numeric variable).
\<close>

named_theorems js_defs "definitions of the JavaScript built-ins used in evaluation"

section \<open>Strings\<close>

type_synonym jstr = "nat list"
type_synonym time = int

definition js :: "string \<Rightarrow> jstr" where
  "js s = map of_char s"

declare js_def [js_defs]

text \<open>Line terminators (ECMAScript LineTerminator): what \<open>.\<close> does not match.\<close>

definition is_line_terminator :: "nat \<Rightarrow> bool" where
  "is_line_terminator c \<longleftrightarrow> c = 10 \<or> c = 13 \<or> c = 8232 \<or> c = 8233"

text \<open>White space as \<open>\s\<close> and \<open>String.prototype.trim\<close> see it
  (WhiteSpace and LineTerminator of ECMAScript, Unicode 15 Zs).\<close>

definition js_is_space :: "nat \<Rightarrow> bool" where
  "js_is_space c \<longleftrightarrow>
     (9 \<le> c \<and> c \<le> 13) \<or> c = 32 \<or> c = 160 \<or> c = 5760 \<or> (8192 \<le> c \<and> c \<le> 8202) \<or>
     c = 8232 \<or> c = 8233 \<or> c = 8239 \<or> c = 8287 \<or> c = 12288 \<or> c = 65279"

definition js_trim :: "jstr \<Rightarrow> jstr" where
  "js_trim s = rev (dropWhile js_is_space (rev (dropWhile js_is_space s)))"

definition is_ascii_letter :: "nat \<Rightarrow> bool" where
  "is_ascii_letter c \<longleftrightarrow> (65 \<le> c \<and> c \<le> 90) \<or> (97 \<le> c \<and> c \<le> 122)"

definition is_ascii_digit :: "nat \<Rightarrow> bool" where
  "is_ascii_digit c \<longleftrightarrow> 48 \<le> c \<and> c \<le> 57"

declare is_line_terminator_def [js_defs] js_is_space_def [js_defs] js_trim_def [js_defs]
  is_ascii_letter_def [js_defs] is_ascii_digit_def [js_defs]

text \<open>\<open>hay.includes(needle)\<close>: the needle occurs at some position.\<close>

fun js_includes :: "jstr \<Rightarrow> jstr \<Rightarrow> bool" where
  "js_includes [] n \<longleftrightarrow> n = []"
| "js_includes (c # cs) n \<longleftrightarrow> take (length n) (c # cs) = n \<or> js_includes cs n"

text \<open>\<open>s.startsWith(p)\<close>.\<close>

definition js_starts_with :: "jstr \<Rightarrow> jstr \<Rightarrow> bool" where
  "js_starts_with s p \<longleftrightarrow> take (length p) s = p"

text \<open>\<open>s.substring(0, n)\<close> for \<open>n \<ge> 0\<close>.\<close>

definition js_prefix :: "jstr \<Rightarrow> nat \<Rightarrow> jstr" where
  "js_prefix s n = take n s"

text \<open>\<open>xs.slice(-n)\<close> for \<open>n > 0\<close>: the last \<open>n\<close> elements, or all of them.\<close>

definition js_slice_last :: "nat \<Rightarrow> 'a list \<Rightarrow> 'a list" where
  "js_slice_last n xs = drop (length xs - n) xs"

declare js_starts_with_def [js_defs] js_prefix_def [js_defs] js_slice_last_def [js_defs]

section \<open>Languages\<close>

text \<open>The language tags the reply engines use (the strings \<open>'hinglish'\<close>,
  \<open>'hindi'\<close>, \<open>'english'\<close>, \<open>'urdu'\<close>, \<open>'bengali'\<close>, \<open>'tamil'\<close>,
  \<open>'gujarati'\<close> of the sources).\<close>

datatype lang = Hinglish | Hindi | English | Urdu | Bengali | Tamil | Gujarati

definition lang_label :: "lang \<Rightarrow> jstr" where
  "lang_label l = (case l of Hinglish \<Rightarrow> js ''hinglish'' | Hindi \<Rightarrow> js ''hindi''
     | English \<Rightarrow> js ''english'' | Urdu \<Rightarrow> js ''urdu'' | Bengali \<Rightarrow> js ''bengali''
     | Tamil \<Rightarrow> js ''tamil'' | Gujarati \<Rightarrow> js ''gujarati'')"

text \<open>\<open>String(n)\<close> of a natural number: its decimal digits.\<close>

fun js_nat_str :: "nat \<Rightarrow> jstr" where
  "js_nat_str n = (if n < 10 then [48 + n] else js_nat_str (n div 10) @ [48 + n mod 10])"

declare js_nat_str.simps [simp del]

text \<open>\<open>String(i)\<close> of an integer.\<close>

definition js_int_str :: "int \<Rightarrow> jstr" where
  "js_int_str i = (if i < 0 then 45 # js_nat_str (nat (- i)) else js_nat_str (nat i))"

text \<open>\<open>xs.join(sep)\<close>.\<close>

fun js_join :: "jstr \<Rightarrow> jstr list \<Rightarrow> jstr" where
  "js_join sep [] = []"
| "js_join sep [x] = x"
| "js_join sep (x # xs) = x @ sep @ js_join sep xs"

section \<open>Configuration numbers\<close>

text \<open>\<open>parseInt(v) || d\<close>: \<open>NaN\<close> and \<open>0\<close> are falsy and give the default.\<close>

definition js_int_or :: "int option \<Rightarrow> int \<Rightarrow> int" where
  "js_int_or v d = (case v of None \<Rightarrow> d | Some n \<Rightarrow> if n = 0 then d else n)"

text \<open>\<open>process.env.X || d\<close> for a string setting: unset and empty give the
  default.\<close>

definition js_str_or :: "jstr option \<Rightarrow> jstr \<Rightarrow> jstr" where
  "js_str_or v d = (case v of None \<Rightarrow> d | Some s \<Rightarrow> if s = [] then d else s)"

text \<open>Truthiness of a JavaScript number (here never \<open>NaN\<close>).\<close>

definition js_num_truthy :: "int \<Rightarrow> bool" where
  "js_num_truthy n \<longleftrightarrow> n \<noteq> 0"

text \<open>\<open>a >= parseInt(v)\<close>: every comparison with \<open>NaN\<close> is false.\<close>

definition js_ge_parsed :: "int \<Rightarrow> int option \<Rightarrow> bool" where
  "js_ge_parsed a v = (case v of None \<Rightarrow> False | Some n \<Rightarrow> n \<le> a)"

text \<open>Truthiness of an optional string field (\<open>undefined\<close> and \<open>''\<close> are
  falsy).\<close>

definition js_truthy_str :: "jstr option \<Rightarrow> bool" where
  "js_truthy_str v \<longleftrightarrow> (case v of None \<Rightarrow> False | Some s \<Rightarrow> s \<noteq> [])"

declare js_truthy_str_def [js_defs]
declare js_int_or_def [js_defs] js_str_or_def [js_defs] js_num_truthy_def [js_defs] js_ge_parsed_def [js_defs]

section \<open>Maps and sets\<close>

type_synonym ('k, 'v) jsmap = "('k \<times> 'v) list"

definition jm_get :: "('k, 'v) jsmap \<Rightarrow> 'k \<Rightarrow> 'v option" where
  "jm_get m k = map_of m k"

definition jm_has :: "('k, 'v) jsmap \<Rightarrow> 'k \<Rightarrow> bool" where
  "jm_has m k \<longleftrightarrow> k \<in> set (map fst m)"

fun jm_set :: "('k, 'v) jsmap \<Rightarrow> 'k \<Rightarrow> 'v \<Rightarrow> ('k, 'v) jsmap" where
  "jm_set [] k v = [(k, v)]"
| "jm_set ((k', v') # m) k v = (if k' = k then (k, v) # m else (k', v') # jm_set m k v)"

definition jm_delete :: "('k, 'v) jsmap \<Rightarrow> 'k \<Rightarrow> ('k, 'v) jsmap" where
  "jm_delete m k = filter (\<lambda>(k', _). k' \<noteq> k) m"

definition jm_keys :: "('k, 'v) jsmap \<Rightarrow> 'k list" where
  "jm_keys m = map fst m"

text \<open>A well-formed map has distinct keys; every operation keeps that.\<close>

definition jm_wf :: "('k, 'v) jsmap \<Rightarrow> bool" where
  "jm_wf m \<longleftrightarrow> distinct (map fst m)"

definition js_set_add :: "'a list \<Rightarrow> 'a \<Rightarrow> 'a list" where
  "js_set_add xs x = (if x \<in> set xs then xs else xs @ [x])"

declare jm_get_def [js_defs] jm_has_def [js_defs] jm_delete_def [js_defs] jm_keys_def [js_defs]
  js_set_add_def [js_defs]

text \<open>The sweep \<open>for (const [k, v] of map.entries()) if (P(k, v)) map.delete(k)\<close>:
  a \<open>Map\<close> iterator visits the entries live, and deleting the entry it
  stands on leaves the rest of the iteration unchanged, so the loop runs over the
  entries present when it started.\<close>

fun jm_sweep :: "('k \<Rightarrow> 'v \<Rightarrow> bool) \<Rightarrow> ('k, 'v) jsmap \<Rightarrow> ('k \<times> 'v) list \<Rightarrow> ('k, 'v) jsmap" where
  "jm_sweep P m [] = m"
| "jm_sweep P m ((k, v) # es) = jm_sweep P (if P k v then jm_delete m k else m) es"

text \<open>\<open>Array.from(map.values()).reduce((s, h) => s + h.length, 0)\<close>.\<close>

definition jm_total_length :: "('k, 'v list) jsmap \<Rightarrow> nat" where
  "jm_total_length m = sum_list (map (length \<circ> snd) m)"

subsection \<open>Lemmas on strings\<close>

lemma js_append [simp]: "js (a @ b) = js a @ js b"
  by (simp add: js_def)

lemma length_js [simp]: "length (js s) = length s"
  by (simp add: js_def)

lemma js_includes_iff: "js_includes h n \<longleftrightarrow> (\<exists>a b. h = a @ n @ b)"
proof (induction h)
  case Nil
  then show ?case by simp
next
  case (Cons c cs)
  have "take (length n) (c # cs) = n \<longleftrightarrow> (\<exists>b. c # cs = n @ b)"
    by (metis append_eq_conv_conj)
  moreover have "(\<exists>a b. c # cs = a @ n @ b) \<longleftrightarrow>
      (\<exists>b. c # cs = n @ b) \<or> (\<exists>a b. cs = a @ n @ b)"
    by (auto simp: Cons_eq_append_conv)
  ultimately show ?case using Cons.IH by simp
qed

lemma js_includes_append_right [intro]: "js_includes h n \<Longrightarrow> js_includes (h @ t) n"
  by (metis js_includes_iff append.assoc)

lemma js_includes_append_left [intro]: "js_includes h n \<Longrightarrow> js_includes (p @ h) n"
  by (metis js_includes_iff append.assoc)

lemma js_includes_self_suffix [simp]: "js_includes (h @ n) n"
  by (metis js_includes_iff append_Nil2)

lemma js_includes_prefix: "js_includes (n @ t) n"
  by (metis js_includes_iff append_Nil)

lemma js_includes_refl: "js_includes x x"
  using js_includes_prefix [of x "[]"] by simp

lemma js_includes_Cons_tail: "js_includes h n \<Longrightarrow> js_includes (c # h) n"
  using js_includes_append_left [of h n "[c]"] by simp

text \<open>Rules that find a part inside a long concatenation, for \<open>simp\<close>
  (with \<open>js_append\<close> left out so that literals stay whole).\<close>

lemmas js_includes_chain = js_includes_refl js_includes_prefix js_includes_append_left js_includes_Cons_tail

lemma js_includes_set: "js_includes h n \<Longrightarrow> set n \<subseteq> set h"
  by (auto simp: js_includes_iff)

lemma js_trim_no_space_ends:
  assumes "js_trim s = c # cs"
  shows "\<not> js_is_space c"
proof -
  let ?d = "dropWhile js_is_space s"
  have "rev ?d = takeWhile js_is_space (rev ?d) @ dropWhile js_is_space (rev ?d)"
    by simp
  then have "?d = rev (dropWhile js_is_space (rev ?d)) @ rev (takeWhile js_is_space (rev ?d))"
    by (metis rev_append rev_rev_ident)
  with assms have d: "?d = c # cs @ rev (takeWhile js_is_space (rev ?d))"
    by (simp add: js_trim_def)
  then have "?d \<noteq> []" by (metis list.distinct(2))
  then have "\<not> js_is_space (hd ?d)" by (rule hd_dropWhile)
  with d show ?thesis by (metis list.sel(1))
qed

lemma js_trim_empty_iff: "js_trim s = [] \<longleftrightarrow> (\<forall>c \<in> set s. js_is_space c)"
proof -
  have "js_trim s = [] \<longleftrightarrow> (\<forall>x \<in> set (dropWhile js_is_space s). js_is_space x)"
    by (simp add: js_trim_def)
  also have "\<dots> \<longleftrightarrow> dropWhile js_is_space s = []"
  proof
    assume all: "\<forall>x \<in> set (dropWhile js_is_space s). js_is_space x"
    show "dropWhile js_is_space s = []"
    proof (rule ccontr)
      assume ne: "dropWhile js_is_space s \<noteq> []"
      then have "hd (dropWhile js_is_space s) \<in> set (dropWhile js_is_space s)"
        by (rule hd_in_set)
      with all hd_dropWhile [OF ne] show False by blast
    qed
  next
    assume "dropWhile js_is_space s = []"
    then show "\<forall>x \<in> set (dropWhile js_is_space s). js_is_space x"
      by (simp only: list.set(1) empty_iff ball_simps(5))
  qed
  also have "\<dots> \<longleftrightarrow> (\<forall>c \<in> set s. js_is_space c)"
    by simp
  finally show ?thesis .
qed

lemma length_js_slice_last [simp]: "length (js_slice_last n xs) = min n (length xs)"
  by (simp add: js_slice_last_def)

lemma js_slice_last_append_one:
  assumes "length xs \<le> n" and "0 < n"
  shows "js_slice_last n (xs @ [x]) = (if Suc (length xs) > n then tl (xs @ [x]) else xs @ [x])"
proof (cases "Suc (length xs) > n")
  case True
  with assms have n: "n = length xs" by simp
  with assms(2) obtain y ys where "xs = y # ys" by (cases xs) auto
  with n show ?thesis by (simp add: js_slice_last_def)
next
  case False
  then show ?thesis by (simp add: js_slice_last_def)
qed

lemma js_slice_last_idem:
  "js_slice_last n (js_slice_last n xs @ ys) = js_slice_last n (xs @ ys)"
proof -
  have e: "length xs + length ys - (length xs - n + n) + (length xs - n) = length xs + length ys - n"
    by arith
  show ?thesis by (auto simp: js_slice_last_def drop_append e)
qed
lemma js_starts_with_includes: "js_starts_with s p \<Longrightarrow> js_includes s p"
  by (auto simp: js_starts_with_def js_includes_iff) (metis append.left_neutral append_take_drop_id)

lemma js_includes_trans: "js_includes s p \<Longrightarrow> js_includes p q \<Longrightarrow> js_includes s q"
  by (auto simp: js_includes_iff) (metis append.assoc)

lemma js_includes_dropWhile:
  assumes "js_includes s w" and "w \<noteq> []" and "\<not> P (hd w)"
  shows "js_includes (dropWhile P s) w"
proof -
  from assms(1) obtain a b where s: "s = a @ (w @ b)" by (auto simp only: js_includes_iff)
  from assms(2,3) have dw: "dropWhile P (w @ b) = w @ b" by (cases w) auto
  show ?thesis
  proof (cases "\<forall>x \<in> set a. P x")
    case True
    then have "dropWhile P s = [] @ w @ b" using dw s by (simp add: dropWhile_append2)
    then show ?thesis unfolding js_includes_iff by blast
  next
    case False
    then obtain x where "x \<in> set a" "\<not> P x" by blast
    then have "dropWhile P s = dropWhile P a @ w @ b" using s by (simp add: dropWhile_append1)
    then show ?thesis unfolding js_includes_iff by blast
  qed
qed

lemma js_includes_rev: "js_includes (rev s) (rev w) \<longleftrightarrow> js_includes s w"
proof
  assume "js_includes (rev s) (rev w)"
  then obtain a b where "rev s = a @ rev w @ b" by (auto simp: js_includes_iff)
  then have "s = rev b @ w @ rev a" by (metis rev_append rev_rev_ident append.assoc)
  then show "js_includes s w" by (auto simp: js_includes_iff)
next
  assume "js_includes s w"
  then obtain a b where "s = a @ w @ b" by (auto simp: js_includes_iff)
  then have "rev s = rev b @ rev w @ rev a" by simp
  then show "js_includes (rev s) (rev w)" by (auto simp: js_includes_iff)
qed

lemma js_includes_trim:
  assumes "js_includes s w" and "w \<noteq> []" and "\<not> js_is_space (hd w)" and "\<not> js_is_space (last w)"
  shows "js_includes (js_trim s) w"
proof -
  have "js_includes (dropWhile js_is_space s) w"
    using assms(1-3) by (rule js_includes_dropWhile)
  then have "js_includes (rev (dropWhile js_is_space s)) (rev w)" by (simp add: js_includes_rev)
  moreover have "rev w \<noteq> []" and "\<not> js_is_space (hd (rev w))"
    using assms(2,4) by (simp_all add: hd_rev)
  ultimately have "js_includes (dropWhile js_is_space (rev (dropWhile js_is_space s))) (rev w)"
    by (rule js_includes_dropWhile)
  then have "js_includes (rev (dropWhile js_is_space (rev (dropWhile js_is_space s)))) w"
    using js_includes_rev [of "dropWhile js_is_space (rev (dropWhile js_is_space s))" "rev w"] by simp
  then show ?thesis by (simp only: js_trim_def)
qed

lemma trim_keeps_char:
  assumes "c \<in> set s" and "\<not> js_is_space c"
  shows "c \<in> set (js_trim s)"
proof -
  from assms(1) have "js_includes s [c]" by (auto simp: js_includes_iff dest: split_list)
  then have "js_includes (js_trim s) [c]" using assms(2) by (intro js_includes_trim) simp_all
  then show ?thesis using js_includes_set by fastforce
qed

lemma set_trim: "set (js_trim s) \<subseteq> set s"
proof -
  have "set (dropWhile js_is_space (rev (dropWhile js_is_space s))) \<subseteq> set (rev (dropWhile js_is_space s))"
    by (auto dest: set_dropWhileD)
  also have "\<dots> \<subseteq> set s" by (auto dest: set_dropWhileD)
  finally show ?thesis by (simp add: js_trim_def)
qed

subsection \<open>Lemmas on maps\<close>

lemma map_of_jm_set [simp]: "map_of (jm_set m k v) = (map_of m)(k \<mapsto> v)"
  by (induction m k v rule: jm_set.induct) (auto simp: fun_eq_iff)

lemma set_jm_set_subset: "set (jm_set m k v) \<subseteq> insert (k, v) (set m)"
  by (induction m k v rule: jm_set.induct) auto

lemma jm_set_values:
  "\<forall>(c, x) \<in> set m. P x \<Longrightarrow> P v \<Longrightarrow> \<forall>(c, x) \<in> set (jm_set m k v). P x"
  using set_jm_set_subset [of m k v] by blast

lemma jm_get_set [simp]: "jm_get (jm_set m k v) k' = (if k' = k then Some v else jm_get m k')"
  by (simp add: jm_get_def)

lemma map_of_jm_delete [simp]: "map_of (jm_delete m k) = (map_of m)(k := None)"
  by (induction m) (auto simp: jm_delete_def fun_eq_iff)

lemma jm_get_delete [simp]: "jm_get (jm_delete m k) k' = (if k' = k then None else jm_get m k')"
  by (simp add: jm_get_def)

lemma jm_get_Some_key: "jm_get m c = Some v \<Longrightarrow> c \<in> set (map fst m)"
  by (auto simp: jm_get_def dest: map_of_SomeD intro: rev_image_eqI)

lemma jm_get_Some_value: "jm_get m c = Some v \<Longrightarrow> (c, v) \<in> set m"
  by (simp add: jm_get_def map_of_SomeD)

lemma jm_has_get: "jm_has m k \<longleftrightarrow> jm_get m k \<noteq> None"
  by (simp add: jm_has_def jm_get_def map_of_eq_None_iff)

lemma keys_jm_set: "map fst (jm_set m k v) = (if k \<in> set (map fst m) then map fst m else map fst m @ [k])"
  by (induction m k v rule: jm_set.induct) auto

lemma set_keys_jm_set [simp]: "set (map fst (jm_set m k v)) = insert k (set (map fst m))"
  by (auto simp: keys_jm_set)

lemma length_jm_set:
  "length (jm_set m k v) = (if jm_has m k then length m else Suc (length m))"
proof -
  have "length (jm_set m k v) = length (map fst (jm_set m k v))" by simp
  also have "\<dots> = (if jm_has m k then length m else Suc (length m))"
    by (simp add: keys_jm_set jm_has_def)
  finally show ?thesis .
qed

lemma jm_wf_set [intro]: "jm_wf m \<Longrightarrow> jm_wf (jm_set m k v)"
  by (simp add: jm_wf_def keys_jm_set)

lemma jm_wf_delete [intro]: "jm_wf m \<Longrightarrow> jm_wf (jm_delete m k)"
  by (auto simp: jm_wf_def jm_delete_def distinct_map_filter)

lemma jm_has_delete [simp]: "jm_has (jm_delete m k) k' \<longleftrightarrow> k' \<noteq> k \<and> jm_has m k'"
  by (simp add: jm_has_get)

lemma jm_has_set [simp]: "jm_has (jm_set m k v) k' \<longleftrightarrow> k' = k \<or> jm_has m k'"
  by (simp add: jm_has_get)

lemma length_jm_delete_le: "length (jm_delete m k) \<le> length m"
  by (simp add: jm_delete_def)

lemma length_jm_delete_has:
  "jm_wf m \<Longrightarrow> jm_has m k \<Longrightarrow> Suc (length (jm_delete m k)) = length m"
proof (induction m)
  case Nil
  then show ?case by (simp add: jm_has_def)
next
  case (Cons p m)
  obtain k' v where p: "p = (k', v)" by (cases p)
  show ?case
  proof (cases "k' = k")
    case True
    with Cons.prems p have "k \<notin> set (map fst m)" by (simp add: jm_wf_def)
    then have "jm_delete m k = m"
      by (auto simp: jm_delete_def filter_id_conv intro: rev_image_eqI)
    with True p show ?thesis by (simp add: jm_delete_def)
  next
    case False
    with Cons.prems p have "jm_wf m" "jm_has m k" by (auto simp: jm_wf_def jm_has_def)
    with Cons.IH False p show ?thesis by (simp add: jm_delete_def)
  qed
qed

lemma jm_delete_absent: "\<not> jm_has m k \<Longrightarrow> jm_delete m k = m"
  by (auto simp: jm_delete_def jm_has_def filter_id_conv intro: rev_image_eqI)

lemma set_js_set_add [simp]: "set (js_set_add xs x) = insert x (set xs)"
  by (auto simp: js_set_add_def)

lemma distinct_js_set_add [intro]: "distinct xs \<Longrightarrow> distinct (js_set_add xs x)"
  by (simp add: js_set_add_def)

lemma js_join_includes: "x \<in> set xs \<Longrightarrow> js_includes (js_join sep xs) x"
  by (induction sep xs rule: js_join.induct) (auto simp: js_includes_chain intro: js_includes_append_right)

lemma sum_jm_set:
  "jm_wf m \<Longrightarrow>
   sum_list (map snd (jm_set m k v)) + (case jm_get m k of None \<Rightarrow> 0 | Some x \<Rightarrow> x) =
   sum_list (map snd m) + (v :: nat)"
proof (induction m)
  case Nil
  then show ?case by (simp add: jm_get_def)
next
  case (Cons e m)
  obtain k' v' where e: "e = (k', v')" by (cases e)
  show ?case
  proof (cases "k' = k")
    case True
    then show ?thesis using e by (simp add: jm_get_def)
  next
    case False
    from Cons.prems e have "jm_wf m" by (simp add: jm_wf_def)
    with Cons.IH False e show ?thesis by (simp add: jm_get_def)
  qed
qed

lemma jm_sweep_filter:
  assumes "distinct (map fst (p @ es))"
  shows "jm_sweep P (filter (\<lambda>(k, v). \<not> P k v) p @ es) es = filter (\<lambda>(k, v). \<not> P k v) (p @ es)"
  using assms
proof (induction es arbitrary: p)
  case Nil
  then show ?case by simp
next
  case (Cons e es)
  obtain k v where e: "e = (k, v)" by (cases e)
  let ?keep = "\<lambda>(k, v). \<not> P k v"
  from Cons.prems e have kp: "k \<notin> set (map fst p)" and kes: "k \<notin> set (map fst es)" by auto
  from kp have "\<not> jm_has (filter ?keep p) k" by (auto simp: jm_has_def)
  then have fp: "jm_delete (filter ?keep p) k = filter ?keep p" by (rule jm_delete_absent)
  from kes have "\<not> jm_has es k" by (simp add: jm_has_def)
  then have fes: "jm_delete es k = es" by (rule jm_delete_absent)
  have step: "(if P k v then jm_delete (filter ?keep p @ (k, v) # es) k else filter ?keep p @ (k, v) # es) =
              filter ?keep (p @ [(k, v)]) @ es"
    using fp fes by (auto simp: jm_delete_def)
  have unf: "jm_sweep P (filter ?keep p @ (k, v) # es) ((k, v) # es) =
             jm_sweep P (filter ?keep (p @ [(k, v)]) @ es) es"
    by (simp only: jm_sweep.simps(2) step)
  have "distinct (map fst ((p @ [(k, v)]) @ es))" using Cons.prems e by simp
  then have "jm_sweep P (filter ?keep (p @ [(k, v)]) @ es) es = filter ?keep ((p @ [(k, v)]) @ es)"
    by (rule Cons.IH)
  with unf e show ?case by simp
qed

lemma jm_sweep_self: "jm_wf m \<Longrightarrow> jm_sweep P m m = filter (\<lambda>(k, v). \<not> P k v) m"
  using jm_sweep_filter [of "[]" m P] by (simp add: jm_wf_def)

lemma set_jm_sweep_subset: "set (jm_sweep P m es) \<subseteq> set m"
proof (induction es arbitrary: m)
  case (Cons e es)
  obtain k v where e: "e = (k, v)" by (cases e)
  have "set (if P k v then jm_delete m k else m) \<subseteq> set m" by (auto simp: jm_delete_def)
  with Cons.IH [of "if P k v then jm_delete m k else m"] e show ?case by simp
qed simp

lemma jm_get_filter_None:
  "(\<And>v. (k, v) \<in> set m \<Longrightarrow> \<not> Q (k, v)) \<Longrightarrow> jm_get (filter Q m) k = None"
  by (auto simp: jm_get_def map_of_eq_None_iff)

lemma jm_wf_get_unique: "jm_wf m \<Longrightarrow> jm_get m k = Some v \<Longrightarrow> (k, v') \<in> set m \<Longrightarrow> v' = v"
  by (simp add: jm_get_def jm_wf_def)

lemma those_None_iff: "those xs = None \<longleftrightarrow> None \<in> set xs"
  by (induction xs) (auto split: option.splits)

lemma jm_wf_get_member: "jm_wf m \<Longrightarrow> (k, v) \<in> set m \<Longrightarrow> jm_get m k = Some v"
  by (simp add: jm_get_def jm_wf_def)

lemma None_in_map_option:
  "None \<in> (\<lambda>(k, a). map_option (g k a) (f k)) ` S \<longleftrightarrow> (\<exists>(k, a) \<in> S. f k = None)"
  by force

lemma map_update_same: "f x = f (xs ! i) \<Longrightarrow> map f (xs[i := x]) = map f xs"
proof (cases "i < length xs")
  case True
  assume "f x = f (xs ! i)"
  then have "map f (xs[i := x]) = (map f xs)[i := map f xs ! i]" using True by (simp add: map_update)
  then show ?thesis by simp
qed (simp add: list_update_beyond)

lemma jm_wf_filter [intro]: "jm_wf m \<Longrightarrow> jm_wf (filter Q m)"
  by (simp add: jm_wf_def distinct_map_filter)

lemma js_nat_str_digits: "set (js_nat_str n) \<subseteq> {48..57}"
  by (induction n rule: js_nat_str.induct) (subst js_nat_str.simps, auto)

lemma js_nat_str_nonempty [simp]: "js_nat_str n \<noteq> []"
  by (subst js_nat_str.simps) simp

end
