(* ===== verification/ConversationStore.thy ===== *)
theory ConversationStore
  imports Prelude
begin

text \<open>
  The per-contact conversation memory of the two reply engines.
  \<^item> \<open>AIReply\<close> (src/unnamed/part_000, lines 377--868): \<open>conversationHistory\<close>
    maps a contact number to a list of turns \<open>{userMessage, aiReply, language,
    timestamp}\<close>; \<open>updateConversationHistory\<close> pushes one turn and shifts the
    oldest out when the list exceeds 10.
  \<^item> \<open>GeminiAI\<close> (src/unnamed/part_001): \<open>chatHistory\<close> maps a contact number
    to a list of messages \<open>{type, message, timestamp}\<close>; \<open>updateChatHistory\<close>
    pushes the user message and the bot reply and keeps the last 10 messages.
  The lemmas show the length bound as an invariant of every contact's list,
  and that each store is, per contact, the last 10 elements of the full log of
  what was appended to it (a refinement of an unbounded log).
\<close>

section \<open>AIReply: turns\<close>

record turn =
  userMessage :: jstr
  aiReply :: jstr
  language :: lang
  timestamp :: time

type_synonym conv_store = "(jstr, turn list) jsmap"

definition maxTurns :: nat where
  "maxTurns = 10"

definition getConversationHistory :: "conv_store \<Rightarrow> jstr \<Rightarrow> turn list" where
  "getConversationHistory m c = (case jm_get m c of None \<Rightarrow> [] | Some h \<Rightarrow> h)"

text \<open>\<open>history.push(...)\<close> mutates the array stored in the map (when there is
  one) and \<open>set\<close> stores it again: the net effect is one \<open>jm_set\<close>.\<close>

definition updateConversationHistory ::
  "conv_store \<Rightarrow> jstr \<Rightarrow> jstr \<Rightarrow> jstr \<Rightarrow> lang \<Rightarrow> time \<Rightarrow> conv_store" where
  "updateConversationHistory m fromNumber u r l now =
     (let history = getConversationHistory m fromNumber @
            [\<lparr>userMessage = u, aiReply = r, language = l, timestamp = now\<rparr>];
          history' = (if length history > maxTurns then tl history else history)
      in jm_set m fromNumber history')"

definition conv_inv :: "conv_store \<Rightarrow> bool" where
  "conv_inv m \<longleftrightarrow> jm_wf m \<and> (\<forall>(c, h) \<in> set m. length h \<le> maxTurns)"

text \<open>Adding a whole turn record, and a sequence of them for one contact.\<close>

definition add_turn :: "conv_store \<Rightarrow> jstr \<Rightarrow> turn \<Rightarrow> conv_store" where
  "add_turn m c t = updateConversationHistory m c (userMessage t) (aiReply t) (language t) (timestamp t)"

definition add_turns :: "conv_store \<Rightarrow> jstr \<Rightarrow> turn list \<Rightarrow> conv_store" where
  "add_turns m c ts = foldl (\<lambda>m t. add_turn m c t) m ts"

section \<open>GeminiAI: messages\<close>

datatype speaker = User | Bot

record chat_entry =
  entry_type :: speaker
  message :: jstr
  entry_time :: time

type_synonym chat_store = "(jstr, chat_entry list) jsmap"

definition getChatHistory :: "chat_store \<Rightarrow> jstr \<Rightarrow> chat_entry list" where
  "getChatHistory m c = (case jm_get m c of None \<Rightarrow> [] | Some h \<Rightarrow> h)"

definition updateChatHistory :: "chat_store \<Rightarrow> jstr \<Rightarrow> jstr \<Rightarrow> jstr \<Rightarrow> time \<Rightarrow> chat_store" where
  "updateChatHistory m contactNumber userMsg botReply now =
     (let history = getChatHistory m contactNumber @
            [\<lparr>entry_type = User, message = userMsg, entry_time = now\<rparr>,
             \<lparr>entry_type = Bot, message = botReply, entry_time = now\<rparr>];
          history' = (if length history > 10 then js_slice_last 10 history else history)
      in jm_set m contactNumber history')"

definition clearChatHistory :: "chat_store \<Rightarrow> jstr \<Rightarrow> chat_store" where
  "clearChatHistory m contactNumber = jm_delete m contactNumber"

definition oneDay :: int where
  "oneDay = 24 * 60 * 60 * 1000"

text \<open>\<open>GeminiAI.cleanup\<close>: the loop over \<open>chatHistory.entries()\<close>, deleting the
  current entry when its last message is more than a day old; empty lists are
  skipped (\<open>continue\<close>), not deleted.\<close>

definition chat_stale :: "time \<Rightarrow> jstr \<Rightarrow> chat_entry list \<Rightarrow> bool" where
  "chat_stale now c h \<longleftrightarrow> h \<noteq> [] \<and> now - entry_time (last h) > oneDay"

definition gemini_cleanup :: "time \<Rightarrow> chat_store \<Rightarrow> chat_store" where
  "gemini_cleanup now m = jm_sweep (chat_stale now) m m"

definition chat_inv :: "chat_store \<Rightarrow> bool" where
  "chat_inv m \<longleftrightarrow> jm_wf m \<and> (\<forall>(c, h) \<in> set m. length h \<le> 10 \<and> even (length h))"

section \<open>Lemmas: AIReply store\<close>

lemma getConversationHistory_update [simp]:
  "getConversationHistory (updateConversationHistory m c u r l t) c' =
     (if c' = c then
        (let h = getConversationHistory m c @ [\<lparr>userMessage = u, aiReply = r, language = l, timestamp = t\<rparr>]
         in if length h > maxTurns then tl h else h)
      else getConversationHistory m c')"
  by (simp add: updateConversationHistory_def getConversationHistory_def Let_def)

lemma getConversationHistory_bound:
  "conv_inv m \<Longrightarrow> length (getConversationHistory m c) \<le> maxTurns"
  by (auto simp: conv_inv_def getConversationHistory_def jm_get_def maxTurns_def
      split: option.splits dest: map_of_SomeD)

lemma conv_inv_entry:
  "conv_inv m \<Longrightarrow> (c, h) \<in> set (jm_set m k v) \<Longrightarrow> c \<noteq> k \<Longrightarrow> length h \<le> maxTurns"
proof -
  assume inv: "conv_inv m" and mem: "(c, h) \<in> set (jm_set m k v)" and ne: "c \<noteq> k"
  from inv have wf: "jm_wf (jm_set m k v)" by (auto simp: conv_inv_def)
  with mem have "map_of (jm_set m k v) c = Some h"
    by (simp add: jm_wf_def del: map_of_jm_set)
  with ne have "map_of m c = Some h" by simp
  with inv show ?thesis
    by (auto simp: conv_inv_def dest: map_of_SomeD)
qed

lemma conv_inv_set:
  assumes "conv_inv m" and "length h \<le> maxTurns"
  shows "conv_inv (jm_set m k h)"
proof -
  have wf: "jm_wf (jm_set m k h)" using assms(1) by (auto simp: conv_inv_def)
  have "length h' \<le> maxTurns" if mem: "(c, h') \<in> set (jm_set m k h)" for c h'
  proof (cases "c = k")
    case True
    from wf mem have "map_of (jm_set m k h) c = Some h'"
      by (simp add: jm_wf_def del: map_of_jm_set)
    with True assms(2) show ?thesis by simp
  next
    case False
    with assms(1) mem show ?thesis by (rule conv_inv_entry)
  qed
  with wf show ?thesis by (auto simp: conv_inv_def)
qed

section \<open>Lemmas: GeminiAI store\<close>

lemma getChatHistory_update [simp]:
  "getChatHistory (updateChatHistory m c u r t) c' =
     (if c' = c then
        js_slice_last 10 (getChatHistory m c @
          [\<lparr>entry_type = User, message = u, entry_time = t\<rparr>,
           \<lparr>entry_type = Bot, message = r, entry_time = t\<rparr>])
      else getChatHistory m c')"
  by (simp add: updateChatHistory_def getChatHistory_def js_slice_last_def Let_def)

lemma getChatHistory_clear [simp]:
  "getChatHistory (clearChatHistory m c) c' = (if c' = c then [] else getChatHistory m c')"
  by (simp add: clearChatHistory_def getChatHistory_def)

lemma chat_inv_set:
  assumes "chat_inv m" and "length h \<le> 10" and "even (length h)"
  shows "chat_inv (jm_set m k h)"
proof -
  have wf: "jm_wf (jm_set m k h)" using assms(1) by (auto simp: chat_inv_def)
  have "length h' \<le> 10 \<and> even (length h')" if mem: "(c, h') \<in> set (jm_set m k h)" for c h'
  proof -
    from wf mem have look: "map_of (jm_set m k h) c = Some h'"
      by (simp add: jm_wf_def del: map_of_jm_set)
    show ?thesis
    proof (cases "c = k")
      case True
      with look assms(2,3) show ?thesis by simp
    next
      case False
      with look have "(c, h') \<in> set m" by (auto dest: map_of_SomeD)
      with assms(1) show ?thesis by (auto simp: chat_inv_def)
    qed
  qed
  with wf show ?thesis by (auto simp: chat_inv_def)
qed

lemma chat_inv_updateChatHistory:
  assumes "chat_inv m"
  shows "chat_inv (updateChatHistory m c u r t)"
proof -
  let ?h = "getChatHistory m c @ [\<lparr>entry_type = User, message = u, entry_time = t\<rparr>,
                                  \<lparr>entry_type = Bot, message = r, entry_time = t\<rparr>]"
  have "length (getChatHistory m c) \<le> 10 \<and> even (length (getChatHistory m c))"
    using assms by (auto simp: chat_inv_def getChatHistory_def jm_get_def split: option.splits dest: map_of_SomeD)
  then have "length (if length ?h > 10 then js_slice_last 10 ?h else ?h) \<le> 10"
    and "even (length (if length ?h > 10 then js_slice_last 10 ?h else ?h))"
    by (auto simp: min_def)
  with assms show ?thesis
    by (simp add: updateChatHistory_def Let_def chat_inv_set)
qed

lemma getChatHistory_inv:
  "chat_inv m \<Longrightarrow> length (getChatHistory m c) \<le> 10 \<and> even (length (getChatHistory m c))"
  by (auto simp: chat_inv_def getChatHistory_def jm_get_def split: option.splits dest: map_of_SomeD)

lemma turn_fields_eq [simp]:
  "\<lparr>userMessage = userMessage t, aiReply = aiReply t, language = language t, timestamp = timestamp t\<rparr> = t"
  by simp

lemma getConversationHistory_add_turn:
  assumes "length (getConversationHistory m c) \<le> maxTurns"
  shows "getConversationHistory (add_turn m c t) c = js_slice_last maxTurns (getConversationHistory m c @ [t])"
  using assms js_slice_last_append_one [of "getConversationHistory m c" maxTurns t]
  by (simp add: add_turn_def maxTurns_def Let_def)

section \<open>Properties\<close>

text \<open>Claim C4: every contact's AIReply history holds at most 10 turns, and
  \<open>updateConversationHistory\<close> keeps this bound and the distinctness of the
  map's keys.\<close>

theorem conv_inv_update:
  assumes "conv_inv m"
  shows "conv_inv (updateConversationHistory m c u r l t)"
proof -
  let ?t = "\<lparr>userMessage = u, aiReply = r, language = l, timestamp = t\<rparr>"
  let ?h = "getConversationHistory m c @ [?t]"
  have "length (getConversationHistory m c) \<le> maxTurns"
    using assms by (rule getConversationHistory_bound)
  then have "length (if length ?h > maxTurns then tl ?h else ?h) \<le> maxTurns"
    by auto
  with assms show ?thesis
    by (simp add: updateConversationHistory_def Let_def conv_inv_set)
qed

theorem conv_inv_update_witness:
  "conv_inv [] \<and> conv_inv (updateConversationHistory [] (js ''9198'') (js ''hi'') (js ''hello'') English 1000)"
proof -
  have i: "conv_inv []" by (simp add: conv_inv_def jm_wf_def)
  show ?thesis using conv_inv_update [OF i] i by blast
qed

text \<open>Claim C5: inserting an eleventh turn into a full history evicts the
  oldest turn and keeps the order of the other ten, the new turn last.\<close>

theorem update_full_history_evicts_oldest:
  assumes "getConversationHistory m c = h" and "length h = maxTurns"
  shows "getConversationHistory (updateConversationHistory m c u r l t) c =
           tl h @ [\<lparr>userMessage = u, aiReply = r, language = l, timestamp = t\<rparr>]"
  using assms by (cases h) (simp_all add: maxTurns_def)

theorem update_full_history_evicts_oldest_witness:
  "let tn = (\<lambda>i. \<lparr>userMessage = [i], aiReply = [i], language = English, timestamp = int i\<rparr>);
       h = map tn [1..<11]; m = [(js ''c'', h)]
   in getConversationHistory m (js ''c'') = h \<and> length h = maxTurns \<and>
      getConversationHistory (updateConversationHistory m (js ''c'') [11] [11] English 11) (js ''c'') =
        map tn [2..<12]"
proof -
  let ?tn = "\<lambda>i. \<lparr>userMessage = [i], aiReply = [i], language = English, timestamp = int i\<rparr>"
  let ?h = "map ?tn [1..<11]"
  have g: "getConversationHistory [(js ''c'', ?h)] (js ''c'') = ?h"
    by (simp add: getConversationHistory_def jm_get_def)
  have l: "length ?h = maxTurns" by (simp add: maxTurns_def)
  have u: "getConversationHistory (updateConversationHistory [(js ''c'', ?h)] (js ''c'') [11] [11] English 11)
      (js ''c'') = tl ?h @ [\<lparr>userMessage = [11], aiReply = [11], language = English, timestamp = 11\<rparr>]"
    using update_full_history_evicts_oldest [OF g l] .
  have e: "tl ?h @ [\<lparr>userMessage = [11], aiReply = [11], language = English, timestamp = 11\<rparr>] =
      map ?tn [2..<12]"
    by (simp add: upt_rec)
  show ?thesis unfolding Let_def using g l u e by metis
qed

text \<open>Claim C20: refinement of an unbounded log. After any sequence of turns
  appended for one contact, the stored history is exactly the last 10 turns of
  the old history followed by the new ones, in order.\<close>

theorem add_turns_last_ten:
  assumes "length (getConversationHistory m c) \<le> maxTurns"
  shows "getConversationHistory (add_turns m c ts) c =
           js_slice_last maxTurns (getConversationHistory m c @ ts)"
  using assms
proof (induction ts arbitrary: m)
  case Nil
  then show ?case by (simp add: add_turns_def js_slice_last_def)
next
  case (Cons t ts)
  let ?m' = "add_turn m c t"
  have h': "getConversationHistory ?m' c = js_slice_last maxTurns (getConversationHistory m c @ [t])"
    using Cons.prems by (rule getConversationHistory_add_turn)
  then have "length (getConversationHistory ?m' c) \<le> maxTurns" by simp
  then have "getConversationHistory (add_turns ?m' c ts) c =
               js_slice_last maxTurns (getConversationHistory ?m' c @ ts)"
    by (rule Cons.IH)
  with h' show ?case
    by (simp add: add_turns_def js_slice_last_idem)
qed

theorem add_turns_last_ten_witness:
  "let ts = map (\<lambda>i. \<lparr>userMessage = [i], aiReply = [i], language = Hindi, timestamp = int i\<rparr>) [0..<12]
   in length (getConversationHistory [] (js ''c'')) \<le> maxTurns \<and>
      getConversationHistory (add_turns [] (js ''c'') ts) (js ''c'') = drop 2 ts"
proof -
  let ?ts = "map (\<lambda>i. \<lparr>userMessage = [i], aiReply = [i], language = Hindi, timestamp = int i\<rparr>) [0..<12]"
  have b: "length (getConversationHistory [] (js ''c'')) \<le> maxTurns"
    by (simp add: getConversationHistory_def jm_get_def)
  have "js_slice_last maxTurns (getConversationHistory [] (js ''c'') @ ?ts) = drop 2 ?ts"
    by (simp add: getConversationHistory_def jm_get_def js_slice_last_def maxTurns_def)
  with add_turns_last_ten [OF b, of ?ts] b show ?thesis by (simp add: Let_def)
qed

text \<open>Claim C21: every contact's GeminiAI history has an even length of at most
  10 (at most five user/bot exchanges); \<open>updateChatHistory\<close>,
  \<open>clearChatHistory\<close> and \<open>cleanup\<close> keep this.\<close>

theorem chat_inv_preserved:
  assumes "chat_inv m"
  shows "chat_inv (updateChatHistory m c u r t) \<and> chat_inv (clearChatHistory m c) \<and>
         chat_inv (gemini_cleanup now m)"
proof -
  have u: "chat_inv (updateChatHistory m c u r t)"
    using assms by (rule chat_inv_updateChatHistory)
  have c: "chat_inv (clearChatHistory m c)"
    using assms by (auto simp: chat_inv_def clearChatHistory_def jm_delete_def distinct_map_filter jm_wf_def)
  have "jm_wf m" using assms by (simp add: chat_inv_def)
  then have "gemini_cleanup now m = filter (\<lambda>(k, v). \<not> chat_stale now k v) m"
    by (simp add: gemini_cleanup_def jm_sweep_self)
  with assms have g: "chat_inv (gemini_cleanup now m)"
    by (auto simp: chat_inv_def)
  from u c g show ?thesis by blast
qed

theorem chat_inv_preserved_witness:
  "chat_inv [] \<and> chat_inv (updateChatHistory [] (js ''c'') (js ''hi'') (js ''yo'') 5) \<and>
   chat_inv (clearChatHistory [] (js ''c'')) \<and> chat_inv (gemini_cleanup 0 [])"
proof -
  have i: "chat_inv []" by (simp add: chat_inv_def jm_wf_def)
  show ?thesis using chat_inv_preserved [OF i, of "js ''c''" "js ''hi''" "js ''yo''" 5 0] i by blast
qed



end
