(* ===== verification/RateLimiter.thy ===== *)
theory RateLimiter
  imports Prelude
begin

text \<open>
  The per-contact reply limiters of the two reply engines.
  \<^item> \<open>AIReply.checkRateLimit\<close> (src/unnamed/part_000, lines 663--682): a fixed
    window counter \<open>{count, resetTime}\<close> per contact. Its guard
    \<open>userLimits.count >= parseInt(process.env.MESSAGE_RATE_LIMIT) || 2\<close> parses
    as \<open>(count >= parseInt(...)) || 2\<close>, and \<open>2\<close> is truthy: the limiter
    denies every request.
  \<^item> \<open>GeminiAI.canReply\<close> (src/unnamed/part_001, lines 140--148): a minimum
    spacing of \<open>60000 / maxMessagesPerMinute\<close> ms between the recorded replies
    to a contact; \<open>generateReply\<close> records a reply time only when the
    completion call succeeded.
  \<^item> The stale-entry sweep of \<open>AIReply.cleanupOldConversations\<close> (lines 724--729).
  The JavaScript object stored in the map is mutated in place by
  \<open>checkRateLimit\<close> before the guard: the model writes that mutation back to the
  map even on the denying path.
\<close>

section \<open>AIReply: fixed window counter\<close>

record rl_entry =
  count :: int
  resetTime :: time

type_synonym rl_store = "(jstr, rl_entry) jsmap"

definition rateWindow :: int where
  "rateWindow = 60000"

definition checkRateLimit :: "int option \<Rightarrow> time \<Rightarrow> rl_store \<Rightarrow> jstr \<Rightarrow> bool \<times> rl_store" where
  "checkRateLimit envLimit now m fromNumber =
     (let stored = jm_get m fromNumber;
          userLimits = (case stored of None \<Rightarrow> \<lparr>count = 0, resetTime = now\<rparr> | Some u \<Rightarrow> u);
          userLimits' = (if now > resetTime userLimits
                         then userLimits\<lparr>count := 0, resetTime := now + rateWindow\<rparr>
                         else userLimits);
          m' = (case stored of None \<Rightarrow> m | Some _ \<Rightarrow> jm_set m fromNumber userLimits')
      in if js_ge_parsed (count userLimits') envLimit \<or> js_num_truthy 2
         then (False, m')
         else (True, jm_set m' fromNumber (userLimits'\<lparr>count := count userLimits' + 1\<rparr>)))"

text \<open>The sweep over \<open>rateLimits.entries()\<close> in \<open>cleanupOldConversations\<close>.\<close>

definition rlGrace :: int where
  "rlGrace = 300000"

definition rl_sweep :: "time \<Rightarrow> rl_store \<Rightarrow> rl_store" where
  "rl_sweep now m = jm_sweep (\<lambda>c l. now > resetTime l + rlGrace) m m"

section \<open>GeminiAI: minimum spacing\<close>

type_synonym last_reply_store = "(jstr, time) jsmap"

definition oneMinute :: int where
  "oneMinute = 60 * 1000"

definition canReply :: "int option \<Rightarrow> time \<Rightarrow> last_reply_store \<Rightarrow> jstr \<Rightarrow> bool" where
  "canReply envMax now lastReplyTime contactNumber =
     (let maxMessagesPerMinute = js_int_or envMax 2
      in case jm_get lastReplyTime contactNumber of
           None \<Rightarrow> True
         | Some lastReply \<Rightarrow>
             (if lastReply = 0 then True
              else real_of_int (now - lastReply) > real_of_int oneMinute / real_of_int maxMessagesPerMinute))"

text \<open>\<open>this.lastReplyTime.set(contactNumber, Date.now())\<close> after a successful
  completion.\<close>

definition recordReply :: "last_reply_store \<Rightarrow> jstr \<Rightarrow> time \<Rightarrow> last_reply_store" where
  "recordReply m contactNumber now = jm_set m contactNumber now"

text \<open>
  A sequence of \<open>generateReply\<close> calls whose completion succeeds: each event
  is a contact, the time of the \<open>canReply\<close> check and the time the reply is
  recorded (after the awaited completion). The result lists the replies that
  were allowed, with their recorded times.
\<close>

fun gemini_allowed :: "int option \<Rightarrow> last_reply_store \<Rightarrow> (jstr \<times> time \<times> time) list \<Rightarrow> (jstr \<times> time) list" where
  "gemini_allowed env m [] = []"
| "gemini_allowed env m ((c, t0, t1) # evs) =
     (if canReply env t0 m c
      then (c, t1) # gemini_allowed env (recordReply m c t1) evs
      else gemini_allowed env m evs)"

text \<open>The contract: every reply to a contact comes more than \<open>d\<close> ms after the
  previous reply to the same contact (the latest one before it).\<close>

fun spaced :: "real \<Rightarrow> last_reply_store \<Rightarrow> (jstr \<times> time) list \<Rightarrow> bool" where
  "spaced d m [] = True"
| "spaced d m ((c, t) # rs) =
     ((case jm_get m c of None \<Rightarrow> True | Some l \<Rightarrow> real_of_int (t - l) > d) \<and>
      spaced d (jm_set m c t) rs)"

section \<open>Lemmas\<close>

lemma canReply_Some:
  "jm_get m c = Some l \<Longrightarrow> l \<noteq> 0 \<Longrightarrow>
   canReply env now m c \<longleftrightarrow> real_of_int (now - l) > real_of_int oneMinute / real_of_int (js_int_or env 2)"
  by (simp add: canReply_def)

lemma checkRateLimit_denies: "\<not> fst (checkRateLimit env now m c)"
  by (simp add: checkRateLimit_def Let_def js_num_truthy_def split: option.splits)

lemma checkRateLimit_keys: "map fst (snd (checkRateLimit env now m c)) = map fst m"
proof (cases "jm_get m c")
  case None
  then show ?thesis by (simp add: checkRateLimit_def Let_def js_num_truthy_def)
next
  case (Some u)
  then have "c \<in> set (map fst m)" by (rule jm_get_Some_key)
  with Some show ?thesis by (simp add: checkRateLimit_def Let_def js_num_truthy_def keys_jm_set)
qed

lemma canReply_mono: "canReply env t m c \<Longrightarrow> t \<le> t' \<Longrightarrow> canReply env t' m c"
  by (auto simp: canReply_def Let_def split: option.splits if_splits)

lemma js_int_or_nonzero: "js_int_or v d \<noteq> 0 \<or> d = 0"
  by (simp add: js_int_or_def split: option.splits)

section \<open>Properties\<close>

text \<open>Claim C3: \<open>AIReply.checkRateLimit\<close> denies every request, whatever the
  configured limit, the time and the stored counters, and never adds a contact
  to its map: the guard \<open>count >= parseInt(...) || 2\<close> is always truthy.\<close>

theorem checkRateLimit_always_denies:
  "fst (checkRateLimit env now m c) = False \<and> map fst (snd (checkRateLimit env now m c)) = map fst m"
  using checkRateLimit_denies [of env now m c] checkRateLimit_keys [of env now m c] by simp



end
