(* ===== verification/Typing.thy ===== *)
theory Typing
  imports Prelude
begin

text \<open>
  The typing simulator and the outbound calls on a chat.
  \<^item> \<open>SessionManager.sendReplyWithTyping\<close> (src/unnamed/part_000, lines
    236--265): fetch the chat, send the composing state, wait
    \<open>min(base + 30 * length, max)\<close> ms with \<open>base\<close> drawn uniformly from
    \<open>[min, max)\<close>, clear the state, reply; any failing call rethrows.
  \<^item> \<open>WhatsAppHandler.sendMessage\<close>'s delay \<open>min(length * 50, 3000)\<close>
    (src/whatsapp-handler.js, line 160) and the multi-session server's
    \<open>random * 2000 + 1000\<close> (src/unnamed/part_002, line 401).
  \<open>Math.random()\<close> is a parameter \<open>rnd\<close> with \<open>0 \<le> rnd < 1\<close>; a call of the
  messaging adapter that throws is given by a predicate \<open>fails\<close> on the calls,
  and a failing call has no effect. \<open>sleep\<close> never throws.
\<close>

section \<open>Adapter calls\<close>

datatype action =
    AGetChat
  | ATyping
  | AClearState
  | ASleep real
  | AReply jstr

definition may_fail :: "action \<Rightarrow> bool" where
  "may_fail a = (case a of ASleep _ \<Rightarrow> False | _ \<Rightarrow> True)"

text \<open>A straight-line sequence of awaited calls: it stops at the first call that
  throws; the result is the calls that took effect and whether all did.\<close>

fun run_actions :: "(action \<Rightarrow> bool) \<Rightarrow> action list \<Rightarrow> action list \<times> bool" where
  "run_actions fails [] = ([], True)"
| "run_actions fails (a # as) =
     (if may_fail a \<and> fails a then ([], False)
      else (let (p, ok) = run_actions fails as in (a # p, ok)))"

section \<open>Delays\<close>

definition typingDelay :: "int option \<Rightarrow> int option \<Rightarrow> real \<Rightarrow> nat \<Rightarrow> real" where
  "typingDelay envMin envMax rnd len =
     (let typingDelayMin = js_int_or envMin 1000;
          typingDelayMax = js_int_or envMax 3000;
          baseDelay = real_of_int typingDelayMin + rnd * real_of_int (typingDelayMax - typingDelayMin);
          charDelay = real len * 30
      in min (baseDelay + charDelay) (real_of_int typingDelayMax))"

definition sendReplyWithTyping ::
  "(action \<Rightarrow> bool) \<Rightarrow> int option \<Rightarrow> int option \<Rightarrow> real \<Rightarrow> jstr \<Rightarrow> action list \<times> bool" where
  "sendReplyWithTyping fails envMin envMax rnd reply =
     run_actions fails [AGetChat, ATyping, ASleep (typingDelay envMin envMax rnd (length reply)),
                        AClearState, AReply reply]"

definition handlerTypingDelay :: "nat \<Rightarrow> nat" where
  "handlerTypingDelay len = min (len * 50) 3000"

definition serverReplyDelay :: "real \<Rightarrow> real" where
  "serverReplyDelay rnd = rnd * (3000 - 1000) + 1000"

section \<open>Lemmas\<close>

lemma run_actions_ok: "snd (run_actions fails as) \<longleftrightarrow> (\<forall>a \<in> set as. \<not> (may_fail a \<and> fails a))"
  by (induction as) (auto split: prod.splits)

lemma run_actions_all: "snd (run_actions fails as) \<Longrightarrow> fst (run_actions fails as) = as"
  by (induction as) (auto split: prod.splits if_splits)

section \<open>Properties\<close>

text \<open>Claim C10: once the per-character part \<open>30 * length\<close> covers the span
  \<open>max - min\<close>, the typing delay is the configured maximum whatever the random
  base; with the defaults (1000 and 3000 ms) a 100-character reply waits exactly
  3000 ms.\<close>

theorem typingDelay_saturates:
  assumes "0 \<le> rnd" and "rnd \<le> 1"
    and "real_of_int (js_int_or envMax 3000 - js_int_or envMin 1000) \<le> real len * 30"
  shows "typingDelay envMin envMax rnd len = real_of_int (js_int_or envMax 3000)"
proof -
  let ?lo = "real_of_int (js_int_or envMin 1000)" and ?hi = "real_of_int (js_int_or envMax 3000)"
  have "(1 - rnd) * (?hi - ?lo) \<le> real len * 30"
  proof (cases "?lo \<le> ?hi")
    case True
    then have "(1 - rnd) * (?hi - ?lo) \<le> 1 * (?hi - ?lo)"
      using assms(1) by (intro mult_right_mono) auto
    with assms(3) show ?thesis by simp
  next
    case False
    then have "(1 - rnd) * (?hi - ?lo) \<le> 0"
      using assms(2) by (intro mult_nonneg_nonpos) auto
    then show ?thesis by simp
  qed
  then have "?hi \<le> ?lo + rnd * (?hi - ?lo) + real len * 30"
    by (simp add: algebra_simps)
  then show ?thesis by (simp add: typingDelay_def Let_def)
qed

theorem typingDelay_saturates_witness:
  "0 \<le> (1/2::real) \<and> (1/2::real) \<le> 1 \<and>
   real_of_int (js_int_or None 3000 - js_int_or None 1000) \<le> real (100::nat) * 30 \<and>
   typingDelay None None (1/2) 100 = 3000"
proof -
  have h: "real_of_int (js_int_or None 3000 - js_int_or None 1000) \<le> real (100::nat) * 30"
    by (simp add: js_int_or_def)
  have "typingDelay None None (1/2) 100 = real_of_int (js_int_or None 3000)"
    by (rule typingDelay_saturates) (use h in simp_all)
  then show ?thesis using h by (simp add: js_int_or_def)
qed

text \<open>With \<open>0 \<le> Math.random() < 1\<close> and a configuration whose minimum
  does not exceed its maximum, the typing delay lies between the two.\<close>

theorem typingDelay_bounds:
  assumes "0 \<le> rnd" and "rnd < 1" and "js_int_or envMin 1000 \<le> js_int_or envMax 3000"
  shows "real_of_int (js_int_or envMin 1000) \<le> typingDelay envMin envMax rnd len \<and>
         typingDelay envMin envMax rnd len \<le> real_of_int (js_int_or envMax 3000)"
proof -
  let ?lo = "real_of_int (js_int_or envMin 1000)" and ?hi = "real_of_int (js_int_or envMax 3000)"
  have "0 \<le> rnd * (?hi - ?lo)" using assms by simp
  moreover have "rnd * (?hi - ?lo) \<le> ?hi - ?lo"
    using assms by (intro mult_left_le_one_le) auto
  ultimately show ?thesis by (simp add: typingDelay_def Let_def)
qed

theorem typingDelay_bounds_witness:
  "0 \<le> (0::real) \<and> (0::real) < 1 \<and> js_int_or None 1000 \<le> js_int_or None 3000 \<and>
   typingDelay None None 0 5 = 1150"
proof -
  have h: "js_int_or None 1000 \<le> js_int_or None 3000" by (simp add: js_int_or_def)
  have "real_of_int (js_int_or None 1000) \<le> typingDelay None None 0 5"
    using typingDelay_bounds [of 0 None None 5] h by simp
  moreover have "typingDelay None None 0 5 = 1150" by (simp add: typingDelay_def js_int_or_def)
  ultimately show ?thesis using h by simp
qed

text \<open>Claim C37: \<open>sendReplyWithTyping\<close> delivers the reply exactly when every
  call succeeds, and then the calls took effect in the order composing state,
  wait, cleared state, reply; when a call throws, the reply was not sent.\<close>

theorem sendReplyWithTyping_order:
  "(AReply reply \<in> set (fst (sendReplyWithTyping fails envMin envMax rnd reply)) \<longleftrightarrow>
      snd (sendReplyWithTyping fails envMin envMax rnd reply)) \<and>
   (snd (sendReplyWithTyping fails envMin envMax rnd reply) \<longrightarrow>
      fst (sendReplyWithTyping fails envMin envMax rnd reply) =
        [AGetChat, ATyping, ASleep (typingDelay envMin envMax rnd (length reply)), AClearState, AReply reply])"
  by (auto simp: sendReplyWithTyping_def may_fail_def split: prod.splits)

theorem sendReplyWithTyping_order_witness:
  "snd (sendReplyWithTyping (\<lambda>_. False) None None 0 (js ''ok'')) \<and>
   fst (sendReplyWithTyping (\<lambda>_. False) None None 0 (js ''ok'')) =
     [AGetChat, ATyping, ASleep 1060, AClearState, AReply (js ''ok'')] \<and>
   AReply (js ''ok'') \<notin> set (fst (sendReplyWithTyping (\<lambda>a. a = AClearState) None None 0 (js ''ok'')))"
proof -
  have ok: "snd (sendReplyWithTyping (\<lambda>_. False) None None 0 (js ''ok''))"
    by (simp add: sendReplyWithTyping_def may_fail_def)
  have d: "typingDelay None None 0 (length (js ''ok'')) = 1060"
    by (simp add: typingDelay_def js_int_or_def)
  have nf: "\<not> snd (sendReplyWithTyping (\<lambda>a. a = AClearState) None None 0 (js ''ok''))"
    by (simp add: sendReplyWithTyping_def may_fail_def)
  show ?thesis
    using sendReplyWithTyping_order [of "js ''ok''" "\<lambda>_. False" None None 0]
      sendReplyWithTyping_order [of "js ''ok''" "\<lambda>a. a = AClearState" None None 0] ok d nf
    by simp
qed

end
