(* ===== verification/Language.thy ===== *)
theory Language
  imports Prelude
begin

text \<open>
  Language detection of the two reply engines.
  \<^item> \<open>GeminiAI.detectLanguage\<close> (src/unnamed/part_001, lines 86--106): a
    Devanagari code unit and an ASCII letter give \<open>hinglish\<close>, only the first
    \<open>hindi\<close>, only the second \<open>english\<close>; everything else \<open>hinglish\<close>. The
    \<open>hinglishPatterns\<close> test that follows returns \<open>hinglish\<close> on both outcomes.
  \<^item> \<open>AIReply.detectLanguage\<close> (src/unnamed/part_000, lines 463--484, with the
    patterns of lines 394--403): URLs and digit runs are removed and the text
    trimmed; then the \<open>hinglish\<close> regular expression, the script ranges of
    Hindi, Urdu, Bengali, Tamil and Gujarati, and the English character class
    are tried in this order; the default is \<open>hinglish\<close>. The \<open>marathi\<close>
    pattern is never tested.
  The regular expressions are modelled with their JavaScript semantics on
  UTF-16 code units: \<open>.\<close> does not match line terminators, so each lookahead
  \<open>(?=.*X)\<close> looks only to the end of the current line; \<open>test\<close> tries
  every start position; under the \<open>i\<close> flag (no \<open>u\<close> flag) only ASCII
  letters fold.
\<close>

section \<open>Character classes\<close>

definition in_range :: "nat \<Rightarrow> nat \<Rightarrow> nat \<Rightarrow> bool" where
  "in_range lo hi c \<longleftrightarrow> lo \<le> c \<and> c \<le> hi"

definition is_devanagari :: "nat \<Rightarrow> bool" where
  "is_devanagari = in_range 2304 2431"

definition is_arabic :: "nat \<Rightarrow> bool" where
  "is_arabic = in_range 1536 1791"

definition is_bengali :: "nat \<Rightarrow> bool" where
  "is_bengali = in_range 2432 2559"

definition is_tamil :: "nat \<Rightarrow> bool" where
  "is_tamil = in_range 2944 3071"

definition is_gujarati :: "nat \<Rightarrow> bool" where
  "is_gujarati = in_range 2688 2815"

text \<open>\<open>/[...]/.test(s)\<close> for a character class.\<close>

definition class_test :: "(nat \<Rightarrow> bool) \<Rightarrow> jstr \<Rightarrow> bool" where
  "class_test P s \<longleftrightarrow> list_ex P s"

text \<open>Case folding of the \<open>i\<close> flag without \<open>u\<close>: only ASCII letters change.\<close>

definition ascii_fold :: "nat \<Rightarrow> nat" where
  "ascii_fold c = (if 65 \<le> c \<and> c \<le> 90 then c + 32 else c)"

section \<open>GeminiAI\<close>

text \<open>\<open>\b(w1|w2|...)\b\<close> with the \<open>i\<close> flag: a word of the list at some
  position, with no word character (\<open>[A-Za-z0-9_]\<close>) right before or after.\<close>

definition is_word_char :: "nat \<Rightarrow> bool" where
  "is_word_char c \<longleftrightarrow> is_ascii_letter c \<or> is_ascii_digit c \<or> c = 95"

definition word_at :: "jstr \<Rightarrow> nat \<Rightarrow> jstr \<Rightarrow> bool" where
  "word_at s i w \<longleftrightarrow>
     i + length w \<le> length s \<and> map ascii_fold (take (length w) (drop i s)) = w \<and>
     (i = 0 \<or> \<not> is_word_char (s ! (i - 1))) \<and>
     (i + length w = length s \<or> \<not> is_word_char (s ! (i + length w)))"

definition bounded_words_test :: "jstr list \<Rightarrow> jstr \<Rightarrow> bool" where
  "bounded_words_test ws s \<longleftrightarrow> (\<exists>i \<in> set [0..<Suc (length s)]. \<exists>w \<in> set ws. word_at s i w)"

definition geminiHinglishPatterns :: "jstr list list" where
  "geminiHinglishPatterns =
     [map js [''kya'', ''hai'', ''hain'', ''mein'', ''tum'', ''aap'', ''bhi'', ''kar'', ''kaise'', ''kaha'', ''kab''],
      map js [''yaar'', ''bhai'', ''dude'', ''bro'', ''buddy''],
      map js [''ok'', ''okay'', ''thanks'', ''sorry'', ''please'']]"

definition gemini_detectLanguage :: "jstr \<Rightarrow> lang" where
  "gemini_detectLanguage text =
     (let hindiWords = class_test is_devanagari text;
          englishWords = class_test is_ascii_letter text
      in if hindiWords \<and> englishWords then Hinglish
         else if hindiWords then Hindi
         else if englishWords then English
         else if list_ex (\<lambda>ws. bounded_words_test ws text) geminiHinglishPatterns then Hinglish
         else Hinglish)"

section \<open>AIReply\<close>

text \<open>\<open>/https?:\/\/[^\s]+/\<close> at the start of a string: the length of the match.\<close>

definition url_match :: "jstr \<Rightarrow> nat option" where
  "url_match s =
     (let k = (if js_starts_with s (js ''https://'') then Some 8
               else if js_starts_with s (js ''http://'') then Some 7 else None)
      in case k of
           None \<Rightarrow> None
         | Some n \<Rightarrow> (let r = takeWhile (\<lambda>c. \<not> js_is_space c) (drop n s)
                      in if r = [] then None else Some (n + length r)))"

lemma url_match_pos: "url_match s = Some n \<Longrightarrow> 0 < n"
  by (auto simp: url_match_def Let_def split: if_splits option.splits)

text \<open>\<open>text.replace(/https?:\/\/[^\s]+/g, '')\<close>: scan left to right, drop each
  match, resume after it.\<close>

function strip_urls :: "jstr \<Rightarrow> jstr" where
  "strip_urls [] = []"
| "strip_urls (c # cs) =
     (case url_match (c # cs) of
        Some n \<Rightarrow> strip_urls (drop n (c # cs))
      | None \<Rightarrow> c # strip_urls cs)"
  by pat_completeness auto
termination
  by (relation "measure length") (auto dest: url_match_pos)

text \<open>\<open>.replace(/\d+/g, '')\<close>: every run of ASCII digits goes.\<close>

definition strip_digits :: "jstr \<Rightarrow> jstr" where
  "strip_digits s = filter (\<lambda>c. \<not> is_ascii_digit c) s"

definition cleanText :: "jstr \<Rightarrow> jstr" where
  "cleanText text = js_trim (strip_digits (strip_urls text))"

text \<open>\<open>(?=.*[X])\<close> at the start of a suffix: a code unit of the class before
  the next line terminator; \<open>(?=.*(?:w1|...))\<close>: one of the words, folded,
  before the next line terminator.\<close>

definition la_class :: "(nat \<Rightarrow> bool) \<Rightarrow> jstr \<Rightarrow> bool" where
  "la_class P s \<longleftrightarrow> list_ex P (takeWhile (\<lambda>c. \<not> is_line_terminator c) s)"

definition la_words :: "jstr list \<Rightarrow> jstr \<Rightarrow> bool" where
  "la_words ws s \<longleftrightarrow> list_ex (\<lambda>w. js_includes (map ascii_fold (takeWhile (\<lambda>c. \<not> is_line_terminator c) s)) w) ws"

definition hinglishWords :: "jstr list" where
  "hinglishWords = map js [''hai'', ''hain'', ''kya'', ''kaise'', ''kaha'', ''kab'', ''kyun'', ''jo'', ''ki'',
                           ''ka'', ''ke'', ''ko'', ''me'', ''se'', ''pe'', ''par'']"

text \<open>\<open>languagePatterns.hinglish.test(s)\<close>: some start position where either
  alternative's lookaheads hold.\<close>

definition hinglish_test :: "jstr \<Rightarrow> bool" where
  "hinglish_test s \<longleftrightarrow>
     list_ex (\<lambda>i. let t = drop i s in
                  (la_class is_ascii_letter t \<and> la_class is_devanagari t) \<or>
                  (la_class is_ascii_letter t \<and> la_words hinglishWords t))
             [0..<Suc (length s)]"

text \<open>\<open>/^[a-zA-Z\s.,!?'"]*$/\<close>.\<close>

definition english_test :: "jstr \<Rightarrow> bool" where
  "english_test s \<longleftrightarrow>
     list_all (\<lambda>c. is_ascii_letter c \<or> js_is_space c \<or> c \<in> {46, 44, 33, 63, 39, 34}) s"

definition detectLanguage :: "jstr \<Rightarrow> lang" where
  "detectLanguage text =
     (let t = cleanText text
      in if hinglish_test t then Hinglish
         else if class_test is_devanagari t then Hindi
         else if class_test is_arabic t then Urdu
         else if class_test is_bengali t then Bengali
         else if class_test is_tamil t then Tamil
         else if class_test is_gujarati t then Gujarati
         else if english_test t then English
         else Hinglish)"

section \<open>Lemmas\<close>

lemmas lang_defs = detectLanguage_def cleanText_def url_match_def strip_digits_def hinglish_test_def
  la_class_def la_words_def hinglishWords_def ascii_fold_def class_test_def english_test_def
  is_devanagari_def is_arabic_def is_bengali_def is_tamil_def is_gujarati_def in_range_def

lemma url_match_http: "url_match s = Some n \<Longrightarrow> js_includes s (js ''http'')"
proof -
  assume m: "url_match s = Some n"
  then have "js_starts_with s (js ''https://'') \<or> js_starts_with s (js ''http://'')"
    by (auto simp: url_match_def Let_def split: if_splits)
  then show ?thesis
  proof
    assume "js_starts_with s (js ''https://'')"
    then have "js_includes s (js ''https://'')" by (rule js_starts_with_includes)
    moreover have "js_includes (js ''https://'') (js ''http'')" by (simp add: js_def)
    ultimately show ?thesis by (rule js_includes_trans)
  next
    assume "js_starts_with s (js ''http://'')"
    then have "js_includes s (js ''http://'')" by (rule js_starts_with_includes)
    moreover have "js_includes (js ''http://'') (js ''http'')" by (simp add: js_def)
    ultimately show ?thesis by (rule js_includes_trans)
  qed
qed

lemma strip_urls_id: "\<not> js_includes s (js ''http'') \<Longrightarrow> strip_urls s = s"
proof (induction s rule: strip_urls.induct)
  case 1
  then show ?case by simp
next
  case (2 c cs)
  then have none: "url_match (c # cs) = None"
    by (cases "url_match (c # cs)") (auto dest: url_match_http)
  have "\<not> js_includes cs (js ''http'')"
    using "2.prems" by (metis append_Cons js_includes_iff)
  then have "strip_urls cs = cs" by (rule "2.IH"(1) [OF none])
  with none show ?case by simp
qed

lemma strip_digits_id: "\<forall>c \<in> set s. \<not> is_ascii_digit c \<Longrightarrow> strip_digits s = s"
  by (simp add: strip_digits_def)

lemma js_is_space_fold [simp]: "js_is_space (ascii_fold c) = js_is_space c"
  by (auto simp: js_is_space_def ascii_fold_def)

lemma map_fold_trim: "map ascii_fold (js_trim s) = js_trim (map ascii_fold s)"
proof -
  have e: "js_is_space \<circ> ascii_fold = js_is_space" by (simp add: fun_eq_iff)
  show ?thesis by (simp add: js_trim_def dropWhile_map e rev_map)
qed

lemma cleanText_plain:
  assumes "\<forall>c \<in> set s. \<not> is_ascii_digit c" and "\<not> js_includes s (js ''http'')"
  shows "cleanText s = js_trim s"
  using assms by (simp add: cleanText_def strip_urls_id strip_digits_id)

lemma takeWhile_line: "\<forall>c \<in> set t. \<not> is_line_terminator c \<Longrightarrow> takeWhile (\<lambda>c. \<not> is_line_terminator c) t = t"
  by (simp add: takeWhile_eq_all_conv)

lemma la_class_line: "\<forall>c \<in> set t. \<not> is_line_terminator c \<Longrightarrow> la_class P t \<longleftrightarrow> (\<exists>c \<in> set t. P c)"
  by (simp add: la_class_def takeWhile_line list_ex_iff)

lemma la_words_line:
  "\<forall>c \<in> set t. \<not> is_line_terminator c \<Longrightarrow>
   la_words ws t \<longleftrightarrow> (\<exists>w \<in> set ws. js_includes (map ascii_fold t) w)"
  by (simp add: la_words_def takeWhile_line list_ex_iff)

lemma hinglish_test_start:
  "(la_class is_ascii_letter t \<and> la_class is_devanagari t) \<or>
   (la_class is_ascii_letter t \<and> la_words hinglishWords t) \<Longrightarrow> hinglish_test t"
  unfolding hinglish_test_def list_ex_iff by (rule bexI [of _ 0]) simp_all

lemma hinglishWords_letters: "\<forall>w \<in> set hinglishWords. w \<noteq> [] \<and> (\<forall>c \<in> set w. 97 \<le> c \<and> c \<le> 122)"
  by (simp add: hinglishWords_def js_def)

lemma fold_letter: "97 \<le> ascii_fold c \<Longrightarrow> ascii_fold c \<le> 122 \<Longrightarrow> is_ascii_letter c"
  by (auto simp: ascii_fold_def is_ascii_letter_def split: if_splits)

lemma trim_no_terminator:
  "\<forall>c \<in> set s. \<not> is_line_terminator c \<Longrightarrow> \<forall>c \<in> set (js_trim s). \<not> is_line_terminator c"
  using set_trim by blast

section \<open>Properties\<close>

text \<open>Claim C25: script mixing takes precedence. A one-line message without
  digits or \<open>http\<close> that contains an ASCII letter and a Devanagari code unit is
  classified \<open>hinglish\<close> by \<open>AIReply.detectLanguage\<close>, never as a single
  language.\<close>

theorem detectLanguage_mixed_script:
  assumes "\<forall>c \<in> set s. \<not> is_line_terminator c \<and> \<not> is_ascii_digit c"
    and "\<not> js_includes s (js ''http'')"
    and "\<exists>c \<in> set s. is_ascii_letter c" and "\<exists>c \<in> set s. is_devanagari c"
  shows "detectLanguage s = Hinglish"
proof -
  let ?t = "js_trim s"
  have ct: "cleanText s = ?t" using assms(1,2) by (intro cleanText_plain) auto
  have nl: "\<forall>c \<in> set ?t. \<not> is_line_terminator c" using assms(1) trim_no_terminator by blast
  from assms(3) obtain a where a: "a \<in> set s" "is_ascii_letter a" by blast
  then have "a \<in> set ?t" by (intro trim_keeps_char) (auto simp: is_ascii_letter_def js_is_space_def)
  with a nl have l: "la_class is_ascii_letter ?t" by (auto simp: la_class_line)
  from assms(4) obtain d where d: "d \<in> set s" "is_devanagari d" by blast
  then have "d \<in> set ?t" by (intro trim_keeps_char) (auto simp: is_devanagari_def in_range_def js_is_space_def)
  with d nl have "la_class is_devanagari ?t" by (auto simp: la_class_line)
  with l have "hinglish_test ?t" by (intro hinglish_test_start) simp
  with ct show ?thesis by (simp add: detectLanguage_def)
qed

theorem detectLanguage_mixed_script_witness:
  "let s = js ''acha '' @ [2325] in
   (\<forall>c \<in> set s. \<not> is_line_terminator c \<and> \<not> is_ascii_digit c) \<and> \<not> js_includes s (js ''http'') \<and>
   (\<exists>c \<in> set s. is_ascii_letter c) \<and> (\<exists>c \<in> set s. is_devanagari c) \<and> detectLanguage s = Hinglish"
proof -
  let ?s = "js ''acha '' @ [2325]"
  have h1: "\<forall>c \<in> set ?s. \<not> is_line_terminator c \<and> \<not> is_ascii_digit c" by (simp add: js_defs)
  have h2: "\<not> js_includes ?s (js ''http'')" by (simp add: js_defs)
  have h3: "\<exists>c \<in> set ?s. is_ascii_letter c" by (simp add: js_defs)
  have h4: "\<exists>c \<in> set ?s. is_devanagari c" by (simp add: is_devanagari_def in_range_def)
  show ?thesis using detectLanguage_mixed_script [OF h1 h2 h3 h4] h1 h2 h3 h4 by (simp add: Let_def)
qed

text \<open>Claim C39: marker words are matched as substrings. A one-line message
  without digits or \<open>http\<close> that contains one of the Hinglish marker words
  (\<open>hai\<close>, \<open>ki\<close>, \<open>me\<close>, \<open>se\<close>, ...) anywhere, in any ASCII case and
  even inside an English word, is classified \<open>hinglish\<close>: "see you" is.\<close>

theorem detectLanguage_marker_substring:
  assumes "\<forall>c \<in> set s. \<not> is_line_terminator c \<and> \<not> is_ascii_digit c"
    and "\<not> js_includes s (js ''http'')"
    and "\<exists>w \<in> set hinglishWords. js_includes (map ascii_fold s) w"
  shows "detectLanguage s = Hinglish"
proof -
  let ?t = "js_trim s"
  have ct: "cleanText s = ?t" using assms(1,2) by (intro cleanText_plain) auto
  have nl: "\<forall>c \<in> set ?t. \<not> is_line_terminator c" using assms(1) trim_no_terminator by blast
  from assms(3) obtain w where w: "w \<in> set hinglishWords" "js_includes (map ascii_fold s) w" by blast
  from w(1) hinglishWords_letters have wl: "w \<noteq> []" "\<forall>c \<in> set w. 97 \<le> c \<and> c \<le> 122" by auto
  then have "97 \<le> hd w \<and> hd w \<le> 122" "97 \<le> last w \<and> last w \<le> 122" by auto
  then have "\<not> js_is_space (hd w)" "\<not> js_is_space (last w)" by (auto simp: js_is_space_def)
  with w(2) wl(1) have "js_includes (js_trim (map ascii_fold s)) w" by (intro js_includes_trim)
  then have inc: "js_includes (map ascii_fold ?t) w" by (simp add: map_fold_trim)
  then have "set w \<subseteq> set (map ascii_fold ?t)" by (rule js_includes_set)
  then have "set w \<subseteq> ascii_fold ` set ?t" by simp
  moreover have "hd w \<in> set w" using wl(1) by simp
  ultimately obtain a where "a \<in> set ?t" "ascii_fold a = hd w" by auto
  with wl have "a \<in> set ?t" "is_ascii_letter a" by (auto intro: fold_letter)
  with nl have l: "la_class is_ascii_letter ?t" by (auto simp: la_class_line)
  from inc w(1) nl have "la_words hinglishWords ?t" by (auto simp: la_words_line)
  with l have "hinglish_test ?t" by (intro hinglish_test_start) simp
  with ct show ?thesis by (simp add: detectLanguage_def)
qed

theorem detectLanguage_marker_substring_witness:
  "\<not> js_includes (js ''see you'') (js ''http'') \<and>
   (\<exists>w \<in> set hinglishWords. js_includes (map ascii_fold (js ''see you'')) w) \<and>
   detectLanguage (js ''see you'') = Hinglish"
proof -
  have h1: "\<forall>c \<in> set (js ''see you''). \<not> is_line_terminator c \<and> \<not> is_ascii_digit c" by (simp add: js_defs)
  have h2: "\<not> js_includes (js ''see you'') (js ''http'')" by (simp add: js_defs)
  have h3: "\<exists>w \<in> set hinglishWords. js_includes (map ascii_fold (js ''see you'')) w"
    by (simp add: hinglishWords_def ascii_fold_def js_defs)
  show ?thesis using detectLanguage_marker_substring [OF h1 h2 h3] h1 h2 h3 by simp
qed

text \<open>The lookaheads stop at line breaks. Devanagari text on one line
  and English on the next (here "karo" in Devanagari, a line feed, "hello") is
  classified \<open>hindi\<close>, a single language, although the message mixes scripts.\<close>

theorem detectLanguage_two_lines:
  "detectLanguage ([2325, 2352, 2379, 10] @ js ''hello'') = Hindi"
  by (simp add: lang_defs js_defs)

end
