(* ===== verification/Sanitize.thy ===== *)
theory Sanitize
  imports Prelude
begin

text \<open>
  \<open>AIReply.cleanAIResponse\<close> (src/unnamed/part_000, lines 621--639): three
  global replacements that unwrap \<open>**bold**\<close>, \<open>*italic*\<close> and
  \<open>`code`\<close> spans, one that collapses a line break followed by blank lines
  into two line breaks, \<open>trim\<close>, and truncation to 497 code units plus
  \<open>'...'\<close> beyond 500.
  Each \<open>replace(/re/g, ...)\<close> is a left-to-right scan: where the pattern matches
  at the current position the match is replaced and the scan resumes after it,
  otherwise one code unit is kept. \<open>(.*?)\<close> is lazy and stops at line
  terminators; \<open>\s*\<close> is greedy and backtracks to the last line feed of the
  white space run.
\<close>

section \<open>Unwrapping delimited spans\<close>

text \<open>The lazy \<open>(.*?)\<close> followed by the closing delimiter: the shortest
  stretch before the delimiter that crosses no line terminator.\<close>

fun find_close :: "jstr \<Rightarrow> jstr \<Rightarrow> nat option" where
  "find_close d [] = None"
| "find_close d (c # cs) =
     (if js_starts_with (c # cs) d then Some 0
      else if is_line_terminator c then None
      else map_option Suc (find_close d cs))"

lemma find_close_le: "find_close d r = Some k \<Longrightarrow> k \<le> length r"
  by (induction d r arbitrary: k rule: find_close.induct) (auto split: if_splits)

text \<open>\<open>s.replace(/D(.*?)D/g, '$1')\<close> for a non-empty delimiter \<open>D\<close>.\<close>

function strip_pair :: "jstr \<Rightarrow> jstr \<Rightarrow> jstr" where
  "strip_pair d [] = []"
| "strip_pair d (c # cs) =
     (if d \<noteq> [] \<and> js_starts_with (c # cs) d then
        (case find_close d (drop (length d) (c # cs)) of
           Some k \<Rightarrow> take k (drop (length d) (c # cs)) @
                     strip_pair d (drop (length d + k + length d) (c # cs))
         | None \<Rightarrow> c # strip_pair d cs)
      else c # strip_pair d cs)"
  by pat_completeness auto
termination
  by (relation "measure (\<lambda>(d, s). length s)") auto

text \<open>\<open>s.replace(/\n\s*\n\s*\n/g, '\n\n')\<close>: at a line feed whose following
  white space run holds two more line feeds, the match ends at the last line
  feed of the run.\<close>

function collapse_blank :: "jstr \<Rightarrow> jstr" where
  "collapse_blank [] = []"
| "collapse_blank (c # cs) =
     (let w = takeWhile js_is_space cs
      in if c = 10 \<and> 2 \<le> count_list w 10
         then [10, 10] @ collapse_blank (drop (length w - length (takeWhile (\<lambda>x. x \<noteq> 10) (rev w))) cs)
         else c # collapse_blank cs)"
  by pat_completeness auto
termination
  by (relation "measure length") auto

definition maxReplyLength :: nat where
  "maxReplyLength = 500"

definition cleanAIResponse :: "jstr \<Rightarrow> jstr" where
  "cleanAIResponse response =
     (let cleaned = strip_pair (js ''**'') response;
          cleaned = strip_pair (js ''*'') cleaned;
          cleaned = strip_pair (js ''`'') cleaned;
          cleaned = collapse_blank cleaned;
          cleaned = js_trim cleaned
      in if length cleaned > maxReplyLength then js_prefix cleaned 497 @ js ''...'' else cleaned)"

section \<open>Lemmas\<close>

lemma strip_pair_absent: "d \<noteq> [] \<Longrightarrow> hd d \<notin> set s \<Longrightarrow> strip_pair d s = s"
proof (induction s)
  case Nil
  then show ?case by simp
next
  case (Cons c cs)
  have "\<not> js_starts_with (c # cs) d"
    using Cons.prems by (cases d) (auto simp: js_starts_with_def)
  with Cons show ?case by simp
qed

lemma collapse_blank_absent: "10 \<notin> set s \<Longrightarrow> collapse_blank s = s"
  by (induction s) (auto simp: Let_def)

section \<open>Properties\<close>

text \<open>Claim C26: a cleaned reply is at most 500 code units long.\<close>

theorem cleanAIResponse_length: "length (cleanAIResponse r) \<le> maxReplyLength"
  by (simp add: cleanAIResponse_def Let_def js_prefix_def js_def maxReplyLength_def)

text \<open>A reply of at most 500 code units without \<open>*\<close>, backquote or
  line feed and without surrounding white space comes back unchanged.\<close>

theorem cleanAIResponse_plain:
  assumes "\<forall>c \<in> set r. c \<noteq> 42 \<and> c \<noteq> 96 \<and> c \<noteq> 10"
    and "js_trim r = r" and "length r \<le> maxReplyLength"
  shows "cleanAIResponse r = r"
proof -
  from assms(1) have "42 \<notin> set r" "96 \<notin> set r" "10 \<notin> set r" by auto
  then have "strip_pair (js ''**'') r = r" "strip_pair (js ''*'') r = r" "strip_pair (js ''`'') r = r"
      "collapse_blank r = r"
    by (simp_all add: strip_pair_absent collapse_blank_absent js_def)
  with assms(2,3) show ?thesis by (simp add: cleanAIResponse_def Let_def)
qed

theorem cleanAIResponse_plain_witness:
  "js_trim (js ''Hi there!'') = js ''Hi there!'' \<and> length (js ''Hi there!'') \<le> maxReplyLength \<and>
   cleanAIResponse (js ''Hi there!'') = js ''Hi there!'' \<and>
   length (cleanAIResponse (replicate 600 65)) = 500"
proof -
  have h1: "\<forall>c \<in> set (js ''Hi there!''). c \<noteq> 42 \<and> c \<noteq> 96 \<and> c \<noteq> 10" by (simp add: js_def)
  have h2: "js_trim (js ''Hi there!'') = js ''Hi there!''" by (simp add: js_defs)
  have h3: "length (js ''Hi there!'') \<le> maxReplyLength" by (simp add: maxReplyLength_def)
  have "65 \<notin> {42, 96, 10::nat}" by simp
  then have "strip_pair (js ''**'') (replicate 600 65) = replicate 600 65"
      "strip_pair (js ''*'') (replicate 600 65) = replicate 600 65"
      "strip_pair (js ''`'') (replicate 600 65) = replicate 600 65"
      "collapse_blank (replicate 600 65) = replicate 600 65"
    by (simp_all add: strip_pair_absent collapse_blank_absent js_def)
  moreover have "js_trim (replicate 600 (65::nat)) = replicate 600 65"
    by (simp add: js_trim_def js_is_space_def dropWhile_replicate)
  ultimately have "length (cleanAIResponse (replicate 600 65)) = 500"
    by (simp add: cleanAIResponse_def Let_def maxReplyLength_def js_prefix_def js_def)
  with cleanAIResponse_plain [OF h1 h2 h3] h2 h3 show ?thesis by simp
qed

end
