(* ===== verification/GeminiEngine.thy ===== *)
theory GeminiEngine
  imports ConversationStore RateLimiter Language
begin

text \<open>
  The reply engine of the single-session server, class \<open>GeminiAI\<close>
  (src/unnamed/part_001): the prompt (\<open>createPrompt\<close>), the random fallback
  (\<open>getFallbackReply\<close>), \<open>generateReply\<close> and \<open>getStats\<close>. Its state is the
  pair of maps \<open>chatHistory\<close> and \<open>lastReplyTime\<close> (ConversationStore and
  RateLimiter). The completion service \<open>model.generateContent(prompt)\<close> followed
  by \<open>response.text()\<close> is a parameter \<open>model\<close> that maps a prompt to a text or
  to an error (either call throwing); \<open>Math.random()\<close> is \<open>rnd\<close>, the time of the
  \<open>canReply\<close> check is \<open>t0\<close> and the time after the awaited completion
  \<open>t1\<close>.
\<close>

section \<open>Prompt\<close>

definition speaker_label :: "speaker \<Rightarrow> jstr" where
  "speaker_label t = (case t of User \<Rightarrow> js ''User'' | Bot \<Rightarrow> js ''Bot'')"

text \<open>\<open>historyContext\<close>: the last four messages, one per line.\<close>

definition gemini_historyContext :: "chat_entry list \<Rightarrow> jstr" where
  "gemini_historyContext history =
     (if length history > 0
      then js ''Previous conversation:'' @ [10] @
           js_join [10] (map (\<lambda>h. speaker_label (entry_type h) @ js '': '' @ message h)
                            (js_slice_last 4 history)) @ [10, 10]
      else [])"

definition gemini_createPrompt :: "jstr \<Rightarrow> jstr \<Rightarrow> lang \<Rightarrow> chat_entry list \<Rightarrow> jstr" where
  "gemini_createPrompt msg contactName lng history =
     [10] @ js ''You are a friendly, helpful WhatsApp chat assistant. Reply naturally like a close friend.'' @
     [10, 10] @ js ''IMPORTANT RULES:'' @ [10] @ js ''- Keep replies SHORT (max 50 words)'' @ [10] @
     js ''- Match the language style: '' @ lang_label lng @
     [10] @ js ''- Be casual, warm, and friendly'' @ [10] @ js ''- Use emojis naturally (2-3 max)'' @ [10] @
     js ''- Don'' @ [39] @ js ''t be overly formal or robotic'' @ [10] @
     js ''- If asked about previous conversations, refer to context'' @ [10] @
     js ''- For greetings, respond warmly'' @ [10] @ js ''- For questions, give helpful short answers'' @ [10] @
     js ''- For casual chat, be engaging and fun'' @ [10, 10] @
     gemini_historyContext history @
     js ''Current message from '' @ contactName @ js '': '' @ [34] @ msg @
     [34, 10, 10] @ js ''Reply in '' @ lang_label lng @ js '' style:''"

section \<open>Fallback\<close>

definition gemini_fallbackReplies :: "jstr list" where
  "gemini_fallbackReplies = [
     js ''Sorry yaar, thoda technical issue ho gaya '' @ [55357, 56837] @ js '' Kya keh rahe the?'',
     js ''Arre yaar, samjha nahi. Thoda aur detail mein batao na '' @ [55358, 56596],
     js ''Oops! Kuch problem hai mere system mein. Dobara try karo '' @ [55357, 56842],
     js ''Sorry bro, connection issue hai. Thoda wait karo '' @ [55357, 56911],
     js ''Arre, maine suna nahi properly. Phir se bolo na '' @ [55357, 56386]]"

text \<open>\<open>fallbackReplies[Math.floor(Math.random() * fallbackReplies.length)]\<close>; the
  original message is not used.\<close>

definition gemini_getFallbackReply :: "real \<Rightarrow> jstr" where
  "gemini_getFallbackReply rnd =
     gemini_fallbackReplies ! nat \<lfloor>rnd * real (length gemini_fallbackReplies)\<rfloor>"

section \<open>Reply generation\<close>

record gemini_state =
  chatHistory :: chat_store
  lastReplyTime :: last_reply_store

text \<open>The constructor: the model name and the generation settings
  (\<open>GEMINI_MODEL || 'gemini-1.5-flash'\<close>, \<open>parseFloat(AI_TEMPERATURE) || 0.7\<close>,
  \<open>parseInt(AI_MAX_TOKENS) || 150\<close>) and the two empty maps. The client library
  does not check the key here.\<close>

record gemini_config =
  g_model :: jstr
  g_temperature :: real
  g_maxOutputTokens :: int

definition GeminiAI_new :: "jstr option \<Rightarrow> real option \<Rightarrow> int option \<Rightarrow> gemini_config \<times> gemini_state" where
  "GeminiAI_new envModel envTemperature envMaxTokens =
     (\<lparr>g_model = js_str_or envModel (js ''gemini-1.5-flash''),
       g_temperature = (case envTemperature of None \<Rightarrow> 0.7 | Some x \<Rightarrow> if x = 0 then 0.7 else x),
       g_maxOutputTokens = js_int_or envMaxTokens 150\<rparr>,
      \<lparr>chatHistory = [], lastReplyTime = []\<rparr>)"

datatype completion = Completion jstr | CompletionError

text \<open>\<open>generateReply(messageText, contactNumber, contactName)\<close>: \<open>null\<close> when
  rate limited; the fallback, with no state change, when the completion throws;
  otherwise the trimmed text, recorded in the history and as the last reply
  time.\<close>

definition gemini_generateReply ::
  "int option \<Rightarrow> (jstr \<Rightarrow> completion) \<Rightarrow> real \<Rightarrow> time \<Rightarrow> time \<Rightarrow> gemini_state \<Rightarrow>
   jstr \<Rightarrow> jstr \<Rightarrow> jstr \<Rightarrow> jstr option \<times> gemini_state" where
  "gemini_generateReply envMax model rnd t0 t1 st messageText contactNumber contactName =
     (if \<not> canReply envMax t0 (lastReplyTime st) contactNumber then (None, st)
      else
        (let detectedLanguage = gemini_detectLanguage messageText;
             history = getChatHistory (chatHistory st) contactNumber;
             prompt = gemini_createPrompt messageText contactName detectedLanguage history
         in case model prompt of
              CompletionError \<Rightarrow> (Some (gemini_getFallbackReply rnd), st)
            | Completion text \<Rightarrow>
                (let reply = js_trim text
                 in (Some reply,
                     st\<lparr>chatHistory := updateChatHistory (chatHistory st) contactNumber messageText reply t1,
                        lastReplyTime := recordReply (lastReplyTime st) contactNumber t1\<rparr>))))"

section \<open>Statistics\<close>

record gemini_stats =
  totalChats :: nat
  totalMessages :: nat
  activeChatCount :: nat

definition oneHour :: int where
  "oneHour = 60 * 60 * 1000"

text \<open>\<open>getStats()\<close>; \<open>activeChatCount\<close> is the field \<open>activeChats\<close>: the
  histories whose last message is less than an hour old.\<close>

definition gemini_getStats :: "time \<Rightarrow> gemini_state \<Rightarrow> gemini_stats" where
  "gemini_getStats now st =
     \<lparr>totalChats = length (chatHistory st),
      totalMessages = jm_total_length (chatHistory st),
      activeChatCount = length (filter (\<lambda>(c, h). h \<noteq> [] \<and> now - entry_time (last h) < oneHour)
                                       (chatHistory st))\<rparr>"

section \<open>Lemmas\<close>

lemma gemini_fallback_index:
  assumes "0 \<le> rnd" and "rnd < 1"
  shows "nat \<lfloor>rnd * real (length gemini_fallbackReplies)\<rfloor> < length gemini_fallbackReplies"
proof -
  have "rnd * 5 < 5" using assms(2) by simp
  then have "\<lfloor>rnd * 5\<rfloor> < 5" by (simp add: floor_less_iff)
  moreover have "0 \<le> \<lfloor>rnd * 5\<rfloor>" using assms(1) by simp
  ultimately have "nat \<lfloor>rnd * 5\<rfloor> < 5" by (simp add: nat_less_iff)
  then show ?thesis by (simp add: gemini_fallbackReplies_def)
qed

lemma gemini_getFallbackReply_in:
  "0 \<le> rnd \<Longrightarrow> rnd < 1 \<Longrightarrow> gemini_getFallbackReply rnd \<in> set gemini_fallbackReplies"
  unfolding gemini_getFallbackReply_def by (rule nth_mem) (rule gemini_fallback_index)

lemma gemini_generateReply_cases:
  "gemini_generateReply envMax model rnd t0 t1 st m c n =
     (if \<not> canReply envMax t0 (lastReplyTime st) c then (None, st)
      else case model (gemini_createPrompt m n (gemini_detectLanguage m) (getChatHistory (chatHistory st) c)) of
             CompletionError \<Rightarrow> (Some (gemini_getFallbackReply rnd), st)
           | Completion text \<Rightarrow>
               (Some (js_trim text),
                st\<lparr>chatHistory := updateChatHistory (chatHistory st) c m (js_trim text) t1,
                   lastReplyTime := recordReply (lastReplyTime st) c t1\<rparr>))"
  by (simp add: gemini_generateReply_def Let_def split: completion.split)

lemma gemini_historyContext_includes:
  assumes "e \<in> set (js_slice_last 4 history)"
  shows "js_includes (gemini_historyContext history) (message e)"
proof -
  from assms have ne: "length history > 0" by (auto simp: js_slice_last_def)
  let ?l = "map (\<lambda>h. speaker_label (entry_type h) @ js '': '' @ message h) (js_slice_last 4 history)"
  from assms have "js_includes (js_join [10] ?l) (speaker_label (entry_type e) @ js '': '' @ message e)"
    by (intro js_join_includes) simp
  moreover have "js_includes (speaker_label (entry_type e) @ js '': '' @ message e) (message e)"
    by (simp only: append_assoc [symmetric] js_includes_self_suffix)
  ultimately have "js_includes (js_join [10] ?l) (message e)" by (rule js_includes_trans)
  then have "js_includes (js_join [10] ?l @ [10, 10]) (message e)" by (rule js_includes_append_right)
  with ne show ?thesis
    by (simp del: js_append add: gemini_historyContext_def js_includes_chain)
qed

lemma gemini_createPrompt_history:
  "js_includes (gemini_createPrompt m n l h) (gemini_historyContext h)"
  unfolding gemini_createPrompt_def by (simp del: js_append add: js_includes_chain)

section \<open>Properties\<close>

text \<open>Claim C23: a rate-limited call of \<open>GeminiAI.generateReply\<close> returns
  \<open>null\<close> and changes neither map; the completion service is not called.\<close>

theorem gemini_generateReply_rate_limited:
  assumes "\<not> canReply envMax t0 (lastReplyTime st) c"
  shows "gemini_generateReply envMax model rnd t0 t1 st m c n = (None, st)"
  using assms by (simp add: gemini_generateReply_cases)

theorem gemini_generateReply_rate_limited_witness:
  "\<not> canReply None 2000 [(js ''91'', 1000)] (js ''91'') \<and>
   gemini_generateReply None (\<lambda>_. Completion (js ''hi'')) 0 2000 2100
     \<lparr>chatHistory = [], lastReplyTime = [(js ''91'', 1000)]\<rparr> (js ''hello'') (js ''91'') (js ''Ravi'') =
   (None, \<lparr>chatHistory = [], lastReplyTime = [(js ''91'', 1000)]\<rparr>)"
proof -
  have h: "\<not> canReply None 2000 [(js ''91'', 1000)] (js ''91'')"
    by (simp add: canReply_def oneMinute_def js_int_or_def jm_get_def)
  have "\<not> canReply None 2000 (lastReplyTime \<lparr>chatHistory = [], lastReplyTime = [(js ''91'', 1000)]\<rparr>) (js ''91'')"
    using h by simp
  from gemini_generateReply_rate_limited [OF this] h show ?thesis by blast
qed

text \<open>Claim C9: when the completion call throws, \<open>generateReply\<close> returns one of
  the five fixed fallback texts and leaves both maps unchanged: the fallback is
  neither recorded in the history nor counted by the limiter, so every later
  message of that contact passes the limiter again.\<close>

theorem gemini_generateReply_fallback:
  assumes "canReply envMax t0 (lastReplyTime st) c"
    and "model (gemini_createPrompt m n (gemini_detectLanguage m) (getChatHistory (chatHistory st) c)) =
         CompletionError"
    and "0 \<le> rnd" and "rnd < 1"
  shows "fst (gemini_generateReply envMax model rnd t0 t1 st m c n) = Some (gemini_getFallbackReply rnd) \<and>
         gemini_getFallbackReply rnd \<in> set gemini_fallbackReplies \<and>
         snd (gemini_generateReply envMax model rnd t0 t1 st m c n) = st \<and>
         (\<forall>t'. t0 \<le> t' \<longrightarrow>
            canReply envMax t' (lastReplyTime (snd (gemini_generateReply envMax model rnd t0 t1 st m c n))) c)"
  using assms by (simp add: gemini_generateReply_cases gemini_getFallbackReply_in canReply_mono)

theorem gemini_generateReply_fallback_witness:
  "canReply None 5000 [] (js ''91'') \<and>
   fst (gemini_generateReply None (\<lambda>_. CompletionError) 0 5000 5000 \<lparr>chatHistory = [], lastReplyTime = []\<rparr>
          (js ''hello'') (js ''91'') (js ''Ravi'')) = Some (hd gemini_fallbackReplies) \<and>
   canReply None 5001 (lastReplyTime (snd (gemini_generateReply None (\<lambda>_. CompletionError) 0 5000 5000
          \<lparr>chatHistory = [], lastReplyTime = []\<rparr> (js ''hello'') (js ''91'') (js ''Ravi'')))) (js ''91'')"
proof -
  have c: "canReply None 5000 (lastReplyTime \<lparr>chatHistory = [], lastReplyTime = []\<rparr>) (js ''91'')"
    by (simp add: canReply_def jm_get_def)
  have f: "gemini_getFallbackReply 0 = hd gemini_fallbackReplies"
    by (simp add: gemini_getFallbackReply_def gemini_fallbackReplies_def)
  note r = gemini_generateReply_fallback [OF c, of "\<lambda>_. CompletionError" "js ''hello''" "js ''Ravi''" 0 5000]
  from r c f show ?thesis by (simp add: canReply_def jm_get_def)
qed

text \<open>Claim C22: when the completion returns a text, \<open>generateReply\<close> returns
  it trimmed, appends the user message and that reply to the contact's history
  (keeping the last 10 messages), records the time as the contact's last reply,
  and leaves the other contacts' entries unchanged.\<close>

theorem gemini_generateReply_success:
  assumes "canReply envMax t0 (lastReplyTime st) c"
    and "model (gemini_createPrompt m n (gemini_detectLanguage m) (getChatHistory (chatHistory st) c)) =
         Completion text"
  shows "fst (gemini_generateReply envMax model rnd t0 t1 st m c n) = Some (js_trim text) \<and>
         getChatHistory (chatHistory (snd (gemini_generateReply envMax model rnd t0 t1 st m c n))) c =
           js_slice_last 10 (getChatHistory (chatHistory st) c @
             [\<lparr>entry_type = User, message = m, entry_time = t1\<rparr>,
              \<lparr>entry_type = Bot, message = js_trim text, entry_time = t1\<rparr>]) \<and>
         jm_get (lastReplyTime (snd (gemini_generateReply envMax model rnd t0 t1 st m c n))) c = Some t1 \<and>
         (\<forall>c'. c' \<noteq> c \<longrightarrow>
            getChatHistory (chatHistory (snd (gemini_generateReply envMax model rnd t0 t1 st m c n))) c' =
              getChatHistory (chatHistory st) c' \<and>
            jm_get (lastReplyTime (snd (gemini_generateReply envMax model rnd t0 t1 st m c n))) c' =
              jm_get (lastReplyTime st) c')"
  using assms by (simp add: gemini_generateReply_cases recordReply_def)

theorem gemini_generateReply_success_witness:
  "canReply None 5000 [] (js ''91'') \<and>
   gemini_generateReply None (\<lambda>_. Completion (js '' Hello! '')) 0 5000 5400
     \<lparr>chatHistory = [], lastReplyTime = []\<rparr> (js ''hi'') (js ''91'') (js ''Ravi'') =
   (Some (js ''Hello!''),
    \<lparr>chatHistory = [(js ''91'', [\<lparr>entry_type = User, message = js ''hi'', entry_time = 5400\<rparr>,
                                 \<lparr>entry_type = Bot, message = js ''Hello!'', entry_time = 5400\<rparr>])],
     lastReplyTime = [(js ''91'', 5400)]\<rparr>)"
proof -
  have c: "canReply None 5000 (lastReplyTime \<lparr>chatHistory = [], lastReplyTime = []\<rparr>) (js ''91'')"
    by (simp add: canReply_def jm_get_def)
  have t: "js_trim (js '' Hello! '') = js ''Hello!''" by (simp add: js_defs)
  note r = gemini_generateReply_success [OF c, of "\<lambda>_. Completion (js '' Hello! '')" "js ''hi''" "js ''Ravi''"
      "js '' Hello! ''" 0 5400]
  have "snd (gemini_generateReply None (\<lambda>_. Completion (js '' Hello! '')) 0 5000 5400
     \<lparr>chatHistory = [], lastReplyTime = []\<rparr> (js ''hi'') (js ''91'') (js ''Ravi'')) =
    \<lparr>chatHistory = [(js ''91'', [\<lparr>entry_type = User, message = js ''hi'', entry_time = 5400\<rparr>,
                                 \<lparr>entry_type = Bot, message = js ''Hello!'', entry_time = 5400\<rparr>])],
     lastReplyTime = [(js ''91'', 5400)]\<rparr>"
    using c t by (simp add: gemini_generateReply_cases updateChatHistory_def getChatHistory_def
        recordReply_def jm_get_def)
  moreover have "fst (gemini_generateReply None (\<lambda>_. Completion (js '' Hello! '')) 0 5000 5400
     \<lparr>chatHistory = [], lastReplyTime = []\<rparr> (js ''hi'') (js ''91'') (js ''Ravi'')) = Some (js ''Hello!'')"
    using r t by (simp only: simp_thms)
  ultimately show ?thesis using c by (simp only: prod_eq_iff simp_thms) simp
qed

text \<open>\<open>generateReply\<close> keeps the history invariant of \<open>chatHistory\<close>
  (at most five exchanges per contact, distinct contacts) and the distinctness of
  the keys of \<open>lastReplyTime\<close>, on every path.\<close>

theorem gemini_generateReply_inv:
  assumes "chat_inv (chatHistory st)" and "jm_wf (lastReplyTime st)"
  shows "chat_inv (chatHistory (snd (gemini_generateReply envMax model rnd t0 t1 st m c n))) \<and>
         jm_wf (lastReplyTime (snd (gemini_generateReply envMax model rnd t0 t1 st m c n)))"
  using assms by (auto simp: gemini_generateReply_cases recordReply_def chat_inv_updateChatHistory
      split: completion.split)

theorem gemini_generateReply_inv_witness:
  "chat_inv [] \<and> jm_wf ([] :: last_reply_store) \<and>
   chat_inv (chatHistory (snd (gemini_generateReply None (\<lambda>_. Completion (js ''ok'')) 0 1 2
     \<lparr>chatHistory = [], lastReplyTime = []\<rparr> (js ''hi'') (js ''91'') (js ''Ravi''))))"
proof -
  have i: "chat_inv (chatHistory \<lparr>chatHistory = [], lastReplyTime = []\<rparr>)" by (simp add: chat_inv_def jm_wf_def)
  have w: "jm_wf (lastReplyTime \<lparr>chatHistory = [], lastReplyTime = [] :: last_reply_store\<rparr>)" by (simp add: jm_wf_def)
  from gemini_generateReply_inv [OF i w] i w show ?thesis by simp
qed

text \<open>The prompt sent to the completion service contains the message,
  the contact's name, the detected language's name and the text of each of the
  last four messages of the history.\<close>

theorem gemini_createPrompt_mentions:
  "js_includes (gemini_createPrompt m n l h) m \<and> js_includes (gemini_createPrompt m n l h) n \<and>
   js_includes (gemini_createPrompt m n l h) (lang_label l) \<and>
   (\<forall>e \<in> set (js_slice_last 4 h). js_includes (gemini_createPrompt m n l h) (message e))"
proof -
  have "\<forall>e \<in> set (js_slice_last 4 h). js_includes (gemini_createPrompt m n l h) (message e)"
    using gemini_createPrompt_history gemini_historyContext_includes js_includes_trans by blast
  moreover have "js_includes (gemini_createPrompt m n l h) m \<and> js_includes (gemini_createPrompt m n l h) n \<and>
      js_includes (gemini_createPrompt m n l h) (lang_label l)"
    unfolding gemini_createPrompt_def by (simp del: js_append add: js_includes_chain)
  ultimately show ?thesis by blast
qed

theorem gemini_createPrompt_mentions_witness:
  "js_includes (gemini_createPrompt (js ''kya haal'') (js ''Ravi'') Hinglish
      [\<lparr>entry_type = User, message = js ''hi'', entry_time = 1\<rparr>]) (js ''hi'') \<and>
   js_includes (gemini_createPrompt (js ''kya haal'') (js ''Ravi'') Hinglish
      [\<lparr>entry_type = User, message = js ''hi'', entry_time = 1\<rparr>]) (js ''kya haal'')"
  using gemini_createPrompt_mentions [of "js ''kya haal''" "js ''Ravi''" Hinglish
      "[\<lparr>entry_type = User, message = js ''hi'', entry_time = 1\<rparr>]"]
  by (simp add: js_slice_last_def)

end
