(* ===== verification/AIReplyEngine.thy ===== *)
theory AIReplyEngine
  imports ConversationStore RateLimiter Language Sanitize
begin

text \<open>
  The reply engine of the multi-session server, class \<open>AIReply\<close>
  (src/unnamed/part_000, lines 377--868). Its state is the pair of maps
  \<open>conversationHistory\<close> (ConversationStore) and \<open>rateLimits\<close> (RateLimiter);
  its configuration is read from the environment by the constructor, which
  throws without an API key. The HTTP call of \<open>callGeminiAPI\<close> is a parameter
  \<open>api\<close> from the prompt to the response (an error, or the response's
  \<open>candidates\<close> with the text of each where it has one);
  \<open>String.prototype.toLowerCase\<close> is a parameter \<open>toLowerCase\<close>. The hourly
  \<open>setInterval\<close> of \<open>initializeSystem\<close> calls \<open>cleanupOldConversations\<close>,
  modelled as an operation on the state.
\<close>

section \<open>Configuration and state\<close>

record ai_config =
  apiKey :: jstr
  ai_model :: jstr
  botName :: jstr
  personality :: jstr
  fallbackReply :: jstr

record ai_state =
  conversationHistory :: conv_store
  rateLimits :: rl_store

text \<open>The constructor with \<open>initializeSystem\<close>: \<open>None\<close> is the thrown
  \<open>'Gemini API key is required'\<close>.\<close>

definition AIReply_new ::
  "jstr option \<Rightarrow> jstr option \<Rightarrow> jstr option \<Rightarrow> jstr option \<Rightarrow> jstr option \<Rightarrow> (ai_config \<times> ai_state) option" where
  "AIReply_new envApiKey envModel envBotName envPersonality envFallback =
     (case envApiKey of
        None \<Rightarrow> None
      | Some k \<Rightarrow>
          if k = [] then None
          else Some (\<lparr>apiKey = k, ai_model = js_str_or envModel (js ''gemini-2.0-flash''),
                      botName = js_str_or envBotName (js ''WhatsApp Assistant''),
                      personality = js_str_or envPersonality (js ''friendly_helpful_human_like''),
                      fallbackReply = js_str_or envFallback
                        (js ''Sorry yaar, thoda issue ho gaya. Tum bolo kya chahiye?'')\<rparr>,
                     \<lparr>conversationHistory = [], rateLimits = []\<rparr>))"

section \<open>Prompt\<close>

definition ai_systemPrompt :: "jstr \<Rightarrow> lang \<Rightarrow> jstr" where
  "ai_systemPrompt bname lng =
     (case lng of
    Hinglish \<Rightarrow>
        js ''You are a friendly WhatsApp assistant named '' @ bname @
        js ''. Reply in natural Hinglish (Hindi + English mix) like a real Indian'' @
        js '' friend would. Be conversational, helpful, and use common Hindi words'' @
        js '' mixed with English. Keep replies short and casual, max 2-3'' @
        js '' sentences. Use emojis naturally but don'' @ [39] @ js ''t overdo it.''
  | Hindi \<Rightarrow>
        [2310, 2346, 32] @ bname @ [32, 2344, 2366, 2350, 32, 2325, 2375] @ js '' WhatsApp '' @
        [2309, 2360, 2367, 2360, 2381, 2335, 2375, 2306, 2335, 32, 2361, 2376, 2306, 2404, 32, 2361, 2367,
        2306, 2342, 2368, 32, 2350, 2375, 2306, 32, 2346, 2381, 2352, 2366, 2325, 2371, 2340, 2367, 2325,
        32, 2324, 2352, 32, 2350, 2376, 2340, 2381, 2352, 2368, 2346, 2370, 2352, 2381, 2339, 32, 2340,
        2352, 2368, 2325, 2375, 32, 2360, 2375, 32, 2332, 2357, 2366, 2348, 32, 2342, 2375, 2306, 2404, 32,
        2360, 2306, 2325, 2381, 2359, 2367, 2346, 2381, 2340, 32, 2324, 2352, 32, 2360, 2361, 2366, 2351,
        2325, 32, 2352, 2361, 2375, 2306, 2404]
  | English \<Rightarrow>
        js ''You are '' @ bname @ js '', a WhatsApp assistant. Reply in clear, friendly English. Be'' @
        js '' conversational and helpful. Keep responses brief and natural.''
  | Urdu \<Rightarrow>
        [1570, 1662, 32] @ bname @ [32, 1606, 1575, 1605, 1740] @ js '' WhatsApp '' @
        [1575, 1587, 1587, 1657, 1606, 1657, 32, 1729, 1740, 1722, 1748, 32, 1575, 1585, 1583, 1608, 32,
        1605, 1740, 1722, 32, 1583, 1608, 1587, 1578, 1575, 1606, 1729, 32, 1575, 1606, 1583, 1575, 1586,
        32, 1605, 1740, 1722, 32, 1580, 1608, 1575, 1576, 32, 1583, 1740, 1722, 1748, 32, 1605, 1582, 1578,
        1589, 1585, 32, 1575, 1608, 1585, 32, 1605, 1583, 1583, 1711, 1575, 1585, 32, 1585, 1729, 1740,
        1722, 1748]
  | Bengali \<Rightarrow>
        [2438, 2474, 2472, 2495, 32] @ bname @ [32, 2472, 2494, 2478, 2503, 2480] @ js '' WhatsApp '' @
        [2488, 2489, 2494, 2479, 2492, 2453, 2404, 32, 2476, 2494, 2434, 2482, 2494, 2479, 2492, 32, 2476,
        2472, 2509, 2471, 2497, 2468, 2509, 2476, 2474, 2498, 2480, 2509, 2467, 32, 2477, 2494, 2476, 2503,
        32, 2441, 2468, 2509, 2468, 2480, 32, 2470, 2495, 2472, 2404, 32, 2488, 2434, 2453, 2509, 2487,
        2495, 2474, 2509, 2468, 32, 2447, 2476, 2434, 32, 2488, 2489, 2494, 2479, 2492, 2453, 32, 2469,
        2494, 2453, 2497, 2472, 2404]
  | Tamil \<Rightarrow>
        [2984, 3008, 2969, 3021, 2965, 2995, 3021, 32] @ bname @ [32, 2958, 2985, 3021, 2993] @
        js '' WhatsApp '' @
        [2953, 2980, 2997, 3007, 2991, 3006, 2995, 2992, 3021, 46, 32, 2980, 2990, 3007, 2996, 3007, 2994,
        3021, 32, 2984, 2975, 3021, 2986, 3006, 2985, 32, 2990, 3009, 2993, 3016, 2991, 3007, 2994, 3021,
        32, 2986, 2980, 3007, 2994, 2995, 3007, 2965, 3021, 2965, 2997, 3009, 2990, 3021, 46, 32, 2970,
        3009, 2992, 3009, 2965, 3021, 2965, 2990, 3006, 2965, 2997, 3009, 2990, 3021, 32, 2953, 2980, 2997,
        3007, 2965, 2992, 2990, 3006, 2965, 2997, 3009, 2990, 3021, 32, 2951, 2992, 3009, 2969, 3021, 2965,
        2995, 3021, 2404]
  | Gujarati \<Rightarrow>
        [2724, 2734, 2759, 32] @ bname @ [32, 2728, 2750, 2734, 2728, 2750] @ js '' WhatsApp '' @
        [2744, 2745, 2750, 2735, 2709, 32, 2715, 2763, 2404, 32, 2711, 2753, 2716, 2736, 2750, 2724, 2752,
        2734, 2750, 2690, 32, 2734, 2751, 2724, 2765, 2736, 2724, 2750, 2730, 2754, 2736, 2765, 2723, 32,
        2736, 2752, 2724, 2759, 32, 2716, 2741, 2750, 2732, 32, 2694, 2730, 2763, 2404, 32, 2719, 2754,
        2690, 2709, 2750, 32, 2693, 2728, 2759, 32, 2734, 2726, 2726, 2736, 2754, 2730, 32, 2736, 2745,
        2763, 2404])"

definition includes_any :: "jstr \<Rightarrow> jstr list \<Rightarrow> bool" where
  "includes_any s ws = list_ex (js_includes s) ws"

definition getContextualInstructions :: "(jstr \<Rightarrow> jstr) \<Rightarrow> jstr \<Rightarrow> jstr" where
  "getContextualInstructions toLowerCase msg =
     (let lowerMessage = toLowerCase msg
      in (if includes_any lowerMessage [js ''help'', js ''madad'', [2488, 2494, 2489, 2494, 2479, 2509, 2479]]
          then [10] @ js ''User is asking for help. Be supportive and offer specific assistance.'' else []) @
         (if includes_any lowerMessage [js ''price'', js ''cost'', js ''paisa'', [2463, 2494, 2453, 2494]]
          then [10] @ js ''User is asking about pricing. Be helpful but mention you need more'' @ js '' context.'' else []) @
         (if includes_any lowerMessage [js ''time'', js ''samay'', [2488, 2478, 2479, 2492]]
          then [10] @ js ''User is asking about time-related information. Be helpful with'' @ js '' scheduling.'' else []) @
         (if includes_any lowerMessage [js ''thank'', js ''dhanyawad'', [2471, 2472, 2509, 2479, 2476, 2494, 2470]]
          then [10] @ js ''User is thanking you. Respond warmly and ask if they need anything'' @ js '' else.'' else []) @
         (if includes_any lowerMessage [js ''sad'', js ''upset'', js ''problem'', js ''pareshan'', [2342, 2369, 2326, 2368]]
          then [10] @ js ''User seems upset or has problems. Be empathetic and supportive.'' else []))"

text \<open>The last three turns of the history, each as a user line and a reply
  line.\<close>

definition ai_historyLines :: "turn list \<Rightarrow> jstr" where
  "ai_historyLines history =
     concat (map (\<lambda>entry. [10] @ js ''User: '' @ userMessage entry @ [10] @ js ''You: '' @ aiReply entry)
                 (js_slice_last 3 history))"

text \<open>\<open>buildPrompt(message, language, history, context)\<close>; \<open>context\<close> is not
  read.\<close>

definition buildPrompt :: "jstr \<Rightarrow> (jstr \<Rightarrow> jstr) \<Rightarrow> jstr \<Rightarrow> lang \<Rightarrow> turn list \<Rightarrow> jstr" where
  "buildPrompt bname toLowerCase msg lng history =
     ai_systemPrompt bname lng @
     (if length history > 0
      then [10, 10] @ js ''Conversation history (last few messages):'' @ ai_historyLines history
      else []) @
     getContextualInstructions toLowerCase msg @
     [10, 10] @ js ''User'' @ [39] @ js ''s current message: '' @ msg @
     [10, 10] @ js ''Respond naturally in '' @ lang_label lng @ js '' as a helpful friend:''"

section \<open>Completion call\<close>

text \<open>The outcome of \<open>axios.post\<close>: \<open>ApiError\<close> when it rejects (HTTP error
  status, network failure, the 15 s timeout); otherwise the \<open>candidates\<close> array
  (empty when absent), each with \<open>content.parts[0].text\<close> or \<open>None\<close> when one of
  these fields is missing (a \<open>TypeError\<close>, caught).\<close>

datatype api_response = ApiError | ApiData "jstr option list"

definition callGeminiAPI :: "api_response \<Rightarrow> jstr option" where
  "callGeminiAPI response =
     (case response of
        ApiError \<Rightarrow> None
      | ApiData [] \<Rightarrow> None
      | ApiData (None # _) \<Rightarrow> None
      | ApiData (Some text # _) \<Rightarrow> Some (cleanAIResponse (js_trim text)))"

section \<open>Fallback\<close>

definition ai_getFallbackReply :: "lang \<Rightarrow> jstr" where
  "ai_getFallbackReply lng =
     (case lng of
    Hinglish \<Rightarrow>
        js ''Sorry yaar, thoda issue ho gaya. Tum bolo kya chahiye? '' @ [55357, 56837]
  | Hindi \<Rightarrow>
        [2350, 2366, 2347, 32, 2325, 2352, 2375, 2306, 44, 32, 2325, 2369, 2331, 32, 2360, 2350, 2360,
        2381, 2351, 2366, 32, 2361, 2379, 32, 2327, 2312, 2404, 32, 2310, 2346, 32, 2348, 2340, 2366, 2319,
        2306, 32, 2325, 2381, 2351, 2366, 32, 2330, 2366, 2361, 2367, 2319, 63, 32, 55357, 56837]
  | English \<Rightarrow>
        js ''Sorry, I encountered an issue. What can I help you with? '' @ [55357, 56837]
  | Urdu \<Rightarrow>
        [1605, 1593, 1575, 1601, 32, 1705, 1585, 1740, 1722, 1548, 32, 1705, 1670, 1726, 32, 1605, 1587,
        1574, 1604, 1729, 32, 1729, 1608, 32, 1711, 1740, 1575, 1748, 32, 1570, 1662, 32, 1576, 1578, 1575,
        1574, 1740, 1722, 32, 1705, 1740, 1575, 32, 1670, 1575, 1729, 1740, 1746, 1567, 32, 55357, 56837]
  | Bengali \<Rightarrow>
        [2470, 2497, 2435, 2454, 2495, 2468, 44, 32, 2453, 2495, 2459, 2497, 32, 2488, 2478, 2488, 2509,
        2479, 2494, 32, 2489, 2479, 2492, 2503, 2459, 2503, 2404, 32, 2438, 2474, 2472, 2495, 32, 2476,
        2482, 2497, 2472, 32, 2453, 2496, 32, 2482, 2494, 2455, 2476, 2503, 63, 32, 55357, 56837]
  | Tamil \<Rightarrow>
        [2990, 2985, 3021, 2985, 3007, 2965, 3021, 2965, 2997, 3009, 2990, 3021, 44, 32, 2970, 3007, 2994,
        32, 2986, 3007, 2992, 2970, 3021, 2970, 2985, 3016, 32, 2959, 2993, 3021, 2986, 2975, 3021, 2975,
        2980, 3009, 46, 32, 2984, 3008, 2969, 3021, 2965, 2995, 3021, 32, 2958, 2985, 3021, 2985, 32, 2997,
        3015, 2979, 3021, 2975, 3009, 2990, 3021, 32, 2958, 2985, 3021, 2993, 3009, 32, 2970, 3018, 2994,
        3021, 2994, 3009, 2969, 3021, 2965, 2995, 3021, 63, 32, 55357, 56837]
  | Gujarati \<Rightarrow>
        [2734, 2750, 2731, 32, 2709, 2736, 2742, 2763, 44, 32, 2725, 2763, 2721, 2752, 32, 2744, 2734,
        2744, 2765, 2735, 2750, 32, 2725, 2696, 46, 32, 2724, 2734, 2759, 32, 2709, 2745, 2763, 32, 2742,
        2753, 2690, 32, 2716, 2763, 2696, 2703, 63, 32, 55357, 56837])"

section \<open>Reply generation\<close>

text \<open>\<open>generateReply(message, fromNumber)\<close> at time \<open>now\<close> (the limiter's
  \<open>Date.now()\<close>) and \<open>t1\<close> (after the awaited HTTP call). The \<open>catch\<close> branch is
  not modelled: no call in the \<open>try\<close> block throws on a string message
  (\<open>callGeminiAPI\<close> catches its own errors).\<close>

definition ai_generateReply ::
  "int option \<Rightarrow> ai_config \<Rightarrow> (jstr \<Rightarrow> jstr) \<Rightarrow> (jstr \<Rightarrow> api_response) \<Rightarrow> time \<Rightarrow> time \<Rightarrow>
   ai_state \<Rightarrow> jstr \<Rightarrow> jstr \<Rightarrow> jstr option \<times> ai_state" where
  "ai_generateReply envLimit cfg toLowerCase api now t1 st msg fromNumber =
     (let (allowed, rl) = checkRateLimit envLimit now (rateLimits st) fromNumber;
          st1 = st\<lparr>rateLimits := rl\<rparr>
      in if \<not> allowed then (None, st1)
         else
           (let lng = detectLanguage msg;
                history = getConversationHistory (conversationHistory st1) fromNumber;
                prompt = buildPrompt (botName cfg) toLowerCase msg lng history
            in case callGeminiAPI (api prompt) of
                 Some aiResponse \<Rightarrow>
                   if aiResponse \<noteq> []
                   then (Some aiResponse,
                         st1\<lparr>conversationHistory :=
                               updateConversationHistory (conversationHistory st1) fromNumber msg
                                 aiResponse lng t1\<rparr>)
                   else (Some (ai_getFallbackReply lng), st1)
               | None \<Rightarrow> (Some (ai_getFallbackReply lng), st1)))"

section \<open>Maintenance\<close>

definition maxAge :: int where
  "maxAge = 24 * 60 * 60 * 1000"

text \<open>The deletion test of the first loop of \<open>cleanupOldConversations\<close>: an
  empty history, or a last turn older than a day.\<close>

definition conv_stale :: "time \<Rightarrow> jstr \<Rightarrow> turn list \<Rightarrow> bool" where
  "conv_stale now c h \<longleftrightarrow> h = [] \<or> now - timestamp (last h) > maxAge"

definition cleanupOldConversations :: "time \<Rightarrow> ai_state \<Rightarrow> ai_state" where
  "cleanupOldConversations now st =
     st\<lparr>conversationHistory := jm_sweep (conv_stale now) (conversationHistory st) (conversationHistory st),
        rateLimits := rl_sweep now (rateLimits st)\<rparr>"

definition ai_shutdown :: "ai_state \<Rightarrow> ai_state" where
  "ai_shutdown st = st\<lparr>conversationHistory := [], rateLimits := []\<rparr>"

section \<open>Statistics\<close>

text \<open>\<open>getLanguageStats\<close>: the number of turns per language, in the order the
  languages first occur.\<close>

definition getLanguageStats :: "conv_store \<Rightarrow> (lang, nat) jsmap" where
  "getLanguageStats m =
     foldl (\<lambda>languageCounts entry.
              jm_set languageCounts (language entry)
                ((case jm_get languageCounts (language entry) of None \<Rightarrow> 0 | Some n \<Rightarrow> n) + 1))
           [] (concat (map snd m))"

record ai_stats =
  activeConversations :: nat
  ai_totalMessages :: nat
  rateLimitedUsers :: nat
  languages :: "(lang, nat) jsmap"

definition ai_getStats :: "ai_state \<Rightarrow> ai_stats" where
  "ai_getStats st =
     \<lparr>activeConversations = length (conversationHistory st),
      ai_totalMessages = jm_total_length (conversationHistory st),
      rateLimitedUsers = length (rateLimits st),
      languages = getLanguageStats (conversationHistory st)\<rparr>"

record ai_health =
  status :: jstr
  hasApiKey :: bool
  hc_model :: jstr
  hc_activeConversations :: nat
  hc_rateLimitedUsers :: nat
  lastCleanup :: "time option"

text \<open>\<open>healthCheck()\<close>: \<open>this.lastCleanup\<close> is never assigned, so
  \<open>lastCleanup\<close> is always \<open>null\<close>.\<close>

definition ai_healthCheck :: "ai_config \<Rightarrow> ai_state \<Rightarrow> ai_health" where
  "ai_healthCheck cfg st =
     \<lparr>status = js ''healthy'', hasApiKey = (apiKey cfg \<noteq> []), hc_model = ai_model cfg,
      hc_activeConversations = length (conversationHistory st),
      hc_rateLimitedUsers = length (rateLimits st), lastCleanup = None\<rparr>"

section \<open>Commands\<close>

definition getHelpMessage :: "jstr \<Rightarrow> lang \<Rightarrow> jstr" where
  "getHelpMessage bname lng =
     (case lng of
    Hinglish \<Rightarrow>
        [55358, 56598, 32] @ bname @ js '' Help:'' @ [10, 10, 55357, 56561] @ js '' Main features:'' @
        [10, 8226] @ js '' Natural conversation in multiple languages'' @ [10, 8226] @
        js '' Smart replies with context'' @ [10, 8226] @ js '' Remembers our chat history'' @
        [10, 10, 55357, 56615] @ js '' Commands:'' @ [10] @ js ''/help - Show this help'' @ [10] @
        js ''/clear - Clear chat history'' @ [10] @ js ''/status - Bot status'' @ [10, 10, 55357, 56492] @
        js '' Just chat normally, I'' @ [39] @ js ''ll understand! '' @ [55357, 56842]
  | Hindi \<Rightarrow>
        [55358, 56598, 32] @ bname @
        [32, 2360, 2361, 2366, 2351, 2340, 2366, 58, 10, 10, 55357, 56561, 32, 2350, 2369, 2326, 2381,
        2351, 32, 2357, 2367, 2358, 2375, 2359, 2340, 2366, 2319, 2306, 58, 10, 8226, 32, 2325, 2312, 32,
        2349, 2366, 2359, 2366, 2323, 2306, 32, 2350, 2375, 2306, 32, 2346, 2381, 2352, 2366, 2325, 2371,
        2340, 2367, 2325, 32, 2348, 2366, 2340, 2330, 2368, 2340, 10, 8226, 32, 2360, 2306, 2342, 2352,
        2381, 2349, 32, 2325, 2375, 32, 2360, 2366, 2341, 32, 2360, 2381, 2350, 2366, 2352, 2381, 2335, 32,
        2313, 2340, 2381, 2340, 2352, 10, 8226, 32, 2330, 2376, 2335, 32, 2311, 2340, 2367, 2361, 2366,
        2360, 32, 2351, 2366, 2342, 32, 2352, 2326, 2340, 2366, 32, 2361, 2376, 10, 10, 55357, 56615, 32,
        2325, 2350, 2366, 2306, 2337, 58, 10] @
        js ''/help - '' @
        [2351, 2361, 32, 2360, 2361, 2366, 2351, 2340, 2366, 32, 2342, 2367, 2326, 2366, 2319, 2306, 10] @
        js ''/clear - '' @
        [2330, 2376, 2335, 32, 2311, 2340, 2367, 2361, 2366, 2360, 32, 2360, 2366, 2347, 2364, 32, 2325,
        2352, 2375, 2306, 10] @
        js ''/status - '' @
        [2348, 2377, 2335, 32, 2360, 2381, 2341, 2367, 2340, 2367, 10, 10, 55357, 56492, 32, 2348, 2360,
        32, 2360, 2366, 2350, 2366, 2344, 2381, 2351, 32, 2352, 2370, 2346, 32, 2360, 2375, 32, 2330, 2376,
        2335, 32, 2325, 2352, 2375, 2306, 44, 32, 2350, 2376, 2306, 32, 2360, 2350, 2333, 32, 2332, 2366,
        2314, 2306, 2327, 2366, 33, 32, 55357, 56842]
  | English \<Rightarrow>
        [55358, 56598, 32] @ bname @ js '' Help:'' @ [10, 10, 55357, 56561] @ js '' Main features:'' @
        [10, 8226] @ js '' Natural conversation in multiple languages'' @ [10, 8226] @
        js '' Smart contextual replies'' @ [10, 8226] @ js '' Remembers chat history'' @
        [10, 10, 55357, 56615] @ js '' Commands:'' @ [10] @ js ''/help - Show this help'' @ [10] @
        js ''/clear - Clear chat history'' @ [10] @ js ''/status - Bot status'' @ [10, 10, 55357, 56492] @
        js '' Just chat normally, I understand multiple languages! '' @ [55357, 56842]
  | Urdu \<Rightarrow>
        [55358, 56598, 32] @ bname @ js '' Help:'' @ [10, 10, 55357, 56561] @ js '' Main features:'' @
        [10, 8226] @ js '' Natural conversation in multiple languages'' @ [10, 8226] @
        js '' Smart replies with context'' @ [10, 8226] @ js '' Remembers our chat history'' @
        [10, 10, 55357, 56615] @ js '' Commands:'' @ [10] @ js ''/help - Show this help'' @ [10] @
        js ''/clear - Clear chat history'' @ [10] @ js ''/status - Bot status'' @ [10, 10, 55357, 56492] @
        js '' Just chat normally, I'' @ [39] @ js ''ll understand! '' @ [55357, 56842]
  | Bengali \<Rightarrow>
        [55358, 56598, 32] @ bname @ js '' Help:'' @ [10, 10, 55357, 56561] @ js '' Main features:'' @
        [10, 8226] @ js '' Natural conversation in multiple languages'' @ [10, 8226] @
        js '' Smart replies with context'' @ [10, 8226] @ js '' Remembers our chat history'' @
        [10, 10, 55357, 56615] @ js '' Commands:'' @ [10] @ js ''/help - Show this help'' @ [10] @
        js ''/clear - Clear chat history'' @ [10] @ js ''/status - Bot status'' @ [10, 10, 55357, 56492] @
        js '' Just chat normally, I'' @ [39] @ js ''ll understand! '' @ [55357, 56842]
  | Tamil \<Rightarrow>
        [55358, 56598, 32] @ bname @ js '' Help:'' @ [10, 10, 55357, 56561] @ js '' Main features:'' @
        [10, 8226] @ js '' Natural conversation in multiple languages'' @ [10, 8226] @
        js '' Smart replies with context'' @ [10, 8226] @ js '' Remembers our chat history'' @
        [10, 10, 55357, 56615] @ js '' Commands:'' @ [10] @ js ''/help - Show this help'' @ [10] @
        js ''/clear - Clear chat history'' @ [10] @ js ''/status - Bot status'' @ [10, 10, 55357, 56492] @
        js '' Just chat normally, I'' @ [39] @ js ''ll understand! '' @ [55357, 56842]
  | Gujarati \<Rightarrow>
        [55358, 56598, 32] @ bname @ js '' Help:'' @ [10, 10, 55357, 56561] @ js '' Main features:'' @
        [10, 8226] @ js '' Natural conversation in multiple languages'' @ [10, 8226] @
        js '' Smart replies with context'' @ [10, 8226] @ js '' Remembers our chat history'' @
        [10, 10, 55357, 56615] @ js '' Commands:'' @ [10] @ js ''/help - Show this help'' @ [10] @
        js ''/clear - Clear chat history'' @ [10] @ js ''/status - Bot status'' @ [10, 10, 55357, 56492] @
        js '' Just chat normally, I'' @ [39] @ js ''ll understand! '' @ [55357, 56842])"

definition ai_statusText :: "ai_stats \<Rightarrow> jstr" where
  "ai_statusText stats =
     js ''Bot Status:'' @ [10, 9989] @ js '' Active'' @ [10, 55357, 56492, 32] @
     js_nat_str (activeConversations stats) @ js '' conversations'' @ [10, 55357, 56522, 32] @
     js_nat_str (ai_totalMessages stats) @ js '' total messages''"

text \<open>\<open>handleSpecialCommands(message, fromNumber)\<close>: the reply text of a command,
  or \<open>None\<close> for \<open>null\<close>; \<open>/clear\<close> deletes the contact's history.\<close>

definition handleSpecialCommands ::
  "jstr \<Rightarrow> (jstr \<Rightarrow> jstr) \<Rightarrow> ai_state \<Rightarrow> jstr \<Rightarrow> jstr \<Rightarrow> jstr option \<times> ai_state" where
  "handleSpecialCommands bname toLowerCase st msg fromNumber =
     (let lowerMessage = js_trim (toLowerCase msg)
      in if lowerMessage = js ''/help'' \<or> lowerMessage = js ''help'' \<or> lowerMessage = [2350, 2342, 2342]
         then (Some (getHelpMessage bname (detectLanguage msg)), st)
         else if lowerMessage = js ''/clear'' \<or> lowerMessage = js ''clear history''
         then (Some (js ''Conversation history cleared! '' @ [55358, 56825]),
               st\<lparr>conversationHistory := jm_delete (conversationHistory st) fromNumber\<rparr>)
         else if lowerMessage = js ''/status''
         then (Some (ai_statusText (ai_getStats st)), st)
         else (None, st))"

section \<open>Message analysis\<close>

datatype sentiment = Positive | Negative | Neutral

definition positiveWords :: "jstr list" where
  "positiveWords =
     [js ''good'',
      js ''great'',
      js ''awesome'',
      js ''nice'',
      js ''love'',
      js ''happy'',
      [2309, 2330, 2381, 2331, 2366],
      [2348, 2338, 2364, 2367, 2351, 2366],
      [2326, 2369, 2358],
      [2474, 2509, 2480, 2495, 2479, 2492],
      [2477, 2494, 2482]]"

definition negativeWords :: "jstr list" where
  "negativeWords =
     [js ''bad'',
      js ''sad'',
      js ''angry'',
      js ''hate'',
      js ''problem'',
      js ''issue'',
      [2348, 2369, 2352, 2366],
      [2342, 2369, 2326, 2368],
      [2360, 2350, 2360, 2381, 2351, 2366],
      [2454, 2494, 2480, 2494, 2474],
      [2470, 2497, 2435, 2454]]"

definition analyzeSentiment :: "(jstr \<Rightarrow> jstr) \<Rightarrow> jstr \<Rightarrow> sentiment" where
  "analyzeSentiment toLowerCase msg =
     (let lowerMessage = toLowerCase msg;
          positiveCount = length (filter (js_includes lowerMessage) positiveWords);
          negativeCount = length (filter (js_includes lowerMessage) negativeWords)
      in if positiveCount > negativeCount then Positive
         else if negativeCount > positiveCount then Negative else Neutral)"

text \<open>\<open>(s.match(/[X]+/g) || []).length\<close>: the number of maximal runs of code
  units of the class (a global match of a greedy \<open>+\<close> resumes after each run);
  \<open>prev\<close> says whether the previous code unit was in the class.\<close>

fun count_runs :: "(nat \<Rightarrow> bool) \<Rightarrow> bool \<Rightarrow> jstr \<Rightarrow> nat" where
  "count_runs P prev [] = 0"
| "count_runs P prev (c # cs) = (if P c \<and> \<not> prev then 1 else 0) + count_runs P (P c) cs"

text \<open>The result of \<open>processAdvancedLanguage\<close>; \<open>hindiRatio = None\<close> is
  JavaScript's \<open>NaN\<close> of \<open>0 / 0\<close>.\<close>

record lang_analysis =
  dominantLanguage :: lang
  mixedContent :: bool
  hindiRatio :: "real option"

definition processAdvancedLanguage :: "jstr \<Rightarrow> lang \<Rightarrow> lang_analysis" where
  "processAdvancedLanguage msg lng =
     (if lng = Hinglish then
        (let hindiWords = count_runs is_devanagari False msg;
             englishWords = count_runs is_ascii_letter False msg
         in \<lparr>dominantLanguage = (if hindiWords > englishWords then Hindi else English),
             mixedContent = True,
             hindiRatio = (if hindiWords + englishWords = 0 then None
                           else Some (real hindiWords / real (hindiWords + englishWords)))\<rparr>)
      else \<lparr>dominantLanguage = lng, mixedContent = False, hindiRatio = Some 0\<rparr>)"

text \<open>\<open>generateContextAwareReply\<close>: a command is answered directly; otherwise
  the sentiment and the language analysis are stored in \<open>context\<close>, which
  \<open>buildPrompt\<close> does not read, and \<open>generateReply\<close> runs.\<close>

definition generateContextAwareReply ::
  "int option \<Rightarrow> ai_config \<Rightarrow> (jstr \<Rightarrow> jstr) \<Rightarrow> (jstr \<Rightarrow> api_response) \<Rightarrow> time \<Rightarrow> time \<Rightarrow>
   ai_state \<Rightarrow> jstr \<Rightarrow> jstr \<Rightarrow> jstr option \<times> ai_state" where
  "generateContextAwareReply envLimit cfg toLowerCase api now t1 st msg fromNumber =
     (case handleSpecialCommands (botName cfg) toLowerCase st msg fromNumber of
        (Some specialCommand, st') \<Rightarrow>
          if specialCommand \<noteq> [] then (Some specialCommand, st')
          else ai_generateReply envLimit cfg toLowerCase api now t1 st' msg fromNumber
      | (None, st') \<Rightarrow> ai_generateReply envLimit cfg toLowerCase api now t1 st' msg fromNumber)"

section \<open>Lemmas\<close>

lemma ai_generateReply_denied:
  "ai_generateReply envLimit cfg toLowerCase api now t1 st msg c =
     (None, st\<lparr>rateLimits := snd (checkRateLimit envLimit now (rateLimits st) c)\<rparr>)"
proof -
  obtain a r where e: "checkRateLimit envLimit now (rateLimits st) c = (a, r)" by fastforce
  moreover from e have "\<not> a" using checkRateLimit_denies [of envLimit now "rateLimits st" c] by simp
  ultimately show ?thesis by (simp add: ai_generateReply_def)
qed

lemma getHelpMessage_nonempty: "getHelpMessage b l \<noteq> []"
  by (cases l) (simp_all add: getHelpMessage_def)

lemma handleSpecialCommands_nonempty:
  "fst (handleSpecialCommands b toLowerCase st msg c) = Some r \<Longrightarrow> r \<noteq> []"
  by (auto simp: handleSpecialCommands_def Let_def getHelpMessage_nonempty ai_statusText_def
      split: if_splits)

lemma getLanguageStats_foldl:
  assumes "jm_wf acc"
  shows "sum_list (map snd (foldl (\<lambda>languageCounts entry.
              jm_set languageCounts (language entry)
                ((case jm_get languageCounts (language entry) of None \<Rightarrow> 0 | Some n \<Rightarrow> n) + 1)) acc es)) =
         sum_list (map snd acc) + length es \<and>
         jm_wf (foldl (\<lambda>languageCounts entry.
              jm_set languageCounts (language entry)
                ((case jm_get languageCounts (language entry) of None \<Rightarrow> 0 | Some n \<Rightarrow> n) + 1)) acc es)"
  using assms
proof (induction es arbitrary: acc)
  case Nil
  then show ?case by simp
next
  case (Cons e es)
  let ?n = "case jm_get acc (language e) of None \<Rightarrow> 0 | Some n \<Rightarrow> n"
  have "sum_list (map snd (jm_set acc (language e) (?n + 1))) + ?n = sum_list (map snd acc) + (?n + 1)"
    using Cons.prems by (rule sum_jm_set)
  moreover have "jm_wf (jm_set acc (language e) (?n + 1))" using Cons.prems by blast
  ultimately show ?case using Cons.IH by simp
qed

lemma ai_systemPrompt_includes: "js_includes (ai_systemPrompt b l) b"
  by (cases l) (simp_all del: js_append add: ai_systemPrompt_def js_includes_chain)

section \<open>Properties\<close>

text \<open>Claim C24: because \<open>checkRateLimit\<close> denies every request,
  \<open>AIReply.generateReply\<close> returns \<open>null\<close> on every message: it never calls the
  completion service, never stores a turn, and adds no contact to the rate-limit
  map.\<close>

theorem ai_generateReply_never_replies:
  "fst (ai_generateReply envLimit cfg toLowerCase api now t1 st msg c) = None \<and>
   conversationHistory (snd (ai_generateReply envLimit cfg toLowerCase api now t1 st msg c)) =
     conversationHistory st \<and>
   map fst (rateLimits (snd (ai_generateReply envLimit cfg toLowerCase api now t1 st msg c))) =
     map fst (rateLimits st)"
  by (simp add: ai_generateReply_denied checkRateLimit_keys)

text \<open>\<open>generateContextAwareReply\<close> answers a message exactly when it
  is one of the commands \<open>/help\<close>, \<open>help\<close>, \<open>/clear\<close>, \<open>clear history\<close>,
  \<open>/status\<close> (after lower-casing and trimming), and then with the command's
  text.\<close>

theorem generateContextAwareReply_commands_only:
  "fst (generateContextAwareReply envLimit cfg toLowerCase api now t1 st msg c) =
   fst (handleSpecialCommands (botName cfg) toLowerCase st msg c)"
proof (cases "handleSpecialCommands (botName cfg) toLowerCase st msg c")
  case (Pair r st')
  show ?thesis
  proof (cases r)
    case None
    with Pair show ?thesis by (simp add: generateContextAwareReply_def ai_generateReply_denied)
  next
    case (Some t)
    with Pair have "t \<noteq> []" using handleSpecialCommands_nonempty [of "botName cfg" toLowerCase st msg c t] by simp
    with Pair Some show ?thesis by (simp add: generateContextAwareReply_def)
  qed
qed

text \<open>\<open>cleanupOldConversations\<close> deletes exactly the empty histories
  and those whose last turn is more than a day old, and exactly the rate-limit
  entries whose window ended more than five minutes ago; the survivors keep their
  order, and the history bound of 10 turns is kept.\<close>

theorem cleanupOldConversations_filter:
  assumes "conv_inv (conversationHistory st)" and "jm_wf (rateLimits st)"
  shows "conversationHistory (cleanupOldConversations now st) =
           filter (\<lambda>(c, h). h \<noteq> [] \<and> now - timestamp (last h) \<le> maxAge) (conversationHistory st) \<and>
         rateLimits (cleanupOldConversations now st) =
           filter (\<lambda>(c, l). now \<le> resetTime l + rlGrace) (rateLimits st) \<and>
         conv_inv (conversationHistory (cleanupOldConversations now st))"
proof -
  have w: "jm_wf (conversationHistory st)" using assms(1) by (simp add: conv_inv_def)
  have h: "conversationHistory (cleanupOldConversations now st) =
           filter (\<lambda>(c, h). h \<noteq> [] \<and> now - timestamp (last h) \<le> maxAge) (conversationHistory st)"
    using w by (simp add: cleanupOldConversations_def jm_sweep_self conv_stale_def not_less)
  have r: "rateLimits (cleanupOldConversations now st) =
           filter (\<lambda>(c, l). now \<le> resetTime l + rlGrace) (rateLimits st)"
    using assms(2) by (simp add: cleanupOldConversations_def rl_sweep_def jm_sweep_self not_less)
  have "conv_inv (filter (\<lambda>(c, h). h \<noteq> [] \<and> now - timestamp (last h) \<le> maxAge) (conversationHistory st))"
    using assms(1) by (auto simp: conv_inv_def)
  with h r show ?thesis by simp
qed

theorem cleanupOldConversations_filter_witness:
  "let t = \<lparr>userMessage = js ''hi'', aiReply = js ''yo'', language = English, timestamp = 0\<rparr>;
       st = \<lparr>conversationHistory = [(js ''a'', []), (js ''b'', [t])],
             rateLimits = [(js ''b'', \<lparr>count = 1, resetTime = 0\<rparr>)]\<rparr>
   in conv_inv (conversationHistory st) \<and> jm_wf (rateLimits st) \<and>
      cleanupOldConversations 1000 st = st\<lparr>conversationHistory := [(js ''b'', [t])]\<rparr>"
proof -
  let ?t = "\<lparr>userMessage = js ''hi'', aiReply = js ''yo'', language = English, timestamp = 0\<rparr>"
  let ?st = "\<lparr>conversationHistory = [(js ''a'', []), (js ''b'', [?t])],
              rateLimits = [(js ''b'', \<lparr>count = 1, resetTime = 0\<rparr>)]\<rparr>"
  have i: "conv_inv (conversationHistory ?st)" by (simp add: conv_inv_def jm_wf_def maxTurns_def js_def)
  have w: "jm_wf (rateLimits ?st)" by (simp add: jm_wf_def)
  have "cleanupOldConversations 1000 ?st = ?st\<lparr>conversationHistory := [(js ''b'', [?t])]\<rparr>"
    using cleanupOldConversations_filter [OF i w, of 1000]
    by (simp add: cleanupOldConversations_def maxAge_def rlGrace_def)
  with i w show ?thesis by (simp add: Let_def)
qed

text \<open>The language statistics count every stored turn exactly once:
  their sum is the total number of turns, and each language appears once.\<close>

theorem getLanguageStats_total:
  "sum_list (map snd (getLanguageStats m)) = jm_total_length m \<and> jm_wf (getLanguageStats m)"
proof -
  have "jm_wf ([] :: (lang, nat) jsmap)" by (simp add: jm_wf_def)
  from getLanguageStats_foldl [OF this, of "concat (map snd m)"]
  show ?thesis
    by (simp add: getLanguageStats_def jm_total_length_def length_concat comp_def)
qed

text \<open>The AIReply prompt contains the bot's name, the message and the
  name of the detected language, whatever the history.\<close>

theorem buildPrompt_mentions:
  "js_includes (buildPrompt b toLowerCase msg l h) b \<and> js_includes (buildPrompt b toLowerCase msg l h) msg \<and>
   js_includes (buildPrompt b toLowerCase msg l h) (lang_label l)"
proof -
  have "js_includes (buildPrompt b toLowerCase msg l h) b"
    unfolding buildPrompt_def using ai_systemPrompt_includes by (rule js_includes_append_right)
  moreover have "js_includes (buildPrompt b toLowerCase msg l h) msg \<and>
      js_includes (buildPrompt b toLowerCase msg l h) (lang_label l)"
    unfolding buildPrompt_def by (simp del: js_append add: js_includes_chain)
  ultimately show ?thesis by blast
qed

text \<open>Constructing \<open>AIReply\<close> fails (throws) exactly when
  \<open>GEMINI_API_KEY\<close> is unset or empty; otherwise the maps start empty and the bot
  name defaults to \<open>WhatsApp Assistant\<close>.\<close>

theorem AIReply_new_requires_key:
  "(AIReply_new k em eb ep ef = None \<longleftrightarrow> k = None \<or> k = Some []) \<and>
   (AIReply_new k em None ep ef \<noteq> None \<longrightarrow>
      botName (fst (the (AIReply_new k em None ep ef))) = js ''WhatsApp Assistant'' \<and>
      snd (the (AIReply_new k em None ep ef)) = \<lparr>conversationHistory = [], rateLimits = []\<rparr>)"
  by (auto simp: AIReply_new_def js_str_or_def split: option.splits)

theorem AIReply_new_requires_key_witness:
  "AIReply_new (Some (js ''key'')) None None None None \<noteq> None \<and>
   botName (fst (the (AIReply_new (Some (js ''key'')) None None None None))) = js ''WhatsApp Assistant'' \<and>
   AIReply_new (Some []) None None None None = None"
proof -
  have n: "AIReply_new (Some (js ''key'')) None None None None \<noteq> None" by (simp add: AIReply_new_def js_def)
  from AIReply_new_requires_key [of "Some (js ''key'')" None None None None] n
       AIReply_new_requires_key [of "Some []" None None None None]
  show ?thesis by simp
qed

end
