(* ===== verification/Pipeline.thy ===== *)
theory Pipeline
  imports GeminiEngine Typing
begin

text \<open>
  The message path of the single-session bot, class \<open>SessionManager\<close>
  (src/unnamed/part_000, lines 1--376): the part of its state the message
  handler reads and writes (\<open>isReady\<close>, \<open>messageCount\<close>, \<open>activeChats\<close> and the
  \<open>GeminiAI\<close> engine it was given), \<open>handleIncomingMessage\<close> (lines 166--233),
  \<open>sendMessage\<close>, \<open>getStatus\<close> and one tick of the stats timer. The adapter
  objects are inputs: the incoming message, the contact that
  \<open>message.getContact()\<close> resolves to (or \<open>None\<close> when it throws), the calls on the
  chat that throw (\<open>fails\<close>), the completion service and the clock readings.
  The socket emits are returned as a list.
\<close>

section \<open>State, inputs and emits\<close>

record bot_state =
  isReady :: bool
  messageCount :: nat
  activeChats :: "jstr list"
  engine :: gemini_state

record wa_message =
  fromMe :: bool
  msg_from :: jstr
  msg_timestamp :: int
  body :: jstr

record wa_contact =
  contact_name :: "jstr option"
  pushname :: "jstr option"
  number :: jstr

text \<open>The environment settings the handler reads: \<open>MAX_MESSAGES_PER_MINUTE\<close>,
  \<open>TYPING_DELAY_MIN\<close>, \<open>TYPING_DELAY_MAX\<close> (\<open>None\<close> when unset or not a
  number).\<close>

record bot_config =
  envMaxPerMinute :: "int option"
  envTypingMin :: "int option"
  envTypingMax :: "int option"

text \<open>What the outside world does during one call of the handler: the clock at
  the age check, at \<open>canReply\<close> and after the completion; the contact; the
  completion service; the two draws of \<open>Math.random()\<close>; the calls that
  throw.\<close>

record msg_ctx =
  now :: time
  tCheck :: time
  tReply :: time
  contact :: "wa_contact option"
  model :: "jstr \<Rightarrow> completion"
  rndFallback :: real
  rndTyping :: real
  fails :: "action \<Rightarrow> bool"

datatype sio_emit =
    EmitQr
  | EmitAuthenticated
  | EmitReady
  | EmitDisconnected jstr
  | EmitError jstr
  | EmitMessageReply jstr jstr jstr
  | EmitMessageCount nat
  | EmitActiveChats nat

section \<open>Incoming messages\<close>

text \<open>\<open>contact.name || contact.pushname || contact.number\<close>.\<close>

definition contactName_of :: "wa_contact \<Rightarrow> jstr" where
  "contactName_of c = js_str_or (contact_name c) (js_str_or (pushname c) (number c))"

definition fiveMinutes :: int where
  "fiveMinutes = 5 * 60 * 1000"

definition pipelineFallback :: jstr where
  "pipelineFallback = js ''Sorry, kuch technical problem hai. Thoda baad try karo '' @ [55357, 56837]"

text \<open>The \<open>catch\<close> of the handler: \<open>message.reply(fallback)\<close>, whose own failure
  is caught and logged.\<close>

definition reply_fallback :: "(action \<Rightarrow> bool) \<Rightarrow> action list" where
  "reply_fallback failing = fst (run_actions failing [AReply pipelineFallback])"

definition handleIncomingMessage ::
  "bot_config \<Rightarrow> msg_ctx \<Rightarrow> bot_state \<Rightarrow> wa_message \<Rightarrow> bot_state \<times> action list \<times> sio_emit list" where
  "handleIncomingMessage cfg ctx st msg =
     (if \<not> isReady st \<or> fromMe msg then (st, [], [])
      else if js_includes (msg_from msg) (js ''@g.us'') then (st, [], [])
      else if msg_timestamp msg * 1000 < now ctx - fiveMinutes then (st, [], [])
      else
        (case contact ctx of
           None \<Rightarrow> (st, reply_fallback (fails ctx), [])
         | Some c \<Rightarrow>
             (let contactName = contactName_of c;
                  messageText = js_trim (body msg)
              in if messageText = [] then (st, [], [])
                 else
                   (let st1 = st\<lparr>activeChats := js_set_add (activeChats st) (number c)\<rparr>;
                        (aiReply, eng) = gemini_generateReply (envMaxPerMinute cfg) (model ctx) (rndFallback ctx)
                                           (tCheck ctx) (tReply ctx) (engine st1) messageText (number c) contactName;
                        st2 = st1\<lparr>engine := eng\<rparr>
                    in case aiReply of
                         None \<Rightarrow> (st2, [], [])
                       | Some r \<Rightarrow>
                           if r = [] then (st2, [], [])
                           else
                             (let (acts, ok) = sendReplyWithTyping (fails ctx) (envTypingMin cfg) (envTypingMax cfg)
                                                 (rndTyping ctx) r
                              in if ok then (st2\<lparr>messageCount := messageCount st2 + 1\<rparr>, acts,
                                             [EmitMessageReply contactName messageText r])
                                 else (st2, acts @ reply_fallback (fails ctx), []))))))"

section \<open>Outbound messages, status, stats timer\<close>

datatype send_result = SendOk | SendError jstr

text \<open>\<open>sendMessage(to, message)\<close>: \<open>sendFails\<close> says whether
  \<open>client.sendMessage\<close> throws (with its message); the chat id gets the suffix
  \<open>@c.us\<close> unless it has it. The result is the chat id the message went to, if
  any.\<close>

definition chatId_of :: "jstr \<Rightarrow> jstr" where
  "chatId_of to = (if js_includes to (js ''@c.us'') then to else to @ js ''@c.us'')"

definition sm_sendMessage :: "(jstr \<Rightarrow> jstr option) \<Rightarrow> bot_state \<Rightarrow> jstr \<Rightarrow> jstr \<Rightarrow> send_result \<times> jstr option" where
  "sm_sendMessage sendFails st to text =
     (if \<not> isReady st then (SendError (js ''WhatsApp client is not ready''), None)
      else case sendFails (chatId_of to) of
             Some e \<Rightarrow> (SendError e, None)
           | None \<Rightarrow> (SendOk, Some (chatId_of to)))"

record sm_status =
  st_isReady :: bool
  st_messageCount :: nat
  st_activeChats :: nat
  st_qrRetries :: nat

definition getStatus :: "bot_state \<Rightarrow> nat \<Rightarrow> sm_status" where
  "getStatus st qrRetries =
     \<lparr>st_isReady = isReady st, st_messageCount = messageCount st,
      st_activeChats = length (activeChats st), st_qrRetries = qrRetries\<rparr>"

text \<open>One firing of the 30 s interval of \<open>startStatsUpdater\<close>.\<close>

definition stats_tick :: "bot_state \<Rightarrow> bot_state \<times> sio_emit list" where
  "stats_tick st =
     (if isReady st
      then (if length (activeChats st) > 50 then st\<lparr>activeChats := []\<rparr> else st,
            [EmitMessageCount (messageCount st), EmitActiveChats (length (activeChats st))])
      else (st, []))"

section \<open>Properties\<close>

text \<open>Claim C2: a message that arrives while the bot is not ready, that the
  bot sent itself, that comes from a group (\<open>@g.us\<close>) or that is more than five
  minutes old is dropped: no call on the chat, no emit, and no change of state
  (no history, no rate-limit record, no active chat).\<close>

theorem handleIncomingMessage_filtered:
  assumes "\<not> isReady st \<or> fromMe msg \<or> js_includes (msg_from msg) (js ''@g.us'') \<or>
           msg_timestamp msg * 1000 < now ctx - fiveMinutes"
  shows "handleIncomingMessage cfg ctx st msg = (st, [], [])"
  using assms by (auto simp: handleIncomingMessage_def)

theorem handleIncomingMessage_filtered_witness:
  "let st = \<lparr>isReady = True, messageCount = 0, activeChats = [],
             engine = \<lparr>chatHistory = [], lastReplyTime = []\<rparr>\<rparr>;
       msg = \<lparr>fromMe = False, msg_from = js ''1203@g.us'', msg_timestamp = 1000, body = js ''hello''\<rparr>;
       ctx = \<lparr>now = 1000000, tCheck = 1000000, tReply = 1000500, contact = None,
              model = (\<lambda>_. Completion (js ''Hi'')), rndFallback = 0, rndTyping = 0, fails = (\<lambda>_. False)\<rparr>;
       cfg = \<lparr>envMaxPerMinute = None, envTypingMin = None, envTypingMax = None\<rparr>
   in js_includes (msg_from msg) (js ''@g.us'') \<and> handleIncomingMessage cfg ctx st msg = (st, [], [])"
proof -
  have g: "js_includes (js ''1203@g.us'') (js ''@g.us'')" by (simp add: js_def)
  then show ?thesis unfolding Let_def using handleIncomingMessage_filtered by simp
qed

text \<open>Claim C1: the end-to-end path. A fresh text message from a contact, not
  from a group nor from the bot, with a non-empty trimmed body, while the bot is
  ready and the limiter lets the contact through, and with a completion whose
  trimmed text is not empty and no failing call: the contact becomes active,
  the reply is delivered after the composing state and the typing delay, the
  exchange is stored in the history, the reply time is recorded, the sent count
  goes up by one, and one \<open>message_reply\<close> notification is emitted.\<close>

theorem handleIncomingMessage_reply:
  assumes "isReady st" "\<not> fromMe msg" "\<not> js_includes (msg_from msg) (js ''@g.us'')"
    "now ctx - fiveMinutes \<le> msg_timestamp msg * 1000" "contact ctx = Some c"
    "js_trim (body msg) \<noteq> []"
    "canReply (envMaxPerMinute cfg) (tCheck ctx) (lastReplyTime (engine st)) (number c)"
    "model ctx (gemini_createPrompt (js_trim (body msg)) (contactName_of c)
        (gemini_detectLanguage (js_trim (body msg))) (getChatHistory (chatHistory (engine st)) (number c))) =
     Completion text"
    "js_trim text \<noteq> []" "\<forall>a. \<not> fails ctx a"
  shows "handleIncomingMessage cfg ctx st msg =
    (st\<lparr>activeChats := js_set_add (activeChats st) (number c), messageCount := messageCount st + 1,
        engine := (engine st)\<lparr>chatHistory := updateChatHistory (chatHistory (engine st)) (number c)
                                (js_trim (body msg)) (js_trim text) (tReply ctx),
                              lastReplyTime := recordReply (lastReplyTime (engine st)) (number c) (tReply ctx)\<rparr>\<rparr>,
     [AGetChat, ATyping, ASleep (typingDelay (envTypingMin cfg) (envTypingMax cfg) (rndTyping ctx) (length (js_trim text))),
      AClearState, AReply (js_trim text)],
     [EmitMessageReply (contactName_of c) (js_trim (body msg)) (js_trim text)])"
  using assms
  by (simp add: handleIncomingMessage_def Let_def gemini_generateReply_cases sendReplyWithTyping_def may_fail_def)

theorem handleIncomingMessage_reply_witness:
  "let st = \<lparr>isReady = True, messageCount = 0, activeChats = [],
             engine = \<lparr>chatHistory = [], lastReplyTime = []\<rparr>\<rparr>;
       c = \<lparr>contact_name = Some (js ''Ravi''), pushname = None, number = js ''91''\<rparr>;
       msg = \<lparr>fromMe = False, msg_from = js ''91@c.us'', msg_timestamp = 1000, body = js ''hello ''\<rparr>;
       ctx = \<lparr>now = 1000000, tCheck = 1000000, tReply = 1000500, contact = Some c,
              model = (\<lambda>_. Completion (js ''Hi there!'')), rndFallback = 0, rndTyping = 0, fails = (\<lambda>_. False)\<rparr>;
       cfg = \<lparr>envMaxPerMinute = None, envTypingMin = None, envTypingMax = None\<rparr>
   in handleIncomingMessage cfg ctx st msg =
      (\<lparr>isReady = True, messageCount = 1, activeChats = [js ''91''],
        engine = \<lparr>chatHistory = [(js ''91'', [\<lparr>entry_type = User, message = js ''hello'', entry_time = 1000500\<rparr>,
                                             \<lparr>entry_type = Bot, message = js ''Hi there!'', entry_time = 1000500\<rparr>])],
                  lastReplyTime = [(js ''91'', 1000500)]\<rparr>\<rparr>,
       [AGetChat, ATyping, ASleep 1270, AClearState, AReply (js ''Hi there!'')],
       [EmitMessageReply (js ''Ravi'') (js ''hello'') (js ''Hi there!'')])"
proof -
  let ?st = "\<lparr>isReady = True, messageCount = 0, activeChats = [],
             engine = \<lparr>chatHistory = [], lastReplyTime = []\<rparr>\<rparr>"
  let ?c = "\<lparr>contact_name = Some (js ''Ravi''), pushname = None, number = js ''91''\<rparr>"
  let ?msg = "\<lparr>fromMe = False, msg_from = js ''91@c.us'', msg_timestamp = 1000, body = js ''hello ''\<rparr>"
  let ?ctx = "\<lparr>now = 1000000, tCheck = 1000000, tReply = 1000500, contact = Some ?c,
              model = (\<lambda>_. Completion (js ''Hi there!'')), rndFallback = 0, rndTyping = 0, fails = (\<lambda>_. False)\<rparr>"
  let ?cfg = "\<lparr>envMaxPerMinute = None, envTypingMin = None, envTypingMax = None\<rparr>"
  have g: "\<not> js_includes (msg_from ?msg) (js ''@g.us'')" by (simp add: js_def)
  have t: "js_trim (body ?msg) = js ''hello''" "js_trim (js ''Hi there!'') = js ''Hi there!''" by (simp_all add: js_defs)
  have f: "now ?ctx - fiveMinutes \<le> msg_timestamp ?msg * 1000" by (simp add: fiveMinutes_def)
  have cr: "canReply (envMaxPerMinute ?cfg) (tCheck ?ctx) (lastReplyTime (engine ?st)) (number ?c)"
    by (simp add: canReply_def jm_get_def)
  note r = handleIncomingMessage_reply [of ?st ?msg ?ctx ?c ?cfg "js ''Hi there!''", OF _ _ g f]
  have e: "handleIncomingMessage ?cfg ?ctx ?st ?msg =
    (?st\<lparr>activeChats := js_set_add [] (js ''91''), messageCount := 1,
        engine := \<lparr>chatHistory = updateChatHistory [] (js ''91'') (js ''hello'') (js ''Hi there!'') 1000500,
                   lastReplyTime = recordReply [] (js ''91'') 1000500\<rparr>\<rparr>,
     [AGetChat, ATyping, ASleep (typingDelay None None 0 (length (js ''Hi there!''))), AClearState, AReply (js ''Hi there!'')],
     [EmitMessageReply (contactName_of ?c) (js ''hello'') (js ''Hi there!'')])"
    using r cr t by (simp del: js_append add: js_def)
  have d: "typingDelay None None 0 (length (js ''Hi there!'')) = 1270" by (simp add: typingDelay_def js_int_or_def)
  have n: "contactName_of ?c = js ''Ravi''" by (simp add: contactName_of_def js_str_or_def js_def)
  show ?thesis unfolding Let_def using e d n
    by (simp del: js_append add: js_set_add_def updateChatHistory_def getChatHistory_def jm_get_def recordReply_def)
qed

text \<open>Claim C33: the sent-message counter counts delivered replies: one call of
  the handler raises \<open>messageCount\<close> by the number of \<open>message_reply\<close> emits,
  which is at most one, and each such emit follows the delivery of its reply.\<close>

theorem handleIncomingMessage_counts:
  assumes "handleIncomingMessage cfg ctx st msg = (st', acts, es)"
  shows "messageCount st' = messageCount st + length es \<and> length es \<le> 1 \<and>
         (\<forall>n t r. EmitMessageReply n t r \<in> set es \<longrightarrow> AReply r \<in> set acts)"
  using assms
  by (auto simp: handleIncomingMessage_def Let_def sendReplyWithTyping_def
      split: if_splits option.splits prod.splits dest: run_actions_all)

theorem handleIncomingMessage_counts_witness:
  "let st = \<lparr>isReady = False, messageCount = 7, activeChats = [],
             engine = \<lparr>chatHistory = [], lastReplyTime = []\<rparr>\<rparr>;
       msg = \<lparr>fromMe = False, msg_from = js ''91@c.us'', msg_timestamp = 1000, body = js ''hello''\<rparr>;
       ctx = \<lparr>now = 1000000, tCheck = 1000000, tReply = 1000500, contact = None,
              model = (\<lambda>_. Completion (js ''Hi'')), rndFallback = 0, rndTyping = 0, fails = (\<lambda>_. False)\<rparr>;
       cfg = \<lparr>envMaxPerMinute = None, envTypingMin = None, envTypingMax = None\<rparr>
   in messageCount (fst (handleIncomingMessage cfg ctx st msg)) = 7"
proof -
  let ?st = "\<lparr>isReady = False, messageCount = 7, activeChats = [],
             engine = \<lparr>chatHistory = [], lastReplyTime = []\<rparr>\<rparr>"
  let ?msg = "\<lparr>fromMe = False, msg_from = js ''91@c.us'', msg_timestamp = 1000, body = js ''hello''\<rparr>"
  let ?ctx = "\<lparr>now = 1000000, tCheck = 1000000, tReply = 1000500, contact = None,
              model = (\<lambda>_. Completion (js ''Hi'')), rndFallback = 0, rndTyping = 0, fails = (\<lambda>_. False)\<rparr>"
  let ?cfg = "\<lparr>envMaxPerMinute = None, envTypingMin = None, envTypingMax = None\<rparr>"
  have r: "handleIncomingMessage ?cfg ?ctx ?st ?msg = (?st, [], [])" by (simp add: handleIncomingMessage_def)
  show ?thesis unfolding Let_def using handleIncomingMessage_counts [OF r] r by simp
qed

text \<open>Claim C34: when \<open>message.getContact()\<close> throws on a message that passed
  the filters, the handler sends the fixed apology (unless that call throws too)
  and changes no state. The contact is fetched before the empty-body check, so
  this happens for an empty or blank message as well.\<close>

theorem handleIncomingMessage_no_contact:
  assumes "isReady st" "\<not> fromMe msg" "\<not> js_includes (msg_from msg) (js ''@g.us'')"
    "now ctx - fiveMinutes \<le> msg_timestamp msg * 1000" "contact ctx = None"
  shows "handleIncomingMessage cfg ctx st msg = (st, reply_fallback (fails ctx), [])"
  using assms by (simp add: handleIncomingMessage_def)

theorem handleIncomingMessage_no_contact_witness:
  "let st = \<lparr>isReady = True, messageCount = 0, activeChats = [],
             engine = \<lparr>chatHistory = [], lastReplyTime = []\<rparr>\<rparr>;
       msg = \<lparr>fromMe = False, msg_from = js ''91@c.us'', msg_timestamp = 1000, body = js ''  ''\<rparr>;
       ctx = \<lparr>now = 1000000, tCheck = 1000000, tReply = 1000500, contact = None,
              model = (\<lambda>_. Completion (js ''Hi'')), rndFallback = 0, rndTyping = 0, fails = (\<lambda>_. False)\<rparr>;
       cfg = \<lparr>envMaxPerMinute = None, envTypingMin = None, envTypingMax = None\<rparr>
   in js_trim (body msg) = [] \<and> handleIncomingMessage cfg ctx st msg = (st, [AReply pipelineFallback], [])"
proof -
  let ?st = "\<lparr>isReady = True, messageCount = 0, activeChats = [],
             engine = \<lparr>chatHistory = [], lastReplyTime = []\<rparr>\<rparr>"
  let ?msg = "\<lparr>fromMe = False, msg_from = js ''91@c.us'', msg_timestamp = 1000, body = js ''  ''\<rparr>"
  let ?ctx = "\<lparr>now = 1000000, tCheck = 1000000, tReply = 1000500, contact = None,
              model = (\<lambda>_. Completion (js ''Hi'')), rndFallback = 0, rndTyping = 0, fails = (\<lambda>_. False)\<rparr>"
  have g: "\<not> js_includes (msg_from ?msg) (js ''@g.us'')" by (simp add: js_def)
  have f: "now ?ctx - fiveMinutes \<le> msg_timestamp ?msg * 1000" by (simp add: fiveMinutes_def)
  have e: "js_trim (body ?msg) = []" by (simp add: js_defs)
  have "reply_fallback (fails ?ctx) = [AReply pipelineFallback]"
    by (simp add: reply_fallback_def may_fail_def)
  with handleIncomingMessage_no_contact [of ?st ?msg ?ctx, OF _ _ g f] e show ?thesis
    unfolding Let_def by simp
qed

end
