(* ===== verification/SessionMachine.thy ===== *)
theory SessionMachine
  imports Pipeline
begin

text \<open>
  The lifecycle of the single-session bot: \<open>SessionManager\<close>
  (src/unnamed/part_000, lines 1--376) driven by the socket commands of
  src/server.js (\<open>start_bot\<close>, \<open>stop_bot\<close>, lines 229--263; \<open>POST /api/restart\<close>,
  lines 186--197) and by the events of the adapters it creates
  (\<open>setupEventHandlers\<close>, lines 72--163).
  Each \<open>new Client\<close> is an adapter with a fresh number; \<open>live\<close> lists the
  adapters created and not yet destroyed, which are the ones that can still
  emit events, whether or not \<open>this.client\<close> refers to them. An \<open>await\<close> in the
  middle of a handler is a pending task; the event \<open>Resume i\<close> runs the
  continuation of the \<open>i\<close>-th pending task, so timers and promises may resolve
  in any order and interleave with other events. \<open>client.destroy()\<close> is taken
  to resolve.
\<close>

section \<open>State\<close>

datatype task =
    RestartAfterDestroy nat
  | RestartAfterSleep
  | StopAfterDestroy nat
  | ReconnectTimer

record sm_state =
  client :: "nat option"
  core :: bot_state
  qrRetries :: nat
  live :: "nat list"
  nextId :: nat
  pending :: "task list"
  statsTimers :: nat
  emitted :: "sio_emit list"
  chatLog :: "(nat \<times> action) list"

definition maxQrRetries :: nat where
  "maxQrRetries = 3"

definition sm_init :: "gemini_state \<Rightarrow> sm_state" where
  "sm_init g =
     \<lparr>client = None, core = \<lparr>isReady = False, messageCount = 0, activeChats = [], engine = g\<rparr>,
      qrRetries = 0, live = [], nextId = 0, pending = [], statsTimers = 0, emitted = [], chatLog = []\<rparr>"

text \<open>The inputs: the socket commands, the adapters' events (tagged with the
  adapter), the resolution of a pending task, and a firing of the stats
  interval. \<open>Qr c ok\<close> carries whether \<open>QRCode.toDataURL\<close> succeeded;
  \<open>InitFailed c\<close> is the rejection of \<open>client.initialize()\<close>; every incoming
  message is delivered to the handler twice, once as \<open>message_create\<close> and once
  as \<open>message\<close>, each an \<open>Incoming\<close> event.\<close>

datatype sm_event =
    StartBot
  | StopBot
  | RestartApi
  | InitFailed nat
  | Qr nat bool
  | Authenticated nat
  | Ready nat
  | Disconnected nat jstr
  | AuthFailure nat
  | ClientError nat jstr
  | Incoming nat bot_config msg_ctx wa_message
  | Resume nat
  | StatsTick

section \<open>Operations\<close>

text \<open>\<open>initializeClient\<close> up to the awaited \<open>client.initialize()\<close>: a new
  adapter with its handlers becomes \<open>this.client\<close>; the previous one, if any,
  is not destroyed.\<close>

definition initializeClient :: "sm_state \<Rightarrow> sm_state" where
  "initializeClient s =
     s\<lparr>client := Some (nextId s), live := live s @ [nextId s], nextId := Suc (nextId s)\<rparr>"

text \<open>\<open>restartClient()\<close> up to its first \<open>await\<close>: the destroy of the current
  adapter, or, without one, the state reset and the 3 s sleep.\<close>

definition restartClient :: "sm_state \<Rightarrow> sm_state" where
  "restartClient s =
     (case client s of
        Some d \<Rightarrow> s\<lparr>pending := pending s @ [RestartAfterDestroy d]\<rparr>
      | None \<Rightarrow> s\<lparr>core := (core s)\<lparr>isReady := False\<rparr>, qrRetries := 0,
                    pending := pending s @ [RestartAfterSleep]\<rparr>)"

definition stopClient :: "sm_state \<Rightarrow> sm_state" where
  "stopClient s =
     (case client s of
        Some c \<Rightarrow> s\<lparr>core := (core s)\<lparr>isReady := False\<rparr>, pending := pending s @ [StopAfterDestroy c]\<rparr>
      | None \<Rightarrow> s\<lparr>emitted := emitted s @ [EmitDisconnected (js ''Client stopped manually'')]\<rparr>)"

text \<open>The continuations of the pending tasks.\<close>

fun run_task :: "task \<Rightarrow> sm_state \<Rightarrow> sm_state" where
  "run_task (RestartAfterDestroy d) s =
     s\<lparr>live := removeAll d (live s), core := (core s)\<lparr>isReady := False\<rparr>, qrRetries := 0,
       pending := pending s @ [RestartAfterSleep]\<rparr>"
| "run_task RestartAfterSleep s = initializeClient s"
| "run_task (StopAfterDestroy c) s =
     s\<lparr>live := removeAll c (live s), client := None,
       emitted := emitted s @ [EmitDisconnected (js ''Client stopped manually'')]\<rparr>"
| "run_task ReconnectTimer s = restartClient s"

text \<open>The handlers of one adapter \<open>c\<close>.\<close>

definition on_qr :: "bool \<Rightarrow> sm_state \<Rightarrow> sm_state" where
  "on_qr ok s =
     (if ok then
        (let s' = s\<lparr>emitted := emitted s @ [EmitQr], qrRetries := Suc (qrRetries s)\<rparr>
         in if qrRetries s' > maxQrRetries then restartClient s' else s')
      else s\<lparr>emitted := emitted s @ [EmitError (js ''QR generation failed'')]\<rparr>)"

definition on_ready :: "sm_state \<Rightarrow> sm_state" where
  "on_ready s =
     (let s' = s\<lparr>core := (core s)\<lparr>isReady := True\<rparr>, emitted := emitted s @ [EmitReady]\<rparr>
      in if client s' = None then s' else s'\<lparr>statsTimers := Suc (statsTimers s')\<rparr>)"

definition on_disconnected :: "jstr \<Rightarrow> sm_state \<Rightarrow> sm_state" where
  "on_disconnected reason s =
     s\<lparr>core := (core s)\<lparr>isReady := False\<rparr>, emitted := emitted s @ [EmitDisconnected reason],
       pending := pending s @ [ReconnectTimer]\<rparr>"

definition on_message :: "nat \<Rightarrow> bot_config \<Rightarrow> msg_ctx \<Rightarrow> wa_message \<Rightarrow> sm_state \<Rightarrow> sm_state" where
  "on_message c cfg ctx msg s =
     (case handleIncomingMessage cfg ctx (core s) msg of
        (b, acts, es) \<Rightarrow> s\<lparr>core := b, chatLog := chatLog s @ map (Pair c) acts, emitted := emitted s @ es\<rparr>)"

definition adapter_event :: "sm_state \<Rightarrow> sm_event \<Rightarrow> sm_state" where
  "adapter_event s e =
     (case e of
        InitFailed c \<Rightarrow> s\<lparr>emitted := emitted s @ [EmitError (js ''Failed to initialize WhatsApp client'')]\<rparr>
      | Qr c ok \<Rightarrow> on_qr ok s
      | Authenticated c \<Rightarrow> s\<lparr>emitted := emitted s @ [EmitAuthenticated], qrRetries := 0\<rparr>
      | Ready c \<Rightarrow> on_ready s
      | Disconnected c reason \<Rightarrow> on_disconnected reason s
      | AuthFailure c \<Rightarrow>
          s\<lparr>emitted := emitted s @ [EmitError (js ''Authentication failed - please scan QR again'')]\<rparr>
      | ClientError c m \<Rightarrow> s\<lparr>emitted := emitted s @ [EmitError m]\<rparr>
      | Incoming c cfg ctx msg \<Rightarrow> on_message c cfg ctx msg s
      | _ \<Rightarrow> s)"

definition event_source :: "sm_event \<Rightarrow> nat option" where
  "event_source e =
     (case e of
        InitFailed c \<Rightarrow> Some c | Qr c _ \<Rightarrow> Some c | Authenticated c \<Rightarrow> Some c | Ready c \<Rightarrow> Some c
      | Disconnected c _ \<Rightarrow> Some c | AuthFailure c \<Rightarrow> Some c | ClientError c _ \<Rightarrow> Some c
      | Incoming c _ _ _ \<Rightarrow> Some c | _ \<Rightarrow> None)"

text \<open>One step. \<open>start_bot\<close> answers \<open>ready\<close> when the bot is ready and
  otherwise initializes a client; an event of an adapter that was destroyed
  (or never created) has no effect.\<close>

definition sm_step :: "sm_state \<Rightarrow> sm_event \<Rightarrow> sm_state" where
  "sm_step s e =
     (case e of
        StartBot \<Rightarrow> if isReady (core s) then s\<lparr>emitted := emitted s @ [EmitReady]\<rparr> else initializeClient s
      | StopBot \<Rightarrow> stopClient s
      | RestartApi \<Rightarrow> restartClient s
      | Resume i \<Rightarrow>
          if i < length (pending s)
          then run_task (pending s ! i) (s\<lparr>pending := take i (pending s) @ drop (Suc i) (pending s)\<rparr>)
          else s
      | StatsTick \<Rightarrow>
          if statsTimers s = 0 then s
          else (case stats_tick (core s) of (b, es) \<Rightarrow> s\<lparr>core := b, emitted := emitted s @ es\<rparr>)
      | _ \<Rightarrow>
          (case event_source e of
             Some c \<Rightarrow> if c \<in> set (live s) then adapter_event s e else s
           | None \<Rightarrow> s))"

definition sm_run :: "sm_state \<Rightarrow> sm_event list \<Rightarrow> sm_state" where
  "sm_run s es = foldl sm_step s es"

inductive sm_reach :: "gemini_state \<Rightarrow> sm_state \<Rightarrow> bool" where
  init: "sm_reach g (sm_init g)"
| step: "sm_reach g s \<Longrightarrow> sm_reach g (sm_step s e)"

section \<open>Session files\<close>

text \<open>\<open>cleanupSessions()\<close>: the entries of the session directory are read
  (\<open>readdirFails\<close>: \<open>readdir\<close> throws), and every entry not starting with a dot
  is removed in turn; a removal that throws (\<open>removeFails\<close>) ends the loop,
  the error is logged. The result is the directory afterwards.\<close>

fun remove_session_files :: "(jstr \<Rightarrow> bool) \<Rightarrow> jstr list \<Rightarrow> jstr list \<Rightarrow> jstr list" where
  "remove_session_files removeFails d [] = d"
| "remove_session_files removeFails d (file # files) =
     (if js_starts_with file (js ''.'') then remove_session_files removeFails d files
      else if removeFails file then d
      else remove_session_files removeFails (removeAll file d) files)"

definition cleanupSessions :: "bool \<Rightarrow> (jstr \<Rightarrow> bool) \<Rightarrow> jstr list \<Rightarrow> jstr list" where
  "cleanupSessions readdirFails removeFails sessionFiles =
     (if readdirFails then sessionFiles else remove_session_files removeFails sessionFiles sessionFiles)"

section \<open>Invariants\<close>

text \<open>Well-formedness: adapter numbers are handed out once, the live adapters
  are distinct and were all created, and so was the one \<open>this.client\<close> names.
  The QR invariant: the retry counter is above its limit only while a restart is
  waiting for the destroy of an adapter.\<close>

definition sm_wf :: "sm_state \<Rightarrow> bool" where
  "sm_wf s \<longleftrightarrow> distinct (live s) \<and> (\<forall>c \<in> set (live s). c < nextId s) \<and>
     (\<forall>c. client s = Some c \<longrightarrow> c < nextId s)"

definition qr_inv :: "sm_state \<Rightarrow> bool" where
  "qr_inv s \<longleftrightarrow> (maxQrRetries < qrRetries s \<longrightarrow> (\<exists>d. RestartAfterDestroy d \<in> set (pending s)))"

lemmas sm_step_defs = sm_step_def event_source_def adapter_event_def on_qr_def on_ready_def
  on_disconnected_def restartClient_def stopClient_def initializeClient_def maxQrRetries_def

section \<open>Lemmas\<close>

lemma remove_session_files_dot:
  "\<forall>f \<in> set fs. \<not> removeFails f \<Longrightarrow> set d \<subseteq> set fs \<union> {f. js_starts_with f (js ''.'')} \<Longrightarrow>
   set (remove_session_files removeFails d fs) \<subseteq> {f. js_starts_with f (js ''.'')} \<union> (set d - set fs)"
  by (induction removeFails d fs rule: remove_session_files.induct) auto

lemma cleanupSessions_only_dot:
  "\<not> readdirFails \<Longrightarrow> \<forall>f \<in> set fs. \<not> removeFails f \<Longrightarrow>
   \<forall>f \<in> set (cleanupSessions readdirFails removeFails fs). js_starts_with f (js ''.'')"
  using remove_session_files_dot [of fs removeFails fs] by (auto simp: cleanupSessions_def)


lemma set_remove_nth: "i < length xs \<Longrightarrow> x \<in> set xs \<Longrightarrow> x \<noteq> xs ! i \<Longrightarrow> x \<in> set (take i xs @ drop (Suc i) xs)"
  by (metis id_take_nth_drop Un_iff insert_iff list.simps(15) set_append)

lemma sm_wf_initializeClient: "sm_wf s \<Longrightarrow> sm_wf (initializeClient s)"
  by (auto simp: sm_wf_def initializeClient_def)

lemma sm_wf_restartClient: "sm_wf s \<Longrightarrow> sm_wf (restartClient s)"
  by (auto simp: sm_wf_def restartClient_def split: option.splits)

lemma sm_wf_run_task:
  assumes "sm_wf s"
  shows "sm_wf (run_task t s)"
proof (cases t)
  case RestartAfterSleep
  with assms show ?thesis by (simp add: sm_wf_initializeClient)
next
  case ReconnectTimer
  with assms show ?thesis by (simp add: sm_wf_restartClient)
qed (use assms in \<open>auto simp: sm_wf_def distinct_removeAll\<close>)

lemma sm_wf_adapter_event: "sm_wf s \<Longrightarrow> sm_wf (adapter_event s e)"
  by (cases e) (auto simp: sm_wf_def adapter_event_def on_qr_def on_ready_def on_disconnected_def
      on_message_def restartClient_def Let_def split: option.splits prod.splits)

lemma sm_wf_updates [simp]:
  "sm_wf (s\<lparr>emitted := x\<rparr>) = sm_wf s" "sm_wf (s\<lparr>core := b\<rparr>) = sm_wf s"
  "sm_wf (s\<lparr>pending := p\<rparr>) = sm_wf s" "sm_wf (s\<lparr>qrRetries := q\<rparr>) = sm_wf s"
  "sm_wf (s\<lparr>statsTimers := n\<rparr>) = sm_wf s" "sm_wf (s\<lparr>chatLog := l\<rparr>) = sm_wf s"
  by (simp_all add: sm_wf_def)

lemma sm_wf_step: "sm_wf s \<Longrightarrow> sm_wf (sm_step s e)"
  by (cases e) (auto simp: sm_step_def stopClient_def sm_wf_initializeClient sm_wf_restartClient
      sm_wf_adapter_event sm_wf_run_task split: option.splits prod.splits)

lemma qr_inv_updates [simp]:
  "qr_inv (s\<lparr>emitted := x\<rparr>) = qr_inv s" "qr_inv (s\<lparr>core := b\<rparr>) = qr_inv s"
  "qr_inv (s\<lparr>statsTimers := n\<rparr>) = qr_inv s" "qr_inv (s\<lparr>chatLog := l\<rparr>) = qr_inv s"
  "qr_inv (s\<lparr>live := v\<rparr>) = qr_inv s" "qr_inv (s\<lparr>client := k\<rparr>) = qr_inv s"
  "qr_inv (s\<lparr>nextId := i\<rparr>) = qr_inv s"
  by (simp_all add: qr_inv_def)

lemma qr_inv_append: "qr_inv s \<Longrightarrow> qr_inv (s\<lparr>pending := pending s @ ts\<rparr>)"
  by (auto simp: qr_inv_def)

lemma qr_inv_initializeClient: "qr_inv (initializeClient s) = qr_inv s"
  by (simp add: initializeClient_def qr_inv_def)

lemma qr_inv_restartClient: "qr_inv (restartClient s)"
  by (auto simp: qr_inv_def restartClient_def split: option.splits)

lemma qr_inv_grow: "qr_inv s \<Longrightarrow> qrRetries s' = qrRetries s \<Longrightarrow> set (pending s) \<subseteq> set (pending s') \<Longrightarrow> qr_inv s'"
  by (auto simp: qr_inv_def)

lemma qr_inv_on_qr: "qr_inv s \<Longrightarrow> qr_inv (on_qr ok s)"
  by (auto simp: on_qr_def Let_def qr_inv_restartClient) (auto simp: qr_inv_def)

lemma qr_inv_adapter_event: "qr_inv s \<Longrightarrow> qr_inv (adapter_event s e)"
  apply (cases e)
  apply (auto simp: adapter_event_def qr_inv_on_qr on_ready_def on_message_def Let_def split: prod.splits)
  apply (auto simp: on_disconnected_def qr_inv_def)
  done

lemma qr_inv_run_task:
  assumes "qr_inv s"
  shows "qr_inv (run_task t s)"
proof (cases t)
  case ReconnectTimer
  then show ?thesis by (simp add: qr_inv_restartClient)
qed (use assms in \<open>auto simp: qr_inv_def initializeClient_def\<close>)

lemma qr_inv_step: "qr_inv s \<Longrightarrow> qr_inv (sm_step s e)"
proof (cases e)
  case (Resume i)
  assume q: "qr_inv s"
  show ?thesis
  proof (cases "i < length (pending s)")
    case True
    let ?s = "s\<lparr>pending := take i (pending s) @ drop (Suc i) (pending s)\<rparr>"
    show ?thesis
    proof (cases "\<exists>d. pending s ! i = RestartAfterDestroy d")
      case True
      then obtain d where "pending s ! i = RestartAfterDestroy d" by blast
      with Resume \<open>i < length (pending s)\<close> show ?thesis by (simp add: sm_step_def qr_inv_def)
    next
      case False
      have "qr_inv ?s"
      proof (unfold qr_inv_def, rule impI)
        assume "maxQrRetries < qrRetries ?s"
        with q obtain d where d: "RestartAfterDestroy d \<in> set (pending s)" by (auto simp: qr_inv_def)
        have "RestartAfterDestroy d \<noteq> pending s ! i" using False by metis
        with d \<open>i < length (pending s)\<close> have "RestartAfterDestroy d \<in> set (pending ?s)"
          using set_remove_nth by simp
        then show "\<exists>d. RestartAfterDestroy d \<in> set (pending ?s)" by blast
      qed
      with Resume \<open>i < length (pending s)\<close> show ?thesis by (simp add: sm_step_def qr_inv_run_task)
    qed
  next
    case False
    with Resume q show ?thesis by (simp add: sm_step_def)
  qed
qed (auto simp: sm_step_def qr_inv_adapter_event qr_inv_restartClient stopClient_def qr_inv_initializeClient
      split: option.splits prod.splits, auto simp: qr_inv_def)

section \<open>Properties\<close>



text \<open>Claim C7: in every reachable state, when the QR retry counter is above
  \<open>maxQrRetries\<close> (3) a restart is pending on the destroy of an adapter, whose
  completion resets the counter; the counter never stays above the limit without
  a restart on its way.\<close>

theorem sm_reach_qr: "sm_reach g s \<Longrightarrow> qr_inv s"
proof (induction rule: sm_reach.induct)
  case (init g)
  show ?case by (simp add: sm_init_def qr_inv_def)
next
  case (step g s e)
  from step.IH show ?case by (rule qr_inv_step)
qed

theorem sm_reach_qr_witness:
  "sm_reach \<lparr>chatHistory = [], lastReplyTime = []\<rparr>
     (sm_run (sm_init \<lparr>chatHistory = [], lastReplyTime = []\<rparr>) (StartBot # replicate 4 (Qr 0 True))) \<and>
   qr_inv (sm_run (sm_init \<lparr>chatHistory = [], lastReplyTime = []\<rparr>) (StartBot # replicate 4 (Qr 0 True))) \<and>
   qrRetries (sm_run (sm_init \<lparr>chatHistory = [], lastReplyTime = []\<rparr>) (StartBot # replicate 4 (Qr 0 True))) = 4"
proof -
  let ?g = "\<lparr>chatHistory = [], lastReplyTime = []\<rparr>"
  have run: "\<And>es s. sm_reach ?g s \<Longrightarrow> sm_reach ?g (sm_run s es)"
  proof -
    fix es s
    show "sm_reach ?g s \<Longrightarrow> sm_reach ?g (sm_run s es)"
      by (induction es arbitrary: s) (simp_all add: sm_run_def sm_reach.step)
  qed
  have r: "sm_reach ?g (sm_run (sm_init ?g) (StartBot # replicate 4 (Qr 0 True)))"
    by (rule run) (rule sm_reach.init)
  have q: "qrRetries (sm_run (sm_init ?g) (StartBot # replicate 4 (Qr 0 True))) = 4"
    by (simp add: sm_run_def sm_init_def sm_step_defs numeral_eq_Suc)
  from sm_reach_qr [OF r] r q show ?thesis by blast
qed

text \<open>Claim C6: from a waiting adapter with a zero retry counter and nothing
  pending, three QR codes cause no restart; a fourth schedules exactly one
  restart, which destroys that adapter, resets the counter to 0 and creates one
  fresh adapter as \<open>this.client\<close>.\<close>

theorem qr_storm_restarts_once:
  assumes "client s = Some c" and "c \<in> set (live s)" and "qrRetries s = 0" and "pending s = []"
  shows "pending (sm_run s (replicate 3 (Qr c True))) = [] \<and>
         pending (sm_run s (replicate 4 (Qr c True))) = [RestartAfterDestroy c] \<and>
         client (sm_run s (replicate 4 (Qr c True) @ [Resume 0, Resume 0])) = Some (nextId s) \<and>
         live (sm_run s (replicate 4 (Qr c True) @ [Resume 0, Resume 0])) = removeAll c (live s) @ [nextId s] \<and>
         qrRetries (sm_run s (replicate 4 (Qr c True) @ [Resume 0, Resume 0])) = 0 \<and>
         pending (sm_run s (replicate 4 (Qr c True) @ [Resume 0, Resume 0])) = []"
  using assms by (simp add: sm_run_def sm_step_defs numeral_eq_Suc Let_def)

theorem qr_storm_restarts_once_witness:
  "let s = sm_init \<lparr>chatHistory = [], lastReplyTime = []\<rparr>; s0 = sm_step s StartBot
   in client s0 = Some 0 \<and> 0 \<in> set (live s0) \<and> qrRetries s0 = 0 \<and> pending s0 = [] \<and>
      client (sm_run s0 (replicate 4 (Qr 0 True) @ [Resume 0, Resume 0])) = Some 1 \<and>
      live (sm_run s0 (replicate 4 (Qr 0 True) @ [Resume 0, Resume 0])) = [1]"
proof -
  let ?s0 = "sm_step (sm_init \<lparr>chatHistory = [], lastReplyTime = []\<rparr>) StartBot"
  have h: "client ?s0 = Some 0" "0 \<in> set (live ?s0)" "qrRetries ?s0 = 0" "pending ?s0 = []" "nextId ?s0 = 1"
    "live ?s0 = [0]"
    by (simp_all add: sm_init_def sm_step_def initializeClient_def)
  from qr_storm_restarts_once [OF h(1-4)] h show ?thesis unfolding Let_def by simp
qed



end
