(* ===== verification/Registry.thy ===== *)
theory Registry
  imports Typing
begin

text \<open>
  The session registry of the multi-session server, class \<open>WhatsAppHandler\<close>
  (src/whatsapp-handler.js): the map \<open>clients\<close> from session id to adapter, the
  capacity \<open>maxSessions\<close>, the session directories on disk, and the
  operations that create, destroy and restart sessions, the adapter events that
  remove a session, the phone number helpers, and the status reports.
  Adapters are numbered as in SessionMachine; \<open>destroyed\<close> lists the adapters
  whose \<open>destroy()\<close> was called. The adapter's answers (\<open>destroy()\<close> rejecting,
  \<open>getState()\<close>, \<open>info\<close>, the browser connection) are inputs.
\<close>

section \<open>State\<close>

record registry =
  clients :: "(jstr, nat) jsmap"
  maxSessions :: int
  nextAdapter :: nat
  destroyed :: "nat list"
  sessionDirs :: "jstr list"

definition WhatsAppHandler_new :: "int option \<Rightarrow> registry" where
  "WhatsAppHandler_new envMaxSessions =
     \<lparr>clients = [], maxSessions = js_int_or envMaxSessions 10, nextAdapter = 0, destroyed = [],
      sessionDirs = []\<rparr>"

record wa_contact_info =
  wc_number :: jstr
  wc_name :: "jstr option"
  wc_pushname :: "jstr option"
  wc_isMyContact :: bool

datatype reg_error =
    MaxSessionsReached int
  | SessionNotFound jstr
  | SendFailed

text \<open>The \<open>message\<close> of the thrown errors; a failed send rethrows the
  adapter's error.\<close>

definition reg_error_message :: "jstr \<Rightarrow> reg_error \<Rightarrow> jstr" where
  "reg_error_message adapterMsg e =
     (case e of
        MaxSessionsReached n \<Rightarrow> js ''Maximum sessions limit reached ('' @ js_int_str n @ js '')''
      | SessionNotFound sessionId \<Rightarrow> js ''Session '' @ sessionId @ js '' not found''
      | SendFailed \<Rightarrow> adapterMsg)"

section \<open>Sessions\<close>

text \<open>\<open>createClient(sessionId)\<close>: the existing adapter when there is one,
  \<open>Inl\<close> for the thrown \<open>'Maximum sessions limit reached'\<close>, otherwise a new
  adapter with its handlers, stored in the map. The adapter is not
  initialized here.\<close>

definition createClient :: "jstr \<Rightarrow> registry \<Rightarrow> (reg_error + nat) \<times> registry" where
  "createClient sessionId r =
     (case jm_get (clients r) sessionId of
        Some a \<Rightarrow> (Inr a, r)
      | None \<Rightarrow>
          if int (length (clients r)) \<ge> maxSessions r then (Inl (MaxSessionsReached (maxSessions r)), r)
          else (Inr (nextAdapter r),
                r\<lparr>clients := jm_set (clients r) sessionId (nextAdapter r), nextAdapter := Suc (nextAdapter r)\<rparr>))"

text \<open>\<open>cleanupSession(sessionId)\<close>: the directory \<open>session-<id>\<close> is removed
  when it exists; every error is caught.\<close>

definition cleanupSession :: "jstr \<Rightarrow> registry \<Rightarrow> registry" where
  "cleanupSession sessionId r = r\<lparr>sessionDirs := removeAll sessionId (sessionDirs r)\<rparr>"

text \<open>\<open>destroySession(sessionId)\<close>: \<open>false\<close> for an unknown session; otherwise
  \<open>destroy()\<close>, and the session is removed from the map whether or not it
  rejects (\<open>destroyFails\<close>); the files are cleaned and \<open>true\<close> returned only when
  it resolved.\<close>

definition destroySession :: "bool \<Rightarrow> jstr \<Rightarrow> registry \<Rightarrow> bool \<times> registry" where
  "destroySession destroyFails sessionId r =
     (case jm_get (clients r) sessionId of
        None \<Rightarrow> (False, r)
      | Some a \<Rightarrow>
          (let r' = r\<lparr>destroyed := destroyed r @ [a]\<rparr>
           in if destroyFails then (False, r'\<lparr>clients := jm_delete (clients r') sessionId\<rparr>)
              else (True, cleanupSession sessionId (r'\<lparr>clients := jm_delete (clients r') sessionId\<rparr>))))"

text \<open>\<open>cleanupAllSessions()\<close>: one \<open>destroySession\<close> per id of a snapshot of the
  keys; the sessions are independent, so running them one after the other gives
  the state \<open>Promise.allSettled\<close> waits for. \<open>fails\<close> says whose destroy
  rejects.\<close>

definition cleanupAllSessions :: "(jstr \<Rightarrow> bool) \<Rightarrow> registry \<Rightarrow> registry" where
  "cleanupAllSessions fails r =
     foldl (\<lambda>r sessionId. snd (destroySession (fails sessionId) sessionId r)) r (jm_keys (clients r))"

definition reg_shutdown :: "(jstr \<Rightarrow> bool) \<Rightarrow> registry \<Rightarrow> registry" where
  "reg_shutdown fails r = cleanupAllSessions fails r"

text \<open>\<open>restartSession(sessionId)\<close>: destroy, wait 2 s, create.\<close>

definition restartSession :: "bool \<Rightarrow> jstr \<Rightarrow> registry \<Rightarrow> (reg_error + nat) \<times> registry" where
  "restartSession destroyFails sessionId r =
     createClient sessionId (snd (destroySession destroyFails sessionId r))"

text \<open>The handlers \<open>createClient\<close> attaches to adapter \<open>a\<close> of session
  \<open>sessionId\<close>: \<open>auth_failure\<close> deletes the session's entry, \<open>disconnected\<close>
  deletes it and cleans the files. Both delete whatever adapter the id maps to
  at that time.\<close>

datatype adapter_signal = AuthFailureSig | DisconnectedSig

definition reg_adapter_event :: "nat \<Rightarrow> jstr \<Rightarrow> adapter_signal \<Rightarrow> registry \<Rightarrow> registry" where
  "reg_adapter_event a sessionId sig r =
     (case sig of
        AuthFailureSig \<Rightarrow> r\<lparr>clients := jm_delete (clients r) sessionId\<rparr>
      | DisconnectedSig \<Rightarrow> cleanupSession sessionId (r\<lparr>clients := jm_delete (clients r) sessionId\<rparr>))"

section \<open>Phone numbers\<close>

text \<open>\<open>formatPhoneNumber(number)\<close>: the ASCII digits (\<open>/\D/g\<close> removes every
  other code unit), \<open>91\<close> in front of a ten-digit number that does not start
  with it, and the suffix \<open>@c.us\<close>, which a string of digits never contains.\<close>

definition phone_digits :: "jstr \<Rightarrow> jstr" where
  "phone_digits number =
     (let formatted = filter is_ascii_digit number
      in if \<not> js_starts_with formatted (js ''91'') \<and> length formatted = 10
         then js ''91'' @ formatted else formatted)"

definition formatPhoneNumber :: "jstr \<Rightarrow> jstr" where
  "formatPhoneNumber number =
     (let formatted = phone_digits number
      in if \<not> js_includes formatted (js ''@c.us'') then formatted @ js ''@c.us'' else formatted)"

definition isValidWhatsAppNumber :: "jstr \<Rightarrow> bool" where
  "isValidWhatsAppNumber number =
     (let formattedNumber = formatPhoneNumber number
      in js_includes formattedNumber (js ''@c.us'') \<and> length formattedNumber > 12)"

text \<open>\<open>s.replace('@c.us', '')\<close>: a string pattern replaces its first
  occurrence only.\<close>

fun js_replace_first :: "jstr \<Rightarrow> jstr \<Rightarrow> jstr \<Rightarrow> jstr" where
  "js_replace_first p q [] = (if p = [] then q else [])"
| "js_replace_first p q (c # cs) =
     (if js_starts_with (c # cs) p then q @ drop (length p) (c # cs) else c # js_replace_first p q cs)"

text \<open>\<open>extractPhoneFromMessage(message)\<close> on \<open>message.from\<close>: \<open>None\<close> for
  \<open>null\<close> (no or empty sender).\<close>

definition extractPhoneFromMessage :: "jstr option \<Rightarrow> jstr option" where
  "extractPhoneFromMessage msgFrom =
     (case msgFrom of
        None \<Rightarrow> None
      | Some f \<Rightarrow> if f = [] then None else Some (js_replace_first (js ''@c.us'') [] f))"

section \<open>Sending\<close>

text \<open>\<open>sendMessage(sessionId, to, message)\<close>: the chat id it sends to and, with
  \<open>TYPING_SIMULATION=true\<close>, the composing delay \<open>min(length * 50, 3000)\<close>
  waited before; \<open>fails\<close> says whether one of the adapter calls throws.\<close>

definition reg_sendMessage ::
  "bool \<Rightarrow> bool \<Rightarrow> registry \<Rightarrow> jstr \<Rightarrow> jstr \<Rightarrow> jstr \<Rightarrow> reg_error + (jstr \<times> nat option)" where
  "reg_sendMessage typingSimulation fails r sessionId to text =
     (case jm_get (clients r) sessionId of
        None \<Rightarrow> Inl (SessionNotFound sessionId)
      | Some a \<Rightarrow>
          if fails then Inl SendFailed
          else Inr (formatPhoneNumber to,
                    if typingSimulation then Some (handlerTypingDelay (length text)) else None))"

section \<open>Status\<close>

text \<open>\<open>getClientStatus(sessionId)\<close>. The adapter's answer to \<open>getState()\<close>:
  a promise that never settles, a rejection, or the state (\<open>None\<close> for a falsy
  one) together with whether \<open>client.info\<close> is set. The result is \<open>None\<close>
  when the call never returns: nothing bounds the wait.\<close>

datatype state_answer = StateHangs | StateThrows | StateOk "jstr option" bool

datatype client_status =
    StatusNotFound
  | StatusOk jstr bool
  | StatusError

definition getClientStatus :: "(nat \<Rightarrow> state_answer) \<Rightarrow> registry \<Rightarrow> jstr \<Rightarrow> client_status option" where
  "getClientStatus getState r sessionId =
     (case jm_get (clients r) sessionId of
        None \<Rightarrow> Some StatusNotFound
      | Some a \<Rightarrow>
          (case getState a of
             StateHangs \<Rightarrow> None
           | StateThrows \<Rightarrow> Some StatusError
           | StateOk state info \<Rightarrow> Some (StatusOk (case state of None \<Rightarrow> js ''unknown'' | Some st \<Rightarrow> st) info)))"

definition status_ready :: "client_status \<Rightarrow> bool" where
  "status_ready st = (case st of StatusOk _ ready \<Rightarrow> ready | _ \<Rightarrow> False)"

definition status_name :: "client_status \<Rightarrow> jstr" where
  "status_name st = (case st of StatusNotFound \<Rightarrow> js ''not_found'' | StatusOk s _ \<Rightarrow> s | StatusError \<Rightarrow> js ''error'')"

text \<open>\<open>getAllSessions()\<close>: one awaited \<open>getClientStatus\<close> per entry, one after
  the other; the list is returned only when every call returned (the registry
  is taken not to change during the wait).\<close>

definition getAllSessions :: "(nat \<Rightarrow> state_answer) \<Rightarrow> registry \<Rightarrow> (jstr \<times> client_status) list option" where
  "getAllSessions getState r =
     those (map (\<lambda>(sessionId, a). map_option (Pair sessionId) (getClientStatus getState r sessionId)) (clients r))"

record health =
  totalSessions :: nat
  activeSessions :: nat
  readySessions :: nat
  errorSessions :: nat

text \<open>\<open>healthCheck()\<close>, with the same sequence of awaited status calls;
  \<open>isConnected\<close> is \<open>client.pupBrowser?.isConnected()\<close>.\<close>

definition healthCheck :: "(nat \<Rightarrow> state_answer) \<Rightarrow> (nat \<Rightarrow> bool) \<Rightarrow> registry \<Rightarrow> health option" where
  "healthCheck getState isConnected r =
     map_option
       (\<lambda>sts. \<lparr>totalSessions = length (clients r),
               activeSessions = length (filter (\<lambda>(a, st). isConnected a) sts),
               readySessions = length (filter (\<lambda>(a, st). status_ready st) sts),
               errorSessions = length (filter (\<lambda>(a, st). status_name st = js ''error'') sts)\<rparr>)
       (those (map (\<lambda>(sessionId, a). map_option (Pair a) (getClientStatus getState r sessionId)) (clients r)))"

section \<open>Media, contacts and the QR code\<close>

text \<open>\<open>sendMedia(sessionId, to, mediaPath, caption)\<close>: \<open>mediaOk\<close> says whether
  \<open>MessageMedia.fromFilePath\<close> read the file, \<open>fails\<close> whether the send
  rejects; the result is the chat id and the caption sent with the media.\<close>

definition sendMedia :: "bool \<Rightarrow> bool \<Rightarrow> registry \<Rightarrow> jstr \<Rightarrow> jstr \<Rightarrow> jstr \<Rightarrow> reg_error + (jstr \<times> jstr)" where
  "sendMedia mediaOk fails r sessionId to caption =
     (case jm_get (clients r) sessionId of
        None \<Rightarrow> Inl (SessionNotFound sessionId)
      | Some a \<Rightarrow> if \<not> mediaOk \<or> fails then Inl SendFailed else Inr (formatPhoneNumber to, caption))"

record contact_info =
  ci_number :: jstr
  ci_name :: "jstr option"
  ci_isMyContact :: bool
  ci_profilePicUrl :: "jstr option"

text \<open>\<open>getContactInfo(sessionId, number)\<close>: \<open>lookup\<close> is the adapter's
  \<open>getContactById\<close> (\<open>None\<close> when it throws, which gives \<open>null\<close>) and
  \<open>picture\<close> the result of \<open>getProfilePicUrl()\<close> (\<open>None\<close> when it rejects);
  the name is \<open>contact.name || contact.pushname\<close>.\<close>

definition getContactInfo ::
  "(nat \<Rightarrow> jstr \<Rightarrow> (wa_contact_info \<times> jstr option) option) \<Rightarrow> registry \<Rightarrow> jstr \<Rightarrow> jstr \<Rightarrow>
   reg_error + contact_info option" where
  "getContactInfo lookup r sessionId number =
     (case jm_get (clients r) sessionId of
        None \<Rightarrow> Inl (SessionNotFound sessionId)
      | Some a \<Rightarrow>
          (case lookup a (formatPhoneNumber number) of
             None \<Rightarrow> Inr None
           | Some (c, picture) \<Rightarrow>
               Inr (Some \<lparr>ci_number = wc_number c,
                          ci_name = (case wc_name c of Some n \<Rightarrow> if n = [] then wc_pushname c else Some n
                                     | None \<Rightarrow> wc_pushname c),
                          ci_isMyContact = wc_isMyContact c, ci_profilePicUrl = picture\<rparr>)))"

text \<open>\<open>getQRCode(sessionId)\<close> waits for the first of four things: the adapter's
  \<open>qr\<close> (the promise resolves with it), \<open>ready\<close> (\<open>'Already authenticated'\<close>),
  \<open>auth_failure\<close>, a rejection of the \<open>initialize()\<close> it starts when the
  browser is not up, or the 60 s timer. What happens after the call is a
  stream of events with the time since the call; \<open>QEOther\<close> is anything else,
  or time passing. A wait that never settles would be \<open>None\<close>.\<close>

datatype qr_event = QEQr jstr | QEReady | QEAuthFailure jstr | QEInitError jstr | QEOther

definition qrTimeout :: time where
  "qrTimeout = 60000"

partial_function (option) qr_wait :: "(nat \<Rightarrow> time \<times> qr_event) \<Rightarrow> nat \<Rightarrow> (jstr + jstr) option" where
  "qr_wait evs i =
     (case evs i of
        (t, ev) \<Rightarrow>
          if qrTimeout \<le> t then Some (Inl (js ''QR code generation timeout''))
          else (case ev of
                  QEQr qr \<Rightarrow> Some (Inr qr)
                | QEReady \<Rightarrow> Some (Inl (js ''Already authenticated''))
                | QEAuthFailure m \<Rightarrow> Some (Inl (js ''Authentication failed: '' @ m))
                | QEInitError m \<Rightarrow> Some (Inl m)
                | QEOther \<Rightarrow> qr_wait evs (Suc i)))"

definition getQRCode :: "registry \<Rightarrow> jstr \<Rightarrow> (nat \<Rightarrow> time \<times> qr_event) \<Rightarrow> (reg_error + (jstr + jstr)) option" where
  "getQRCode r sessionId evs =
     (case jm_get (clients r) sessionId of
        None \<Rightarrow> Some (Inl (SessionNotFound sessionId))
      | Some a \<Rightarrow> map_option Inr (qr_wait evs 0))"

section \<open>Browser options\<close>

text \<open>\<open>getPuppeteerOptions()\<close>: headless, the fixed argument list, and the
  executable path when \<open>PUPPETEER_EXECUTABLE_PATH\<close> is set (and not empty).\<close>

record puppeteer_options =
  headless :: bool
  browser_args :: "jstr list"
  executablePath :: "jstr option"

definition puppeteer_base_args :: "jstr list" where
  "puppeteer_base_args =
     [js ''--no-sandbox'',
      js ''--disable-setuid-sandbox'',
      js ''--disable-dev-shm-usage'',
      js ''--disable-accelerated-2d-canvas'',
      js ''--no-first-run'',
      js ''--no-zygote'',
      js ''--single-process'',
      js ''--disable-gpu'',
      js ''--disable-background-timer-throttling'',
      js ''--disable-backgrounding-occluded-windows'',
      js ''--disable-renderer-backgrounding'',
      js ''--disable-features=TranslateUI'',
      js ''--disable-ipc-flooding-protection'',
      js ''--disable-background-networking'',
      js ''--disable-default-apps'',
      js ''--disable-extensions'',
      js ''--disable-plugins'',
      js ''--disable-translate'',
      js ''--disable-web-security'',
      js ''--allow-running-insecure-content'',
      js ''--no-default-browser-check'',
      js ''--disable-logging'',
      js ''--disable-notifications'',
      js ''--remote-debugging-port=9222'']"

definition getPuppeteerOptions :: "jstr option \<Rightarrow> puppeteer_options" where
  "getPuppeteerOptions envExecutablePath =
     \<lparr>headless = True, browser_args = puppeteer_base_args,
      executablePath = (if js_truthy_str envExecutablePath then envExecutablePath else None)\<rparr>"

section \<open>Invariant\<close>

text \<open>The map has one entry per session id and never more entries than the
  capacity (a capacity of 0 or less admits none).\<close>

definition reg_inv :: "registry \<Rightarrow> bool" where
  "reg_inv r \<longleftrightarrow> jm_wf (clients r) \<and> int (length (clients r)) \<le> max (maxSessions r) 0"

section \<open>Lemmas\<close>

lemma reg_inv_createClient: "reg_inv r \<Longrightarrow> reg_inv (snd (createClient sid r))"
proof -
  assume i: "reg_inv r"
  show ?thesis
  proof (cases "jm_get (clients r) sid")
    case None
    then have "\<not> jm_has (clients r) sid" by (simp add: jm_has_get)
    then have "length (jm_set (clients r) sid a) = Suc (length (clients r))" for a
      by (simp add: length_jm_set jm_has_def)
    with i None show ?thesis by (auto simp: createClient_def reg_inv_def)
  qed (use i in \<open>simp add: createClient_def\<close>)
qed

lemma reg_inv_delete: "reg_inv r \<Longrightarrow> reg_inv (r\<lparr>clients := jm_delete (clients r) sid\<rparr>)"
  using length_jm_delete_le [of "clients r" sid] by (auto simp: reg_inv_def)

lemma reg_inv_destroySession: "reg_inv r \<Longrightarrow> reg_inv (snd (destroySession f sid r))"
  using reg_inv_delete [of "r\<lparr>destroyed := destroyed r @ [the (jm_get (clients r) sid)]\<rparr>" sid]
  by (auto simp: destroySession_def cleanupSession_def reg_inv_def Let_def split: option.splits)

lemma reg_inv_adapter_event: "reg_inv r \<Longrightarrow> reg_inv (reg_adapter_event a sid sig r)"
  using reg_inv_delete [of r sid]
  by (auto simp: reg_adapter_event_def cleanupSession_def reg_inv_def split: adapter_signal.splits)

lemma keys_jm_delete: "map fst (jm_delete m k) = filter (\<lambda>x. x \<noteq> k) (map fst m)"
  by (induction m) (auto simp: jm_delete_def)

lemma destroySession_keys:
  "map fst (clients (snd (destroySession f k r))) = filter (\<lambda>x. x \<noteq> k) (map fst (clients r))"
proof (cases "jm_get (clients r) k")
  case None
  then have "\<not> jm_has (clients r) k" by (simp add: jm_has_get)
  then have d: "jm_delete (clients r) k = clients r" by (rule jm_delete_absent)
  from None have "snd (destroySession f k r) = r" by (simp add: destroySession_def)
  with d show ?thesis using keys_jm_delete [of "clients r" k] by simp
next
  case (Some a)
  then show ?thesis by (simp add: destroySession_def cleanupSession_def Let_def keys_jm_delete)
qed

lemma cleanupAll_foldl:
  "reg_inv r \<Longrightarrow> reg_inv (foldl (\<lambda>r sessionId. snd (destroySession (fs sessionId) sessionId r)) r ks) \<and>
   set (map fst (clients (foldl (\<lambda>r sessionId. snd (destroySession (fs sessionId) sessionId r)) r ks)))
     = set (map fst (clients r)) - set ks"
proof (induction ks arbitrary: r)
  case Nil then show ?case by simp
next
  case (Cons k ks)
  have "reg_inv (snd (destroySession (fs k) k r))" using Cons.prems by (rule reg_inv_destroySession)
  moreover have "set (map fst (clients (snd (destroySession (fs k) k r)))) = set (map fst (clients r)) - {k}"
    by (simp only: destroySession_keys set_filter) blast
  ultimately show ?case using Cons.IH by auto
qed

lemma js_replace_first_suffix:
  "64 \<notin> set d \<Longrightarrow> js_replace_first (js ''@c.us'') [] (d @ js ''@c.us'') = d"
proof (induction d)
  case Nil
  show ?case by (simp add: js_def js_starts_with_def)
next
  case (Cons c d)
  then have "\<not> js_starts_with (c # d @ js ''@c.us'') (js ''@c.us'')" by (simp add: js_def js_starts_with_def)
  with Cons show ?case by simp
qed

lemma phone_digits_digits: "set (phone_digits n) \<subseteq> {c. is_ascii_digit c}"
  by (auto simp: phone_digits_def Let_def js_def is_ascii_digit_def)

lemma phone_digits_idem: "phone_digits (phone_digits n) = phone_digits n"
proof -
  let ?f = "filter is_ascii_digit n"
  have f: "filter is_ascii_digit (phone_digits n) = phone_digits n"
    using phone_digits_digits [of n] by (simp add: filter_id_conv subset_iff)
  show ?thesis
  proof (cases "\<not> js_starts_with ?f (js ''91'') \<and> length ?f = 10")
    case True
    then have "phone_digits n = js ''91'' @ ?f" by (simp add: phone_digits_def)
    moreover have "js_starts_with (js ''91'' @ ?f) (js ''91'')" by (simp add: js_starts_with_def)
    ultimately show ?thesis using f by (simp add: phone_digits_def)
  next
    case False
    then have "phone_digits n = ?f" by (auto simp: phone_digits_def)
    with False f show ?thesis by (simp add: phone_digits_def)
  qed
qed

lemma phone_digits_no_at: "\<not> js_includes (phone_digits n) (js ''@c.us'')"
proof
  assume "js_includes (phone_digits n) (js ''@c.us'')"
  then have "set (js ''@c.us'') \<subseteq> set (phone_digits n)" by (rule js_includes_set)
  then have "64 \<in> set (phone_digits n)" by (simp add: js_def)
  with phone_digits_digits [of n] show False by (auto simp: is_ascii_digit_def)
qed

lemma formatPhoneNumber_eq: "formatPhoneNumber n = phone_digits n @ js ''@c.us''"
  by (simp add: formatPhoneNumber_def phone_digits_no_at)

lemma qr_wait_settles_within:
  "(\<forall>j. fst (evs j) < fst (evs (Suc j))) \<Longrightarrow> nat (qrTimeout - fst (evs i)) \<le> n \<Longrightarrow> \<exists>r. qr_wait evs i = Some r"
proof (induction n arbitrary: i)
  case 0
  obtain t ev where e: "evs i = (t, ev)" by fastforce
  from 0 e have "qrTimeout \<le> t" by simp
  with e show ?case by (simp add: qr_wait.simps [of evs i])
next
  case (Suc n)
  show ?case
  proof (cases "qrTimeout \<le> fst (evs i)")
    case True
    obtain t ev where e: "evs i = (t, ev)" by fastforce
    with True show ?thesis by (simp add: qr_wait.simps [of evs i])
  next
    case False
    from Suc.prems(1) have "fst (evs i) < fst (evs (Suc i))" by blast
    with False Suc.prems(2) have "nat (qrTimeout - fst (evs (Suc i))) \<le> n" by linarith
    with Suc.IH Suc.prems(1) obtain r where r: "qr_wait evs (Suc i) = Some r" by blast
    with False show ?thesis
      by (cases "snd (evs i)") (auto simp: qr_wait.simps [of evs i] split: prod.splits)
  qed
qed

lemma getClientStatus_member:
  "jm_wf (clients r) \<Longrightarrow> (sessionId, a) \<in> set (clients r) \<Longrightarrow>
   getClientStatus getState r sessionId = None \<longleftrightarrow> getState a = StateHangs"
  by (simp add: getClientStatus_def jm_wf_get_member split: state_answer.splits)

section \<open>Properties\<close>

text \<open>Claim C11: the \<open>create\<close> contract. For a known session id
  \<open>createClient\<close> returns the existing adapter and changes nothing; for an
  unknown one it fails with the capacity error when the map holds
  \<open>maxSessions\<close> sessions, and otherwise registers a fresh adapter under the
  id.\<close>

theorem createClient_contract:
  "(jm_get (clients r) sid = Some a \<longrightarrow> createClient sid r = (Inr a, r)) \<and>
   (jm_get (clients r) sid = None \<and> maxSessions r \<le> int (length (clients r)) \<longrightarrow>
      createClient sid r = (Inl (MaxSessionsReached (maxSessions r)), r)) \<and>
   (jm_get (clients r) sid = None \<and> int (length (clients r)) < maxSessions r \<longrightarrow>
      fst (createClient sid r) = Inr (nextAdapter r) \<and>
      jm_get (clients (snd (createClient sid r))) sid = Some (nextAdapter r) \<and>
      nextAdapter (snd (createClient sid r)) = Suc (nextAdapter r))"
  by (auto simp: createClient_def)

theorem createClient_contract_witness:
  "let r0 = WhatsAppHandler_new (Some 1); r1 = snd (createClient (js ''s1'') r0)
   in fst (createClient (js ''s1'') r0) = Inr 0 \<and> createClient (js ''s1'') r1 = (Inr 0, r1) \<and>
      createClient (js ''s2'') r1 = (Inl (MaxSessionsReached 1), r1)"
proof -
  let ?r0 = "WhatsAppHandler_new (Some 1)"
  have g0: "jm_get (clients ?r0) (js ''s1'') = None" "int (length (clients ?r0)) < maxSessions ?r0"
    by (simp_all add: WhatsAppHandler_new_def jm_get_def js_int_or_def)
  note c0 = createClient_contract [of ?r0 "js ''s1''"]
  let ?r1 = "snd (createClient (js ''s1'') ?r0)"
  have r1: "?r1 = ?r0\<lparr>clients := [(js ''s1'', 0)], nextAdapter := 1\<rparr>"
    by (simp add: createClient_def WhatsAppHandler_new_def jm_get_def js_int_or_def)
  have g1: "jm_get (clients ?r1) (js ''s1'') = Some 0"
    "jm_get (clients ?r1) (js ''s2'') = None \<and> maxSessions ?r1 \<le> int (length (clients ?r1))"
    "maxSessions ?r1 = 1"
    unfolding r1 by (simp_all add: jm_get_def WhatsAppHandler_new_def js_int_or_def js_def)
  note c1 = createClient_contract [of ?r1 "js ''s1''" 0] createClient_contract [of ?r1 "js ''s2''"]
  from c0 g0 c1 g1 show ?thesis by (simp add: Let_def WhatsAppHandler_new_def)
qed

text \<open>Claim C12: every registry operation keeps the invariant (distinct session
  ids, at most \<open>maxSessions\<close> entries): \<open>createClient\<close>,
  \<open>destroySession\<close>, \<open>restartSession\<close>, the adapters' \<open>auth_failure\<close> and
  \<open>disconnected\<close> handlers, and \<open>cleanupAllSessions\<close>, which moreover leaves
  the map empty.\<close>

theorem reg_inv_preserved:
  assumes "reg_inv r"
  shows "reg_inv (snd (createClient sid r)) \<and> reg_inv (snd (destroySession f sid r)) \<and>
         reg_inv (snd (restartSession f sid r)) \<and> reg_inv (reg_adapter_event a sid sig r) \<and>
         reg_inv (cleanupAllSessions fs r) \<and> clients (cleanupAllSessions fs r) = []"
proof -
  note all = cleanupAll_foldl [OF assms, of fs "jm_keys (clients r)"]
  have "set (map fst (clients (cleanupAllSessions fs r))) = {}"
    using all by (simp add: cleanupAllSessions_def jm_keys_def)
  then have "clients (cleanupAllSessions fs r) = []" by simp
  with all assms show ?thesis
    by (simp add: cleanupAllSessions_def restartSession_def reg_inv_createClient reg_inv_destroySession
        reg_inv_adapter_event)
qed

theorem reg_inv_preserved_witness:
  "reg_inv (WhatsAppHandler_new None) \<and>
   reg_inv (snd (createClient (js ''s1'') (WhatsAppHandler_new None))) \<and>
   clients (cleanupAllSessions (\<lambda>_. False) (WhatsAppHandler_new None)) = []"
proof -
  have i: "reg_inv (WhatsAppHandler_new None)"
    by (simp add: reg_inv_def WhatsAppHandler_new_def jm_wf_def js_int_or_def)
  from reg_inv_preserved [OF i, of "js ''s1''" False 0 AuthFailureSig "\<lambda>_. False"] i show ?thesis by simp
qed

text \<open>Claim C35: destroying a session twice: the second call finds no session,
  returns \<open>false\<close> and changes nothing (the spec asks for success on a repeated
  destroy).\<close>

theorem destroySession_twice:
  "fst (destroySession f2 sid (snd (destroySession f1 sid r))) = False \<and>
   snd (destroySession f2 sid (snd (destroySession f1 sid r))) = snd (destroySession f1 sid r)"
  by (auto simp: destroySession_def cleanupSession_def Let_def split: option.splits)

text \<open>Claim C36: phone numbers round-trip. Extracting the number from a formatted
  chat id gives back the normalised digits, formatting those digits again gives
  the same chat id, and a number is valid exactly when it has more than seven
  digits after normalisation.\<close>

theorem phone_roundtrip:
  "extractPhoneFromMessage (Some (formatPhoneNumber n)) = Some (phone_digits n) \<and>
   formatPhoneNumber (phone_digits n) = formatPhoneNumber n \<and>
   (isValidWhatsAppNumber n \<longleftrightarrow> 7 < length (phone_digits n))"
proof -
  have "64 \<notin> set (phone_digits n)" using phone_digits_digits [of n] by (auto simp: is_ascii_digit_def)
  then have "js_replace_first (js ''@c.us'') [] (formatPhoneNumber n) = phone_digits n"
    by (simp add: formatPhoneNumber_eq js_replace_first_suffix)
  moreover have "formatPhoneNumber n \<noteq> []" by (simp add: formatPhoneNumber_eq js_def)
  moreover have "js_includes (formatPhoneNumber n) (js ''@c.us'')" by (simp add: formatPhoneNumber_eq)
  ultimately show ?thesis
    by (simp add: extractPhoneFromMessage_def formatPhoneNumber_eq phone_digits_idem isValidWhatsAppNumber_def)
qed



text \<open>Claim C17: the promise of \<open>getQRCode\<close> always settles: for any adapter
  behaviour in which time advances, the wait ends with the QR code, one of the
  three rejections, or the timeout \<open>'QR code generation timeout'\<close> at the
  latest 60 s after the call; an unknown session rejects at once.\<close>

theorem getQRCode_settles:
  assumes "\<forall>j. fst (evs j) < fst (evs (Suc j))"
  shows "\<exists>res. getQRCode r sessionId evs = Some res"
proof (cases "jm_get (clients r) sessionId")
  case None
  then show ?thesis by (simp add: getQRCode_def)
next
  case (Some a)
  from qr_wait_settles_within [OF assms order_refl] obtain q where "qr_wait evs 0 = Some q" by blast
  with Some show ?thesis by (simp add: getQRCode_def)
qed

theorem getQRCode_settles_witness:
  "(\<forall>j. fst ((\<lambda>i. (int i * 30000, QEOther)) j) < fst ((\<lambda>i. (int i * 30000, QEOther)) (Suc j))) \<and>
   getQRCode \<lparr>clients = [(js ''s1'', 0)], maxSessions = 10, nextAdapter = 1, destroyed = [], sessionDirs = []\<rparr>
     (js ''s1'') (\<lambda>i. (int i * 30000, QEOther)) = Some (Inr (Inl (js ''QR code generation timeout'')))"
proof -
  have inc: "\<forall>j. fst ((\<lambda>i. (int i * 30000, QEOther)) j) < fst ((\<lambda>i. (int i * 30000, QEOther)) (Suc j))"
    by simp
  from getQRCode_settles [OF inc, of "\<lparr>clients = [(js ''s1'', 0)], maxSessions = 10, nextAdapter = 1, destroyed = [], sessionDirs = []\<rparr>" "js ''s1''"]
  have "\<exists>res. getQRCode \<lparr>clients = [(js ''s1'', 0)], maxSessions = 10, nextAdapter = 1, destroyed = [], sessionDirs = []\<rparr>
     (js ''s1'') (\<lambda>i. (int i * 30000, QEOther)) = Some res" .
  moreover have "getQRCode \<lparr>clients = [(js ''s1'', 0)], maxSessions = 10, nextAdapter = 1, destroyed = [], sessionDirs = []\<rparr>
     (js ''s1'') (\<lambda>i. (int i * 30000, QEOther)) = Some (Inr (Inl (js ''QR code generation timeout'')))"
    by (simp add: getQRCode_def qr_wait.simps qrTimeout_def js_defs)
  ultimately show ?thesis using inc by simp
qed


text \<open>Claim C19: the status reports are not bounded in time. \<open>getAllSessions\<close>
  and \<open>healthCheck\<close> await \<open>getState()\<close> of each session in turn without a
  timeout, so they return exactly when no session's \<open>getState()\<close> hangs; one
  adapter that never answers blocks both forever.\<close>

theorem status_queries_unbounded:
  assumes "jm_wf (clients r)"
  shows "(getAllSessions getState r = None \<longleftrightarrow> (\<exists>(sessionId, a) \<in> set (clients r). getState a = StateHangs)) \<and>
         (healthCheck getState isConnected r = None \<longleftrightarrow> (\<exists>(sessionId, a) \<in> set (clients r). getState a = StateHangs))"
proof -
  have "(\<exists>(sessionId, a) \<in> set (clients r). getClientStatus getState r sessionId = None) \<longleftrightarrow>
        (\<exists>(sessionId, a) \<in> set (clients r). getState a = StateHangs)"
    using getClientStatus_member [OF assms] by fastforce
  then show ?thesis
    unfolding getAllSessions_def healthCheck_def option.map_disc_iff those_None_iff set_map
    by (simp only: None_in_map_option [of "\<lambda>k a. Pair k"] None_in_map_option [of "\<lambda>k a. Pair a"])
qed

theorem status_queries_unbounded_witness:
  "jm_wf (clients \<lparr>clients = [(js ''s1'', 0), (js ''s2'', 1)], maxSessions = 10, nextAdapter = 2, destroyed = [], sessionDirs = []\<rparr>) \<and>
   getAllSessions (\<lambda>a. if a = 1 then StateHangs else StateOk (Some (js ''CONNECTED'')) True)
     \<lparr>clients = [(js ''s1'', 0), (js ''s2'', 1)], maxSessions = 10, nextAdapter = 2, destroyed = [], sessionDirs = []\<rparr> = None"
proof -
  have wf: "jm_wf (clients \<lparr>clients = [(js ''s1'', 0), (js ''s2'', 1)], maxSessions = 10, nextAdapter = 2, destroyed = [], sessionDirs = []\<rparr>)"
    by (simp add: jm_wf_def js_def)
  from status_queries_unbounded [OF wf, of "\<lambda>a. if a = 1 then StateHangs else StateOk (Some (js ''CONNECTED'')) True"]
  show ?thesis using wf by auto
qed

end
