(* ===== verification/BotServer.thy ===== *)
theory BotServer
  imports Registry AIReplyEngine Pipeline
begin

text \<open>
  The multi-session server \<open>WhatsAppBotServer\<close> of src/unnamed/part_002: the
  map \<open>activeSessions\<close> from session id to session object, the registry
  \<open>WhatsAppHandler\<close> (Registry) that creates the adapters, the reply engine
  \<open>AIReply\<close> (AIReplyEngine), the per-contact spacing map \<open>rateLimits\<close>, the
  MySQL pool (absent when the connection failed), the socket handlers
  (\<open>generate_qr\<close>, \<open>get_status\<close>), the handlers it attaches to every adapter,
  the HTTP routes, the two cron jobs and the shutdown.
  The session objects live in a store (\<open>srv_heap\<close>, indexed by allocation
  order) because the adapter handlers close over the object, not over the map
  entry: a handler can change an object that is no longer, or not yet, in the
  map. As in SessionMachine, the continuation after the \<open>await\<close> of
  \<open>client.initialize()\<close> is a pending task, resumed by an event, so adapter
  events can come before or after it. An adapter whose \<open>destroy()\<close> was
  called emits nothing more.
\<close>

section \<open>State\<close>

record srv_session =
  s_id :: jstr
  s_client :: nat
  s_socket :: nat
  s_isReady :: bool
  messagesSent :: nat
  lastActivity :: time

text \<open>The tables that exist, and the rows of the three tables: \<open>whatsapp_sessions\<close> (status and \<open>messages_sent\<close> per
  id), \<open>whatsapp_messages\<close> (rows in insertion order) and \<open>bot_analytics\<close>
  (one row per date).\<close>

record db_state =
  db_tables :: "jstr list"
  db_sessions :: "(jstr, jstr \<times> nat) jsmap"
  db_messages :: "(jstr \<times> jstr \<times> jstr \<times> jstr) list"
  db_analytics :: "(jstr, nat \<times> nat) jsmap"

datatype srv_emit =
    SEConnected
  | SEQr
  | SEReady
  | SEMessageSent jstr jstr jstr
  | SEDisconnected jstr
  | SEAuthenticated
  | SEAuthFailure jstr
  | SEError jstr jstr
  | SEQrCallback "jstr + jstr"
  | SEStatusCallback nat nat

datatype srv_task = InitPending jstr nat

text \<open>The JSON bodies of the HTTP routes: \<open>/health\<close> (\<open>status: 'ok'\<close> and the
  number of active sessions), \<open>{success: true, data: stats}\<close>,
  \<open>{success: true, message: 'Message sent successfully'}\<close>, and
  \<open>{success: false, error}\<close>.\<close>

record srv_stats =
  activeSessionCount :: nat
  totalMessagesSent :: nat

datatype srv_body =
    BHealth nat
  | BStatus srv_stats
  | BSent
  | BError jstr

record srv_state =
  srv_sessions :: "(jstr, nat) jsmap"
  srv_heap :: "srv_session list"
  srv_handlers :: "(nat \<times> nat) list"
  srv_registry :: registry
  srv_aiConfig :: ai_config
  srv_ai :: ai_state
  srv_rateLimits :: "(jstr, time) jsmap option"
  srv_db :: "db_state option"
  srv_pending :: "srv_task list"
  srv_destroyed :: "nat list"
  srv_emits :: "(nat \<times> srv_emit) list"
  srv_chatLog :: "(nat \<times> action) list"
  srv_http :: "(nat \<times> srv_body) list"
  srv_closed :: bool

text \<open>The table names of \<open>createTables\<close>, in the order of its loop.\<close>

definition srv_table_names :: "jstr list" where
  "srv_table_names = [js ''whatsapp_sessions'', js ''whatsapp_messages'', js ''bot_analytics'']"

definition db_has :: "db_state \<Rightarrow> jstr \<Rightarrow> bool" where
  "db_has d t \<longleftrightarrow> t \<in> set (db_tables d)"

text \<open>\<open>createTables()\<close>: one \<open>CREATE TABLE IF NOT EXISTS\<close> per table, each in
  its own \<open>try\<close>; \<open>tableFails\<close> says which statements throw (the error is
  logged and the loop goes on).\<close>

definition createTables :: "(jstr \<Rightarrow> bool) \<Rightarrow> db_state \<Rightarrow> db_state" where
  "createTables tableFails d =
     foldl (\<lambda>d name. if tableFails name then d else d\<lparr>db_tables := js_set_add (db_tables d) name\<rparr>)
       d srv_table_names"

text \<open>\<open>setupDatabase()\<close>: \<open>dbConn\<close> is the database when \<open>getConnection()\<close> and
  \<open>ping()\<close> succeed, \<open>None\<close> when they throw (the pool is then \<open>null\<close>).\<close>

definition setupDatabase :: "db_state option \<Rightarrow> (jstr \<Rightarrow> bool) \<Rightarrow> db_state option" where
  "setupDatabase dbConn tableFails = map_option (createTables tableFails) dbConn"

text \<open>The constructor and \<open>init\<close>: \<open>new WhatsAppHandler()\<close>, \<open>new AIReply()\<close>
  (which throws without an API key, so that no server starts), and
  \<open>setupDatabase\<close>.\<close>

definition WhatsAppBotServer_new ::
  "int option \<Rightarrow> jstr option \<Rightarrow> jstr option \<Rightarrow> jstr option \<Rightarrow> jstr option \<Rightarrow> jstr option \<Rightarrow>
   db_state option \<Rightarrow> (jstr \<Rightarrow> bool) \<Rightarrow> srv_state option" where
  "WhatsAppBotServer_new envMaxSessions envApiKey envModel envBotName envPersonality envFallback dbConn tableFails =
     (case AIReply_new envApiKey envModel envBotName envPersonality envFallback of
        None \<Rightarrow> None
      | Some (cfg, ai) \<Rightarrow>
          Some \<lparr>srv_sessions = [], srv_heap = [], srv_handlers = [],
                srv_registry = WhatsAppHandler_new envMaxSessions, srv_aiConfig = cfg, srv_ai = ai,
                srv_rateLimits = None, srv_db = setupDatabase dbConn tableFails, srv_pending = [],
                srv_destroyed = [], srv_emits = [], srv_chatLog = [], srv_http = [], srv_closed = False\<rparr>)"

section \<open>Database\<close>

text \<open>\<open>saveSession(sessionId, status)\<close>: \<open>INSERT ... ON DUPLICATE KEY UPDATE\<close>
  sets the status and keeps the message count; \<open>dbFails\<close> says whether the
  statement throws (the error is logged).\<close>

definition saveSession :: "bool \<Rightarrow> jstr \<Rightarrow> jstr \<Rightarrow> db_state option \<Rightarrow> db_state option" where
  "saveSession dbFails sessionId newStatus db =
     (case db of
        None \<Rightarrow> None
      | Some d \<Rightarrow>
          if dbFails \<or> \<not> db_has d (js ''whatsapp_sessions'') then Some d
          else Some (d\<lparr>db_sessions := jm_set (db_sessions d) sessionId
                        (newStatus, case jm_get (db_sessions d) sessionId of None \<Rightarrow> 0 | Some (_, n) \<Rightarrow> n)\<rparr>))"

text \<open>\<open>saveMessage(...)\<close>: the insert fails on the foreign key when the session
  has no row, and when the table is missing; the count is raised only after the
  insert succeeded.\<close>

definition saveMessage :: "bool \<Rightarrow> jstr \<Rightarrow> jstr \<Rightarrow> jstr \<Rightarrow> jstr \<Rightarrow> db_state option \<Rightarrow> db_state option" where
  "saveMessage dbFails sessionId fromNumber messageText replyText db =
     (case db of
        None \<Rightarrow> None
      | Some d \<Rightarrow>
          (case jm_get (db_sessions d) sessionId of
             None \<Rightarrow> Some d
           | Some (st, n) \<Rightarrow>
               if dbFails \<or> \<not> db_has d (js ''whatsapp_messages'') then Some d
               else Some (d\<lparr>db_messages := db_messages d @ [(sessionId, fromNumber, messageText, replyText)],
                            db_sessions := jm_set (db_sessions d) sessionId (st, Suc n)\<rparr>)))"

section \<open>Statistics\<close>

text \<open>\<open>getSystemStats()\<close>: the number of entries of \<open>activeSessions\<close> and the sum
  of their \<open>messagesSent\<close>, replaced by \<open>SUM(messages_sent)\<close> of the table when
  the pool is there, the query succeeds (the table exists) and the sum is not \<open>NULL\<close> (the driver
  returns the decimal sum as a string, which is truthy even for \<open>'0'\<close>).\<close>

definition srv_session_sum :: "srv_state \<Rightarrow> nat" where
  "srv_session_sum st = sum_list (map (\<lambda>(sid, obj). messagesSent (srv_heap st ! obj)) (srv_sessions st))"

definition db_total :: "db_state \<Rightarrow> nat option" where
  "db_total d = (if db_sessions d = [] then None else Some (sum_list (map (\<lambda>(_, (_, n)). n) (db_sessions d))))"

definition getSystemStats :: "bool \<Rightarrow> srv_state \<Rightarrow> srv_stats" where
  "getSystemStats dbFails st =
     \<lparr>activeSessionCount = length (srv_sessions st),
      totalMessagesSent =
        (case srv_db st of
           None \<Rightarrow> srv_session_sum st
         | Some d \<Rightarrow> if dbFails \<or> \<not> db_has d (js ''whatsapp_sessions'') then srv_session_sum st
                     else (case db_total d of None \<Rightarrow> srv_session_sum st | Some t \<Rightarrow> t))\<rparr>"

text \<open>\<open>updateDailyAnalytics()\<close> at midnight: the row of the day gets the two
  numbers of \<open>getSystemStats\<close>.\<close>

definition updateDailyAnalytics :: "bool \<Rightarrow> jstr \<Rightarrow> srv_state \<Rightarrow> srv_state" where
  "updateDailyAnalytics dbFails today st =
     (case srv_db st of
        None \<Rightarrow> st
      | Some d \<Rightarrow>
          if dbFails \<or> \<not> db_has d (js ''bot_analytics'') then st
          else (let stats = getSystemStats False st
                in st\<lparr>srv_db := Some (d\<lparr>db_analytics := jm_set (db_analytics d) today
                                          (totalMessagesSent stats, activeSessionCount stats)\<rparr>)\<rparr>))"

section \<open>Incoming messages\<close>

text \<open>What the outside world does during one call of \<open>handleIncomingMessage\<close>:
  the contact's number (\<open>None\<close> when \<open>message.getContact()\<close> throws), the
  clock at the spacing check (also read by \<open>checkRateLimit\<close>) and after the
  reply, the completion service, \<open>toLowerCase\<close>, the settings
  \<open>MESSAGE_RATE_LIMIT\<close> and \<open>FALLBACK_REPLY\<close>, the draw of \<open>Math.random()\<close>,
  the chat calls that throw, and whether the database statements throw.\<close>

record srv_msg_ctx =
  mc_contact :: "jstr option"
  mc_now :: time
  mc_tAfter :: time
  mc_api :: "jstr \<Rightarrow> api_response"
  mc_lower :: "jstr \<Rightarrow> jstr"
  mc_envLimit :: "int option"
  mc_envFallback :: "jstr option"
  mc_rnd :: real
  mc_fails :: "action \<Rightarrow> bool"
  mc_dbFails :: bool

text \<open>The \<open>catch\<close>: \<open>message.reply(FALLBACK_REPLY || ...)\<close>, its own failure
  logged.\<close>

definition srv_fallback :: "srv_msg_ctx \<Rightarrow> action list" where
  "srv_fallback ctx =
     fst (run_actions (mc_fails ctx)
            [AReply (js_str_or (mc_envFallback ctx) (js ''Sorry, I encountered an issue. Please try again.''))])"

text \<open>\<open>rateLimit && (now - rateLimit.lastMessage) < 30000\<close>, where
  \<open>this.rateLimits\<close> is \<open>undefined\<close> until the first message passes.\<close>

definition srv_recent :: "(jstr, time) jsmap option \<Rightarrow> jstr \<Rightarrow> time \<Rightarrow> bool" where
  "srv_recent rl key tNow =
     (case rl of
        None \<Rightarrow> False
      | Some m \<Rightarrow> (case jm_get m key of None \<Rightarrow> False | Some lastMessage \<Rightarrow> tNow - lastMessage < 30000))"

text \<open>\<open>handleIncomingMessage(message, session)\<close> for the session object
  \<open>obj\<close>: the spacing check and record, \<open>aiReply.generateReply\<close>, and for a
  truthy reply the composing state, the 1--3 s pause, the reply, the counters of
  the session object, the emit to its socket and \<open>saveMessage\<close>.\<close>

definition srv_handleIncomingMessage ::
  "srv_msg_ctx \<Rightarrow> nat \<Rightarrow> wa_message \<Rightarrow> srv_state \<Rightarrow> srv_state \<times> action list" where
  "srv_handleIncomingMessage ctx obj msg st =
     (case mc_contact ctx of
        None \<Rightarrow> (st, srv_fallback ctx)
      | Some fromNumber \<Rightarrow>
          (let messageText = body msg;
               rateLimitKey = js ''rate_'' @ fromNumber;
               tNow = mc_now ctx
           in if srv_recent (srv_rateLimits st) rateLimitKey tNow then (st, [])
              else
                (let rl = (case srv_rateLimits st of None \<Rightarrow> [] | Some m \<Rightarrow> m);
                     st1 = st\<lparr>srv_rateLimits := Some (jm_set rl rateLimitKey tNow)\<rparr>;
                     (reply, ai') = ai_generateReply (mc_envLimit ctx) (srv_aiConfig st1) (mc_lower ctx)
                                      (mc_api ctx) tNow (mc_tAfter ctx) (srv_ai st1) messageText fromNumber;
                     st2 = st1\<lparr>srv_ai := ai'\<rparr>
                 in case reply of
                      None \<Rightarrow> (st2, [])
                    | Some r \<Rightarrow>
                        if r = [] then (st2, [])
                        else
                          (let (acts, ok) = run_actions (mc_fails ctx)
                                 [AGetChat, ATyping, ASleep (serverReplyDelay (mc_rnd ctx)), AReply r]
                           in if ok then
                                (let sess = srv_heap st2 ! obj;
                                     sess' = sess\<lparr>messagesSent := Suc (messagesSent sess),
                                                  lastActivity := mc_tAfter ctx\<rparr>
                                 in (st2\<lparr>srv_heap := (srv_heap st2)[obj := sess'],
                                         srv_emits := srv_emits st2 @ [(s_socket sess, SEMessageSent fromNumber messageText r)],
                                         srv_db := saveMessage (mc_dbFails ctx) (s_id sess) fromNumber messageText r
                                                     (srv_db st2)\<rparr>, acts))
                              else (st2, acts @ srv_fallback ctx)))))"

section \<open>Adapter handlers\<close>

text \<open>The events of an adapter the server listens to; \<open>AQr ok\<close> carries whether
  \<open>qrcode.toDataURL\<close> succeeded, \<open>AReady\<close> whether the database statement of
  \<open>saveSession\<close> throws.\<close>

datatype srv_adapter_ev =
    AQr bool
  | AReady bool
  | AMessage srv_msg_ctx wa_message
  | ADisconnected jstr
  | AAuthenticated
  | AAuthFailure jstr

text \<open>The handlers \<open>createWhatsAppSession\<close> attaches for the session object
  \<open>obj\<close> (lines 313--359).\<close>

definition srv_on_adapter :: "srv_adapter_ev \<Rightarrow> srv_state \<times> action list \<Rightarrow> nat \<Rightarrow> srv_state \<times> action list" where
  "srv_on_adapter ev acc obj =
     (case acc of
        (st, acts) \<Rightarrow>
          (let sess = srv_heap st ! obj; sock = s_socket sess; sessionId = s_id sess
           in case ev of
                AQr ok \<Rightarrow> (if ok then st\<lparr>srv_emits := srv_emits st @ [(sock, SEQr)]\<rparr> else st, acts)
              | AReady dbFails \<Rightarrow>
                  (st\<lparr>srv_heap := (srv_heap st)[obj := sess\<lparr>s_isReady := True\<rparr>],
                      srv_emits := srv_emits st @ [(sock, SEReady)],
                      srv_db := saveSession dbFails sessionId (js ''connected'') (srv_db st)\<rparr>, acts)
              | AMessage ctx msg \<Rightarrow>
                  if fromMe msg then (st, acts)
                  else (case srv_handleIncomingMessage ctx obj msg st of (st', as) \<Rightarrow> (st', acts @ as))
              | ADisconnected reason \<Rightarrow>
                  (st\<lparr>srv_heap := (srv_heap st)[obj := sess\<lparr>s_isReady := False\<rparr>],
                      srv_emits := srv_emits st @ [(sock, SEDisconnected reason)],
                      srv_sessions := jm_delete (srv_sessions st) sessionId\<rparr>, acts)
              | AAuthenticated \<Rightarrow> (st\<lparr>srv_emits := srv_emits st @ [(sock, SEAuthenticated)]\<rparr>, acts)
              | AAuthFailure m \<Rightarrow>
                  (st\<lparr>srv_emits := srv_emits st @ [(sock, SEAuthFailure m)],
                      srv_sessions := jm_delete (srv_sessions st) sessionId\<rparr>, acts)))"

text \<open>An event of adapter \<open>a\<close>: first the handlers the registry attached in
  \<open>createClient\<close> (\<open>disconnected\<close> and \<open>auth_failure\<close> delete the registry's
  entry), then the server's handlers, once per session object bound to the
  adapter, in the order they were attached. A destroyed adapter emits
  nothing.\<close>

definition srv_adapter_event :: "nat \<Rightarrow> srv_adapter_ev \<Rightarrow> srv_state \<Rightarrow> srv_state \<times> action list" where
  "srv_adapter_event a ev st =
     (let objs = map snd (filter (\<lambda>(a', _). a' = a) (srv_handlers st))
      in if a \<in> set (srv_destroyed st) \<or> objs = [] then (st, [])
         else
           (let sessionId = s_id (srv_heap st ! hd objs);
                st1 = (case ev of
                         ADisconnected _ \<Rightarrow>
                           st\<lparr>srv_registry := reg_adapter_event a sessionId DisconnectedSig (srv_registry st)\<rparr>
                       | AAuthFailure _ \<Rightarrow>
                           st\<lparr>srv_registry := reg_adapter_event a sessionId AuthFailureSig (srv_registry st)\<rparr>
                       | _ \<Rightarrow> st)
            in foldl (srv_on_adapter ev) (st1, []) objs))"

section \<open>Sessions\<close>

text \<open>\<open>generate_qr\<close> with the id \<open>uuidv4()\<close> drew, up to the \<open>await\<close> of
  \<open>client.initialize()\<close> in \<open>createWhatsAppSession\<close>: the registry's
  \<open>createClient\<close>, the session object with \<open>lastActivity = Date.now()\<close>, its
  handlers, and the pending initialization. When \<open>createClient\<close> throws, the
  socket gets \<open>error\<close> and the callback, if the client passed one, a failure.\<close>

definition generate_qr :: "nat \<Rightarrow> bool \<Rightarrow> jstr \<Rightarrow> time \<Rightarrow> srv_state \<Rightarrow> srv_state" where
  "generate_qr sock hasCallback sessionId tNow st =
     (case createClient sessionId (srv_registry st) of
        (Inl e, r) \<Rightarrow>
          st\<lparr>srv_registry := r,
             srv_emits := srv_emits st @ [(sock, SEError (js ''Failed to generate QR code'') (reg_error_message [] e))]
                            @ (if hasCallback then [(sock, SEQrCallback (Inl (reg_error_message [] e)))] else [])\<rparr>
      | (Inr a, r) \<Rightarrow>
          (let obj = length (srv_heap st)
           in st\<lparr>srv_registry := r,
                 srv_heap := srv_heap st @ [\<lparr>s_id = sessionId, s_client = a, s_socket = sock, s_isReady = False,
                                              messagesSent = 0, lastActivity = tNow\<rparr>],
                 srv_handlers := srv_handlers st @ [(a, obj)],
                 srv_pending := srv_pending st @ [InitPending sessionId obj]\<rparr>))"

text \<open>The settling of the \<open>i\<close>-th pending \<open>initialize()\<close>: on success the
  session object is put in \<open>activeSessions\<close> under its id and the callback gets
  the id; on a rejection (\<open>Some\<close> of its message) the socket gets \<open>error\<close> and
  the callback a failure, and the adapter stays in the registry.\<close>

definition srv_settle :: "nat \<Rightarrow> jstr option \<Rightarrow> bool \<Rightarrow> srv_state \<Rightarrow> srv_state" where
  "srv_settle i initError hasCallback st =
     (if i < length (srv_pending st) then
        (case srv_pending st ! i of
           InitPending sessionId obj \<Rightarrow>
             (let st1 = st\<lparr>srv_pending := take i (srv_pending st) @ drop (Suc i) (srv_pending st)\<rparr>;
                  sock = s_socket (srv_heap st ! obj)
              in case initError of
                   None \<Rightarrow>
                     st1\<lparr>srv_sessions := jm_set (srv_sessions st1) sessionId obj,
                         srv_emits := srv_emits st1 @ (if hasCallback then [(sock, SEQrCallback (Inr sessionId))] else [])\<rparr>
                 | Some m \<Rightarrow>
                     st1\<lparr>srv_emits := srv_emits st1 @ [(sock, SEError (js ''Failed to generate QR code'') m)]
                                     @ (if hasCallback then [(sock, SEQrCallback (Inl m))] else [])\<rparr>))
      else st)"

text \<open>\<open>get_status\<close>: the callback, if given, gets \<open>getSystemStats()\<close>.\<close>

definition get_status :: "nat \<Rightarrow> bool \<Rightarrow> bool \<Rightarrow> srv_state \<Rightarrow> srv_state" where
  "get_status sock hasCallback dbFails st =
     (if hasCallback
      then (let stats = getSystemStats dbFails st
            in st\<lparr>srv_emits := srv_emits st @ [(sock, SEStatusCallback (activeSessionCount stats) (totalMessagesSent stats))]\<rparr>)
      else st)"

section \<open>Cron jobs and shutdown\<close>

definition srv_adapters_of :: "srv_state \<Rightarrow> (jstr \<times> nat) list \<Rightarrow> nat list" where
  "srv_adapters_of st es = map (\<lambda>(sessionId, obj). s_client (srv_heap st ! obj)) es"

text \<open>\<open>cleanupInactiveSessions()\<close> every 30 minutes: every session whose
  \<open>lastActivity\<close> is more than \<open>SESSION_TIMEOUT\<close> (default one hour) ago has
  its adapter destroyed directly (\<open>session.client.destroy()\<close>, not through the
  registry) and is deleted while the map is iterated.\<close>

definition srv_idle :: "time \<Rightarrow> int \<Rightarrow> srv_state \<Rightarrow> jstr \<Rightarrow> nat \<Rightarrow> bool" where
  "srv_idle tNow timeout st sessionId obj \<longleftrightarrow> tNow - lastActivity (srv_heap st ! obj) > timeout"

definition cleanupInactiveSessions :: "time \<Rightarrow> int option \<Rightarrow> srv_state \<Rightarrow> srv_state" where
  "cleanupInactiveSessions tNow envTimeout st =
     (let timeout = js_int_or envTimeout 3600000;
          idle = srv_idle tNow timeout st
      in st\<lparr>srv_destroyed := srv_destroyed st @ srv_adapters_of st (filter (\<lambda>(k, v). idle k v) (srv_sessions st)),
            srv_sessions := jm_sweep idle (srv_sessions st) (srv_sessions st)\<rparr>)"

text \<open>\<open>gracefulShutdown()\<close> on \<open>SIGTERM\<close> or \<open>SIGINT\<close>: every active session's
  adapter is destroyed (the map is left as it is, the registry is not told),
  the pool is ended, and the HTTP server stops accepting connections.\<close>

definition gracefulShutdown :: "srv_state \<Rightarrow> srv_state" where
  "gracefulShutdown st =
     st\<lparr>srv_destroyed := srv_destroyed st @ srv_adapters_of st (srv_sessions st), srv_db := None,
        srv_closed := True\<rparr>"

section \<open>HTTP routes\<close>

text \<open>The routes of \<open>setupRoutes\<close> after the middleware let the request
  through. The body fields of \<open>POST /api/send-message\<close> are strings when
  present; \<open>sendError\<close> is the rejection of \<open>client.sendMessage(to, message)\<close>
  for an adapter.\<close>

datatype srv_request =
    GetHealth
  | GetApiStatus bool
  | PostSendMessage "jstr option" "jstr option" "jstr option" "nat \<Rightarrow> jstr \<Rightarrow> jstr \<Rightarrow> jstr option"
  | GetOther

definition sendMessageRoute ::
  "jstr option \<Rightarrow> jstr option \<Rightarrow> jstr option \<Rightarrow> (nat \<Rightarrow> jstr \<Rightarrow> jstr \<Rightarrow> jstr option) \<Rightarrow> srv_state \<Rightarrow> nat \<times> srv_body" where
  "sendMessageRoute sessionId to text sendError st =
     (if \<not> js_truthy_str sessionId \<or> \<not> js_truthy_str to \<or> \<not> js_truthy_str text
      then (400, BError (js ''Missing required parameters''))
      else
        (case jm_get (srv_sessions st) (the sessionId) of
           None \<Rightarrow> (400, BError (js ''Session not ready''))
         | Some obj \<Rightarrow>
             if \<not> s_isReady (srv_heap st ! obj) then (400, BError (js ''Session not ready''))
             else (case sendError (s_client (srv_heap st ! obj)) (the to) (the text) of
                     Some e \<Rightarrow> (500, BError e)
                   | None \<Rightarrow> (200, BSent))))"

definition srv_route :: "srv_request \<Rightarrow> srv_state \<Rightarrow> nat \<times> srv_body" where
  "srv_route req st =
     (case req of
        GetHealth \<Rightarrow> (200, BHealth (length (srv_sessions st)))
      | GetApiStatus dbFails \<Rightarrow> (200, BStatus (getSystemStats dbFails st))
      | PostSendMessage sessionId to text sendError \<Rightarrow> sendMessageRoute sessionId to text sendError st
      | GetOther \<Rightarrow> (404, BError (js ''Route not found'')))"

section \<open>Steps\<close>

datatype srv_event =
    SockConnect nat
  | GenerateQr nat bool jstr time
  | InitSettled nat "jstr option" bool
  | GetStatusReq nat bool bool
  | Adapter nat srv_adapter_ev
  | CronCleanup time "int option"
  | CronAnalytics bool jstr
  | Http srv_request
  | Shutdown

text \<open>One step. After the shutdown the HTTP server takes no new request; the
  sockets already open and the adapters not destroyed go on.\<close>

definition srv_step :: "srv_state \<Rightarrow> srv_event \<Rightarrow> srv_state" where
  "srv_step st e =
     (case e of
        SockConnect sock \<Rightarrow> st\<lparr>srv_emits := srv_emits st @ [(sock, SEConnected)]\<rparr>
      | GenerateQr sock cb sessionId tNow \<Rightarrow> generate_qr sock cb sessionId tNow st
      | InitSettled i err cb \<Rightarrow> srv_settle i err cb st
      | GetStatusReq sock cb dbFails \<Rightarrow> get_status sock cb dbFails st
      | Adapter a ev \<Rightarrow>
          (case srv_adapter_event a ev st of
             (st', acts) \<Rightarrow> st'\<lparr>srv_chatLog := srv_chatLog st' @ map (Pair a) acts\<rparr>)
      | CronCleanup tNow envTimeout \<Rightarrow> cleanupInactiveSessions tNow envTimeout st
      | CronAnalytics dbFails today \<Rightarrow> updateDailyAnalytics dbFails today st
      | Http req \<Rightarrow> if srv_closed st then st else st\<lparr>srv_http := srv_http st @ [srv_route req st]\<rparr>
      | Shutdown \<Rightarrow> gracefulShutdown st)"

definition srv_run :: "srv_state \<Rightarrow> srv_event list \<Rightarrow> srv_state" where
  "srv_run st es = foldl srv_step st es"

text \<open>The states the server reaches from its constructor.\<close>

inductive srv_reach :: "srv_state \<Rightarrow> bool" where
  init: "WhatsAppBotServer_new envMax envKey envModel envName envPersonality envFallback dbConn tableFails = Some st \<Longrightarrow>
         srv_reach st"
| step: "srv_reach st \<Longrightarrow> srv_reach (srv_step st e)"

section \<open>Invariant and progress measures\<close>

text \<open>The ids and adapters of the session objects, which no handler changes.\<close>

definition srv_ids :: "srv_state \<Rightarrow> (jstr \<times> nat) list" where
  "srv_ids st = map (\<lambda>s. (s_id s, s_client s)) (srv_heap st)"

text \<open>Well-formedness: one entry per id in \<open>activeSessions\<close>, a registry that
  keeps its own invariant, and every map entry, handler binding and pending
  initialization refers to an existing session object with that id or adapter.\<close>

definition srv_wf :: "srv_state \<Rightarrow> bool" where
  "srv_wf st \<longleftrightarrow> jm_wf (srv_sessions st) \<and> reg_inv (srv_registry st) \<and>
     (\<forall>(sessionId, obj) \<in> set (srv_sessions st). obj < length (srv_ids st) \<and> fst (srv_ids st ! obj) = sessionId) \<and>
     (\<forall>(a, obj) \<in> set (srv_handlers st). obj < length (srv_ids st) \<and> snd (srv_ids st ! obj) = a) \<and>
     (\<forall>sessionId obj. InitPending sessionId obj \<in> set (srv_pending st) \<longrightarrow>
        obj < length (srv_ids st) \<and> fst (srv_ids st ! obj) = sessionId)"

text \<open>The only event that puts an entry into \<open>activeSessions\<close>.\<close>

definition srv_creates :: "srv_event \<Rightarrow> bool" where
  "srv_creates e = (case e of InitSettled _ _ _ \<Rightarrow> True | _ \<Rightarrow> False)"

text \<open>From \<open>st\<close> to \<open>st'\<close> no session object lost its \<open>lastActivity\<close> and no
  entry was added to \<open>activeSessions\<close>.\<close>

definition srv_keeps_activity :: "srv_state \<Rightarrow> srv_state \<Rightarrow> bool" where
  "srv_keeps_activity st st' \<longleftrightarrow> length (srv_heap st) \<le> length (srv_heap st') \<and>
     (\<forall>i < length (srv_heap st). lastActivity (srv_heap st' ! i) = lastActivity (srv_heap st ! i)) \<and>
     set (srv_sessions st') \<subseteq> set (srv_sessions st)"

text \<open>The events that leave the registry alone: the socket and HTTP requests
  other than \<open>generate_qr\<close>, the cron jobs and the shutdown.\<close>

definition srv_housekeeping :: "srv_event \<Rightarrow> bool" where
  "srv_housekeeping e =
     (case e of SockConnect _ \<Rightarrow> True | GetStatusReq _ _ _ \<Rightarrow> True | CronCleanup _ _ \<Rightarrow> True
      | CronAnalytics _ _ \<Rightarrow> True | Http _ \<Rightarrow> True | Shutdown \<Rightarrow> True | _ \<Rightarrow> False)"

text \<open>The shape of an HTTP answer: the status is one of 200, 400, 404, 500, and
  the body reports success exactly when the status is 200.\<close>

definition srv_resp_wt :: "nat \<times> srv_body \<Rightarrow> bool" where
  "srv_resp_wt r =
     (case r of (code, b) \<Rightarrow>
        code \<in> {200, 400, 404, 500} \<and> (code = 200 \<longleftrightarrow> (case b of BError _ \<Rightarrow> False | _ \<Rightarrow> True)))"


section \<open>Lemmas\<close>


lemma srv_handleIncomingMessage_eq:
  "srv_handleIncomingMessage ctx obj msg st =
     (case mc_contact ctx of
        None \<Rightarrow> (st, srv_fallback ctx)
      | Some c \<Rightarrow>
          if srv_recent (srv_rateLimits st) (js ''rate_'' @ c) (mc_now ctx) then (st, [])
          else (st\<lparr>srv_rateLimits := Some (jm_set (case srv_rateLimits st of None \<Rightarrow> [] | Some m \<Rightarrow> m)
                                              (js ''rate_'' @ c) (mc_now ctx)),
                   srv_ai := (srv_ai st)\<lparr>rateLimits := snd (checkRateLimit (mc_envLimit ctx) (mc_now ctx)
                                                              (rateLimits (srv_ai st)) c)\<rparr>\<rparr>, []))"
  by (simp add: srv_handleIncomingMessage_def ai_generateReply_denied Let_def split: option.splits)

lemma srv_ids_updates [simp]:
  "srv_ids (st\<lparr>srv_emits := x1\<rparr>) = srv_ids st" "srv_ids (st\<lparr>srv_chatLog := x2\<rparr>) = srv_ids st"
  "srv_ids (st\<lparr>srv_http := x3\<rparr>) = srv_ids st" "srv_ids (st\<lparr>srv_db := x4\<rparr>) = srv_ids st"
  "srv_ids (st\<lparr>srv_destroyed := x5\<rparr>) = srv_ids st" "srv_ids (st\<lparr>srv_closed := x6\<rparr>) = srv_ids st"
  "srv_ids (st\<lparr>srv_rateLimits := x7\<rparr>) = srv_ids st" "srv_ids (st\<lparr>srv_ai := x8\<rparr>) = srv_ids st"
  "srv_ids (st\<lparr>srv_sessions := x9\<rparr>) = srv_ids st" "srv_ids (st\<lparr>srv_registry := x10\<rparr>) = srv_ids st"
  "srv_ids (st\<lparr>srv_pending := x11\<rparr>) = srv_ids st"
  by (simp_all add: srv_ids_def)

lemma srv_ids_heap_update:
  "s_id s' = s_id (srv_heap st ! i) \<Longrightarrow> s_client s' = s_client (srv_heap st ! i) \<Longrightarrow>
   srv_ids (st\<lparr>srv_heap := (srv_heap st)[i := s']\<rparr>) = srv_ids st"
  using map_update_same [of "\<lambda>s. (s_id s, s_client s)" s' "srv_heap st" i] by (simp add: srv_ids_def)

lemma srv_wf_updates [simp]:
  "srv_wf (st\<lparr>srv_emits := x1\<rparr>) = srv_wf st" "srv_wf (st\<lparr>srv_chatLog := x2\<rparr>) = srv_wf st"
  "srv_wf (st\<lparr>srv_http := x3\<rparr>) = srv_wf st" "srv_wf (st\<lparr>srv_db := x4\<rparr>) = srv_wf st"
  "srv_wf (st\<lparr>srv_destroyed := x5\<rparr>) = srv_wf st" "srv_wf (st\<lparr>srv_closed := x6\<rparr>) = srv_wf st"
  "srv_wf (st\<lparr>srv_rateLimits := x7\<rparr>) = srv_wf st" "srv_wf (st\<lparr>srv_ai := x8\<rparr>) = srv_wf st"
  by (simp_all add: srv_wf_def)



lemma srv_wf_transfer:
  assumes "srv_wf st" "srv_ids st' = srv_ids st" "set (srv_sessions st') \<subseteq> set (srv_sessions st)"
    "jm_wf (srv_sessions st')" "srv_registry st' = srv_registry st" "srv_handlers st' = srv_handlers st"
    "srv_pending st' = srv_pending st"
  shows "srv_wf st'"
proof -
  have "\<forall>(sessionId, obj) \<in> set (srv_sessions st'). obj < length (srv_ids st) \<and> fst (srv_ids st ! obj) = sessionId"
    using assms(1,3) unfolding srv_wf_def by blast
  with assms show ?thesis unfolding srv_wf_def by simp
qed

lemma srv_wf_heap_update:
  "srv_wf st \<Longrightarrow> s_id s' = s_id (srv_heap st ! i) \<Longrightarrow> s_client s' = s_client (srv_heap st ! i) \<Longrightarrow>
   srv_wf (st\<lparr>srv_heap := (srv_heap st)[i := s']\<rparr>)"
  by (rule srv_wf_transfer) (simp_all add: srv_ids_heap_update srv_wf_def)

lemma srv_wf_delete: "srv_wf st \<Longrightarrow> srv_wf (st\<lparr>srv_sessions := jm_delete (srv_sessions st) k\<rparr>)"
  by (rule srv_wf_transfer) (auto simp: srv_wf_def jm_delete_def jm_wf_delete [unfolded jm_delete_def])

lemma srv_wf_registry: "srv_wf st \<Longrightarrow> reg_inv r \<Longrightarrow> srv_wf (st\<lparr>srv_registry := r\<rparr>)"
  by (simp add: srv_wf_def)

lemma srv_wf_handleIncomingMessage:
  "srv_handleIncomingMessage ctx obj msg st = (st', as) \<Longrightarrow> srv_wf st \<Longrightarrow> srv_wf st'"
  by (auto simp: srv_handleIncomingMessage_eq split: option.splits if_splits)

lemma srv_ids_ready:
  "map (\<lambda>s. (s_id s, s_client s)) ((srv_heap st)[obj := (srv_heap st ! obj)\<lparr>s_isReady := b\<rparr>]) = srv_ids st"
  by (simp add: srv_ids_def map_update_same)

lemma srv_wf_on_adapter: "srv_wf (fst acc) \<Longrightarrow> srv_wf (fst (srv_on_adapter ev acc obj))"
proof (cases acc)
  case (Pair st acts)
  assume "srv_wf (fst acc)"
  with Pair have wf: "srv_wf st" by simp
  have wf_sub: "jm_wf (jm_delete (srv_sessions st) k) \<and> set (jm_delete (srv_sessions st) k) \<subseteq> set (srv_sessions st)" for k
    using wf by (auto simp: srv_wf_def jm_delete_def)
  show ?thesis
  proof (cases ev)
    case (AMessage ctx msg)
    with wf Pair show ?thesis
      by (auto simp: srv_on_adapter_def Let_def dest: srv_wf_handleIncomingMessage split: prod.splits)
  next
    case (ADisconnected reason)
    show ?thesis
      by (rule srv_wf_transfer [OF wf]) (use Pair ADisconnected wf_sub in \<open>simp_all add: srv_on_adapter_def Let_def srv_ids_heap_update\<close>)
  next
    case (AAuthFailure m)
    show ?thesis
      by (rule srv_wf_transfer [OF wf]) (use Pair AAuthFailure wf_sub in \<open>simp_all add: srv_on_adapter_def Let_def\<close>)
  next
    case (AReady dbFails)
    show ?thesis
      by (rule srv_wf_transfer [OF wf]) (use Pair AReady wf in \<open>simp_all add: srv_on_adapter_def Let_def srv_ids_heap_update srv_wf_def\<close>)
  next
    case (AQr ok)
    with wf Pair show ?thesis by (simp add: srv_on_adapter_def Let_def)
  next
    case AAuthenticated
    with wf Pair show ?thesis by (simp add: srv_on_adapter_def Let_def)
  qed
qed



lemma srv_wf_foldl_on_adapter: "srv_wf (fst acc) \<Longrightarrow> srv_wf (fst (foldl (srv_on_adapter ev) acc objs))"
  by (induction objs arbitrary: acc) (simp_all add: srv_wf_on_adapter)

lemma srv_wf_reg_inv: "srv_wf st \<Longrightarrow> reg_inv (srv_registry st)"
  by (simp add: srv_wf_def)

lemma srv_wf_adapter_event:
  assumes wf: "srv_wf st" and e: "srv_adapter_event a ev st = (st', acts)"
  shows "srv_wf st'"
proof -
  have reg: "srv_wf (st\<lparr>srv_registry := reg_adapter_event a k sig (srv_registry st)\<rparr>)" for k sig
    using wf by (simp add: srv_wf_registry reg_inv_adapter_event srv_wf_reg_inv)
  have "srv_wf (case ev of
                  ADisconnected _ \<Rightarrow> st\<lparr>srv_registry := reg_adapter_event a k DisconnectedSig (srv_registry st)\<rparr>
                | AAuthFailure _ \<Rightarrow> st\<lparr>srv_registry := reg_adapter_event a k AuthFailureSig (srv_registry st)\<rparr>
                | _ \<Rightarrow> st)" for k
    using wf reg by (cases ev) simp_all
  then have "srv_wf (fst (srv_adapter_event a ev st))"
    unfolding srv_adapter_event_def Let_def using wf srv_wf_foldl_on_adapter by simp
  with e show ?thesis by simp
qed

lemma srv_wf_generate_qr: "srv_wf st \<Longrightarrow> srv_wf (generate_qr sock cb sessionId t st)"
proof -
  assume wf: "srv_wf st"
  obtain res r where cc: "createClient sessionId (srv_registry st) = (res, r)" by fastforce
  have ri: "reg_inv r" using reg_inv_createClient [of "srv_registry st" sessionId] wf cc by (simp add: srv_wf_def)
  show ?thesis
  proof (cases res)
    case (Inl e)
    with cc wf ri show ?thesis by (simp add: generate_qr_def srv_wf_registry)
  next
    case (Inr a)
    let ?s = "\<lparr>s_id = sessionId, s_client = a, s_socket = sock, s_isReady = False, messagesSent = 0, lastActivity = t\<rparr>"
    define st' where "st' = generate_qr sock cb sessionId t st"
    have f: "srv_sessions st' = srv_sessions st" "srv_registry st' = r"
      "srv_handlers st' = srv_handlers st @ [(a, length (srv_heap st))]"
      "srv_pending st' = srv_pending st @ [InitPending sessionId (length (srv_heap st))]"
      "srv_ids st' = srv_ids st @ [(sessionId, a)]"
      using cc Inr by (simp_all add: st'_def generate_qr_def Let_def srv_ids_def)
    have len: "length (srv_ids st) = length (srv_heap st)" by (simp add: srv_ids_def)
    have "srv_wf st'"
      using wf ri unfolding srv_wf_def f by (auto simp: len nth_append less_Suc_eq)
    then show ?thesis by (simp add: st'_def)
  qed
qed

lemma srv_wf_settle: "srv_wf st \<Longrightarrow> srv_wf (srv_settle i err cb st)"
proof (cases "i < length (srv_pending st)")
  case True
  assume wf: "srv_wf st"
  obtain sessionId obj where t: "srv_pending st ! i = InitPending sessionId obj" by (cases "srv_pending st ! i")
  then have "InitPending sessionId obj \<in> set (srv_pending st)" using True by (metis nth_mem)
  with wf have o: "obj < length (srv_ids st) \<and> fst (srv_ids st ! obj) = sessionId" by (simp add: srv_wf_def)
  have sub: "set (take i (srv_pending st) @ drop (Suc i) (srv_pending st)) \<subseteq> set (srv_pending st)"
    by (auto dest: in_set_takeD in_set_dropD)
  have "srv_wf (st\<lparr>srv_pending := take i (srv_pending st) @ drop (Suc i) (srv_pending st)\<rparr>)"
    using wf sub unfolding srv_wf_def by auto
  with o show ?thesis using True t
    by (cases err) (auto simp: srv_settle_def Let_def srv_wf_def jm_wf_set dest: set_jm_set_subset [THEN subsetD])
qed (simp add: srv_settle_def)

lemma srv_wf_cleanup: "srv_wf st \<Longrightarrow> srv_wf (cleanupInactiveSessions t env st)"
proof -
  assume wf: "srv_wf st"
  then have j: "jm_wf (srv_sessions st)" by (simp add: srv_wf_def)
  show ?thesis
    by (rule srv_wf_transfer [OF wf]) (use j in \<open>auto simp: cleanupInactiveSessions_def Let_def jm_sweep_self\<close>)
qed

lemma srv_wf_step: "srv_wf st \<Longrightarrow> srv_wf (srv_step st e)"
  by (cases e) (auto simp: srv_step_def get_status_def updateDailyAnalytics_def gracefulShutdown_def Let_def
      srv_wf_generate_qr srv_wf_settle srv_wf_cleanup intro: srv_wf_adapter_event split: prod.splits option.splits)



lemma lastActivity_ready_update [simp]:
  "i < length xs \<Longrightarrow> lastActivity (xs[j := (xs ! j)\<lparr>s_isReady := b\<rparr>] ! i) = lastActivity (xs ! i)"
  by (cases "i = j") simp_all

lemma srv_keeps_activity_refl [simp]: "srv_keeps_activity st st"
  by (simp add: srv_keeps_activity_def)

lemma srv_keeps_activity_trans:
  "srv_keeps_activity s1 s2 \<Longrightarrow> srv_keeps_activity s2 s3 \<Longrightarrow> srv_keeps_activity s1 s3"
  unfolding srv_keeps_activity_def by (metis (no_types, lifting) order.trans less_le_trans)

lemma srv_keeps_activity_on_adapter:
  "srv_keeps_activity st (fst acc) \<Longrightarrow> srv_keeps_activity st (fst (srv_on_adapter ev acc obj))"
proof (cases acc)
  case (Pair s acts)
  assume k: "srv_keeps_activity st (fst acc)"
  have "srv_keeps_activity s (fst (srv_on_adapter ev (s, acts) obj))"
  proof (cases ev)
    case (AMessage ctx msg)
    then show ?thesis
      by (auto simp: srv_on_adapter_def Let_def srv_handleIncomingMessage_eq srv_keeps_activity_def
          split: option.splits)
  qed (auto simp: srv_on_adapter_def Let_def srv_keeps_activity_def nth_list_update jm_delete_def)
  with k Pair show ?thesis using srv_keeps_activity_trans by fastforce
qed

lemma srv_keeps_activity_foldl:
  "srv_keeps_activity st (fst acc) \<Longrightarrow> srv_keeps_activity st (fst (foldl (srv_on_adapter ev) acc objs))"
  by (induction objs arbitrary: acc) (simp_all add: srv_keeps_activity_on_adapter)

lemma srv_keeps_activity_adapter_event: "srv_keeps_activity st (fst (srv_adapter_event a ev st))"
proof -
  have "srv_keeps_activity st (case ev of
                  ADisconnected _ \<Rightarrow> st\<lparr>srv_registry := r1\<rparr>
                | AAuthFailure _ \<Rightarrow> st\<lparr>srv_registry := r2\<rparr>
                | _ \<Rightarrow> st)" for r1 r2
    by (cases ev) (simp_all add: srv_keeps_activity_def)
  then show ?thesis unfolding srv_adapter_event_def Let_def using srv_keeps_activity_foldl by simp
qed

lemma srv_keeps_activity_step: "\<not> srv_creates e \<Longrightarrow> srv_keeps_activity st (srv_step st e)"
proof (cases e)
  case (Adapter a ev)
  then show ?thesis using srv_keeps_activity_adapter_event [of st a ev]
    by (auto simp: srv_step_def srv_keeps_activity_def split: prod.splits)
next
  case (GenerateQr sock cb sessionId t)
  then show ?thesis
    by (auto simp: srv_step_def generate_qr_def Let_def srv_keeps_activity_def nth_append split: prod.splits sum.splits)
next
  case (CronCleanup t env)
  have "set (srv_sessions (cleanupInactiveSessions t env st)) \<subseteq> set (srv_sessions st)"
    by (simp add: cleanupInactiveSessions_def Let_def set_jm_sweep_subset)
  with CronCleanup show ?thesis by (simp add: srv_step_def srv_keeps_activity_def cleanupInactiveSessions_def Let_def)
qed (auto simp: srv_step_def srv_creates_def get_status_def updateDailyAnalytics_def gracefulShutdown_def
        srv_keeps_activity_def Let_def split: option.splits)



lemma srv_run_Cons [simp]: "srv_run st (e # es) = srv_run (srv_step st e) es"
  by (simp add: srv_run_def)

lemma srv_run_Nil [simp]: "srv_run st [] = st"
  by (simp add: srv_run_def)

lemma srv_run_keeps: "list_all (\<lambda>e. \<not> srv_creates e) es \<Longrightarrow> srv_keeps_activity st (srv_run st es)"
proof (induction es arbitrary: st)
  case (Cons e es)
  then have "srv_keeps_activity st (srv_step st e)" "srv_keeps_activity (srv_step st e) (srv_run (srv_step st e) es)"
    by (simp_all add: srv_keeps_activity_step)
  then show ?case by (simp add: srv_keeps_activity_trans [of st "srv_step st e"])
qed simp

lemma srv_run_wf: "srv_wf st \<Longrightarrow> srv_wf (srv_run st es)"
  by (induction es arbitrary: st) (simp_all add: srv_wf_step)


text \<open>A failed \<open>CREATE TABLE\<close> does not stop the loop: afterwards exactly the
  tables that existed or whose statement succeeded exist.\<close>

lemma createTables_tables:
  "set (db_tables (createTables tableFails d)) =
     set (db_tables d) \<union> {t \<in> set srv_table_names. \<not> tableFails t}"
proof -
  have "set (db_tables (foldl (\<lambda>d name. if tableFails name then d else d\<lparr>db_tables := js_set_add (db_tables d) name\<rparr>) d ns))
        = set (db_tables d) \<union> {t \<in> set ns. \<not> tableFails t}" for ns
    by (induction ns arbitrary: d) auto
  then show ?thesis by (simp add: createTables_def)
qed

lemma srv_wf_new:
  "WhatsAppBotServer_new envMax envKey envModel envName envPersonality envFallback dbConn tableFails = Some st \<Longrightarrow> srv_wf st"
  by (auto simp: WhatsAppBotServer_new_def WhatsAppHandler_new_def srv_wf_def reg_inv_def jm_wf_def
      split: option.splits)

lemma srv_registry_housekeeping:
  "srv_housekeeping e \<Longrightarrow> srv_registry (srv_step st e) = srv_registry st"
  by (cases e) (simp_all add: srv_housekeeping_def srv_step_def get_status_def cleanupInactiveSessions_def
      updateDailyAnalytics_def gracefulShutdown_def Let_def split: option.splits)

lemma srv_registry_run:
  "list_all srv_housekeeping es \<Longrightarrow> srv_registry (srv_run st es) = srv_registry st"
  by (induction es arbitrary: st) (simp_all add: srv_registry_housekeeping)


section \<open>Properties\<close>

text \<open>Claim C13: the multi-session server never answers a message. Whatever the
  contact, the text, the completion service and the chat do, its
  \<open>handleIncomingMessage\<close> sends no reply, changes no session object (so
  neither \<open>messagesSent\<close> nor \<open>lastActivity\<close>), writes nothing to the
  database, emits nothing and keeps \<open>activeSessions\<close>; the only chat call is the
  fallback reply when \<open>getContact()\<close> throws. \<open>AIReply.checkRateLimit\<close>
  denies every request, so \<open>generateReply\<close> always returns \<open>null\<close>.\<close>

theorem srv_never_replies:
  "srv_heap (fst (srv_handleIncomingMessage ctx obj msg st)) = srv_heap st \<and>
   srv_db (fst (srv_handleIncomingMessage ctx obj msg st)) = srv_db st \<and>
   srv_emits (fst (srv_handleIncomingMessage ctx obj msg st)) = srv_emits st \<and>
   srv_sessions (fst (srv_handleIncomingMessage ctx obj msg st)) = srv_sessions st \<and>
   snd (srv_handleIncomingMessage ctx obj msg st) = (if mc_contact ctx = None then srv_fallback ctx else [])"
  by (simp add: srv_handleIncomingMessage_eq split: option.splits)



text \<open>Claim C15: an active session is removed by the first cleanup that runs more
  than \<open>SESSION_TIMEOUT\<close> after the session was created, whatever happens in
  between (messages from its contacts, readiness, status requests, other
  cleanups), as long as no initialization settles: \<open>lastActivity\<close> only moves
  when a reply is sent, which never happens.\<close>

theorem idle_session_removed:
  assumes wf: "srv_wf st" and active: "jm_get (srv_sessions st) sessionId = Some obj"
    and idle: "js_int_or envTimeout 3600000 < tNow - lastActivity (srv_heap st ! obj)"
    and es: "list_all (\<lambda>e. \<not> srv_creates e) es"
  shows "jm_get (srv_sessions (cleanupInactiveSessions tNow envTimeout (srv_run st es))) sessionId = None"
proof -
  let ?st = "srv_run st es"
  have wf': "srv_wf ?st" using wf by (rule srv_run_wf)
  have k: "srv_keeps_activity st ?st" using es by (rule srv_run_keeps)
  from active have "(sessionId, obj) \<in> set (srv_sessions st)" by (rule jm_get_Some_value)
  with wf have ol: "obj < length (srv_heap st)" by (auto simp: srv_wf_def srv_ids_def)
  have j: "jm_wf (srv_sessions st)" "jm_wf (srv_sessions ?st)" using wf wf' by (simp_all add: srv_wf_def)
  have "\<not> (\<lambda>(k, v). \<not> srv_idle tNow (js_int_or envTimeout 3600000) ?st k v) (sessionId, v)"
    if "(sessionId, v) \<in> set (srv_sessions ?st)" for v
  proof -
    from that k have "(sessionId, v) \<in> set (srv_sessions st)" by (auto simp: srv_keeps_activity_def)
    with j active have "v = obj" by (simp add: jm_wf_get_unique)
    with k ol idle show ?thesis by (simp add: srv_keeps_activity_def srv_idle_def)
  qed
  then show ?thesis
    by (simp add: cleanupInactiveSessions_def Let_def jm_sweep_self j jm_get_filter_None)
qed

theorem idle_session_removed_witness:
  "jm_get (srv_sessions (cleanupInactiveSessions 4000000 None
     (srv_run (srv_run (the (WhatsAppBotServer_new None (Some (js ''key'')) None None None None None (\<lambda>_. False)))
             [GenerateQr 0 True (js ''s1'') 0, InitSettled 0 None True])
       [Adapter 0 (AReady False),
        Adapter 0 (AMessage \<lparr>mc_contact = Some (js ''911234567890''), mc_now = 3999000, mc_tAfter = 3999000,
                           mc_api = \<lambda>_. ApiData [Some (js ''hello'')], mc_lower = id, mc_envLimit = None,
                           mc_envFallback = None, mc_rnd = 0, mc_fails = \<lambda>_. False, mc_dbFails = False\<rparr>
                          \<lparr>fromMe = False, msg_from = js ''911234567890@c.us'', msg_timestamp = 3999, body = js ''hi''\<rparr>)])))
     (js ''s1'') = None"
proof -
  let ?st = "srv_run (the (WhatsAppBotServer_new None (Some (js ''key'')) None None None None None (\<lambda>_. False)))
             [GenerateQr 0 True (js ''s1'') 0, InitSettled 0 None True]"
  have wf: "srv_wf ?st"
    by (simp add: WhatsAppBotServer_new_def AIReply_new_def WhatsAppHandler_new_def srv_step_def generate_qr_def
        createClient_def srv_settle_def srv_wf_def srv_ids_def reg_inv_def js_defs jm_wf_def)
  have act: "jm_get (srv_sessions ?st) (js ''s1'') = Some 0"
    by (simp add: WhatsAppBotServer_new_def AIReply_new_def WhatsAppHandler_new_def srv_step_def generate_qr_def
        createClient_def srv_settle_def js_defs)
  have idle: "js_int_or None 3600000 < 4000000 - lastActivity (srv_heap ?st ! 0)"
    by (simp add: WhatsAppBotServer_new_def AIReply_new_def WhatsAppHandler_new_def srv_step_def generate_qr_def
        createClient_def srv_settle_def js_defs)
  have es: "list_all (\<lambda>e. \<not> srv_creates e)
     [Adapter 0 (AReady False),
      Adapter 0 (AMessage \<lparr>mc_contact = Some (js ''911234567890''), mc_now = 3999000, mc_tAfter = 3999000,
                           mc_api = \<lambda>_. ApiData [Some (js ''hello'')], mc_lower = id, mc_envLimit = None,
                           mc_envFallback = None, mc_rnd = 0, mc_fails = \<lambda>_. False, mc_dbFails = False\<rparr>
                          \<lparr>fromMe = False, msg_from = js ''911234567890@c.us'', msg_timestamp = 3999, body = js ''hi''\<rparr>)]"
    by (simp add: srv_creates_def)
  show ?thesis by (rule idle_session_removed [OF wf act idle es])
qed

text \<open>Claim C16: cleaning up idle sessions, analytics, status requests and the
  shutdown never give capacity back to the registry: the cron job and the
  shutdown destroy adapters with \<open>session.client.destroy()\<close> and leave their
  entries in \<open>WhatsAppHandler.clients\<close>. Once the registry is full, every later
  \<open>generate_qr\<close> with a new id fails with \<open>Maximum sessions limit reached\<close>,
  however many sessions were cleaned up in between.\<close>

theorem cleanup_never_frees_capacity:
  assumes full: "maxSessions (srv_registry st) \<le> int (length (clients (srv_registry st)))"
    and fresh: "jm_get (clients (srv_registry st)) sessionId = None"
    and es: "list_all srv_housekeeping es"
  shows "generate_qr sock False sessionId t (srv_run st es) =
           (srv_run st es)\<lparr>srv_emits := srv_emits (srv_run st es) @
              [(sock, SEError (js ''Failed to generate QR code'')
                         (reg_error_message [] (MaxSessionsReached (maxSessions (srv_registry st)))))]\<rparr>"
proof -
  from es have r: "srv_registry (srv_run st es) = srv_registry st" by (rule srv_registry_run)
  with full fresh show ?thesis by (simp add: generate_qr_def createClient_def)
qed

theorem cleanup_never_frees_capacity_witness:
  "generate_qr 0 False (js ''s2'') 4000000
     (srv_run (srv_run (the (WhatsAppBotServer_new (Some 1) (Some (js ''key'')) None None None None None (\<lambda>_. False)))
                 [GenerateQr 0 True (js ''s1'') 0, InitSettled 0 None True]) [CronCleanup 4000000 None]) =
   (srv_run (srv_run (the (WhatsAppBotServer_new (Some 1) (Some (js ''key'')) None None None None None (\<lambda>_. False)))
                 [GenerateQr 0 True (js ''s1'') 0, InitSettled 0 None True]) [CronCleanup 4000000 None])
     \<lparr>srv_emits := srv_emits (srv_run (srv_run (the (WhatsAppBotServer_new (Some 1) (Some (js ''key'')) None None None None None (\<lambda>_. False)))
                 [GenerateQr 0 True (js ''s1'') 0, InitSettled 0 None True]) [CronCleanup 4000000 None]) @
        [(0, SEError (js ''Failed to generate QR code'') (reg_error_message [] (MaxSessionsReached 1)))]\<rparr>"
proof -
  let ?st = "srv_run (the (WhatsAppBotServer_new (Some 1) (Some (js ''key'')) None None None None None (\<lambda>_. False)))
                 [GenerateQr 0 True (js ''s1'') 0, InitSettled 0 None True]"
  have m: "maxSessions (srv_registry ?st) = 1"
    by (simp add: WhatsAppBotServer_new_def AIReply_new_def WhatsAppHandler_new_def srv_step_def generate_qr_def
        createClient_def srv_settle_def js_defs)
  have full: "maxSessions (srv_registry ?st) \<le> int (length (clients (srv_registry ?st)))"
    by (simp add: WhatsAppBotServer_new_def AIReply_new_def WhatsAppHandler_new_def srv_step_def generate_qr_def
        createClient_def srv_settle_def js_defs)
  have fresh: "jm_get (clients (srv_registry ?st)) (js ''s2'') = None"
    by (simp add: WhatsAppBotServer_new_def AIReply_new_def WhatsAppHandler_new_def srv_step_def generate_qr_def
        createClient_def srv_settle_def js_defs)
  have es: "list_all srv_housekeeping [CronCleanup 4000000 None]" by (simp add: srv_housekeeping_def)
  show ?thesis using cleanup_never_frees_capacity [OF full fresh es, of 0 4000000] by (simp only: m)
qed



end
