(* ===== verification/ApiServer.thy ===== *)
theory ApiServer
  imports SessionMachine
begin

text \<open>
  The front end of the single-session bot, class \<open>WhatsAppBotServer\<close> of
  src/server.js: the HTTP routes (\<open>setupRoutes\<close>), the socket handlers other
  than \<open>start_bot\<close> and \<open>stop_bot\<close> (which SessionMachine models), the set of
  connected sockets, the hourly \<open>GeminiAI.cleanup\<close> interval and the shutdown
  handler. The session manager and the reply engine are the state of
  SessionMachine; the constructor assigns both before it returns, so the
  \<open>this.sessionManager ?\<close> and \<open>this.geminiAI ?\<close> guards of the handlers always
  hold and their \<open>null\<close> branches are not reachable.
\<close>

section \<open>State\<close>

datatype api_body =
    ABRoot sm_status nat
  | ABStatus sm_status gemini_stats nat
  | ABSend send_result
  | ABOk jstr
  | ABError jstr
  | ABNotFound

datatype api_emit =
    AEConnectionStatus sm_status
  | AEError jstr
  | AEMessageSent send_result

record api_state =
  api_sm :: sm_state
  connectedClients :: "nat list"
  api_emits :: "(nat \<times> api_emit) list"
  api_http :: "(nat \<times> api_body) list"
  api_sent :: "(jstr \<times> jstr) list"
  api_closed :: bool
  api_exit :: "int option"

definition api_init :: "gemini_state \<Rightarrow> api_state" where
  "api_init g =
     \<lparr>api_sm = sm_init g, connectedClients = [], api_emits = [], api_http = [], api_sent = [],
      api_closed = False, api_exit = None\<rparr>"

definition api_status :: "api_state \<Rightarrow> sm_status" where
  "api_status s = getStatus (core (api_sm s)) (qrRetries (api_sm s))"

text \<open>The engine of the session manager, updated.\<close>

definition api_map_chats :: "(chat_store \<Rightarrow> chat_store) \<Rightarrow> api_state \<Rightarrow> api_state" where
  "api_map_chats f s =
     s\<lparr>api_sm := (api_sm s)\<lparr>core := (core (api_sm s))\<lparr>engine :=
        (engine (core (api_sm s)))\<lparr>chatHistory := f (chatHistory (engine (core (api_sm s))))\<rparr>\<rparr>\<rparr>\<rparr>"

section \<open>HTTP routes\<close>

text \<open>The requests after the middleware (CORS, body parsing, static files,
  headers, logging) let them through. The fields of the send request are
  \<open>None\<close> when absent.\<close>

datatype api_request =
    GetRoot
  | GetApiStatus
  | PostSendMessage "jstr option" "jstr option"
  | PostClearHistory jstr
  | PostRestart
  | OtherPath

text \<open>\<open>POST /api/send-message\<close>: 400 without both fields, 503 when the bot is
  not ready, and otherwise \<open>res.json(result)\<close> of \<open>sessionManager.sendMessage\<close>,
  a 200 whether or not the send succeeded. \<open>sendFails\<close> is the rejection of
  \<open>client.sendMessage\<close> for a chat id.\<close>

definition api_sendMessage ::
  "(jstr \<Rightarrow> jstr option) \<Rightarrow> jstr option \<Rightarrow> jstr option \<Rightarrow> api_state \<Rightarrow> (nat \<times> api_body) \<times> api_state" where
  "api_sendMessage sendFails to text s =
     (if \<not> js_truthy_str to \<or> \<not> js_truthy_str text
      then ((400, ABError (js ''Missing required fields: to, message'')), s)
      else if \<not> isReady (core (api_sm s))
      then ((503, ABError (js ''WhatsApp client is not ready'')), s)
      else (case sm_sendMessage sendFails (core (api_sm s)) (the to) (the text) of
              (result, sent) \<Rightarrow>
                ((200, ABSend result),
                 s\<lparr>api_sent := api_sent s @ (case sent of None \<Rightarrow> [] | Some c \<Rightarrow> [(c, the text)])\<rparr>)))"

definition api_route ::
  "time \<Rightarrow> (jstr \<Rightarrow> jstr option) \<Rightarrow> api_request \<Rightarrow> api_state \<Rightarrow> (nat \<times> api_body) \<times> api_state" where
  "api_route tNow sendFails req s =
     (case req of
        GetRoot \<Rightarrow> ((200, ABRoot (api_status s) (length (connectedClients s))), s)
      | GetApiStatus \<Rightarrow>
          ((200, ABStatus (api_status s) (gemini_getStats tNow (engine (core (api_sm s)))) (length (connectedClients s))), s)
      | PostSendMessage to text \<Rightarrow> api_sendMessage sendFails to text s
      | PostClearHistory contactNumber \<Rightarrow>
          ((200, ABOk (js ''Chat history cleared'')), api_map_chats (\<lambda>m. clearChatHistory m contactNumber) s)
      | PostRestart \<Rightarrow> ((200, ABOk (js ''Bot restart initiated'')), s\<lparr>api_sm := restartClient (api_sm s)\<rparr>)
      | OtherPath \<Rightarrow> ((404, ABNotFound), s))"

section \<open>Sockets, interval and shutdown\<close>

text \<open>\<open>connection\<close>: the socket joins the set and gets the status.\<close>

definition api_connect :: "nat \<Rightarrow> api_state \<Rightarrow> api_state" where
  "api_connect sock s =
     s\<lparr>connectedClients := js_set_add (connectedClients s) sock,
       api_emits := api_emits s @ [(sock, AEConnectionStatus (api_status s))]\<rparr>"

definition api_disconnect :: "nat \<Rightarrow> api_state \<Rightarrow> api_state" where
  "api_disconnect sock s = s\<lparr>connectedClients := removeAll sock (connectedClients s)\<rparr>"

text \<open>\<open>send_message\<close> on a socket: an error when the bot is not ready,
  otherwise the result of \<open>sendMessage\<close>, failed or not, as
  \<open>message_sent\<close>.\<close>

definition api_socket_send :: "nat \<Rightarrow> (jstr \<Rightarrow> jstr option) \<Rightarrow> jstr \<Rightarrow> jstr \<Rightarrow> api_state \<Rightarrow> api_state" where
  "api_socket_send sock sendFails to text s =
     (if \<not> isReady (core (api_sm s))
      then s\<lparr>api_emits := api_emits s @ [(sock, AEError (js ''WhatsApp client is not ready''))]\<rparr>
      else (case sm_sendMessage sendFails (core (api_sm s)) to text of
              (result, sent) \<Rightarrow>
                s\<lparr>api_emits := api_emits s @ [(sock, AEMessageSent result)],
                  api_sent := api_sent s @ (case sent of None \<Rightarrow> [] | Some c \<Rightarrow> [(c, text)])\<rparr>))"

text \<open>The shutdown handler (\<open>SIGTERM\<close>, \<open>SIGINT\<close>, \<open>SIGUSR2\<close>, an uncaught
  exception or rejection): the servers stop taking connections,
  \<open>stopClient()\<close> is awaited, \<open>GeminiAI.cleanup()\<close> runs and the process exits
  with 0.\<close>

definition api_shutdown :: "time \<Rightarrow> api_state \<Rightarrow> api_state" where
  "api_shutdown tNow s =
     api_map_chats (gemini_cleanup tNow)
       (s\<lparr>api_closed := True, api_sm := stopClient (api_sm s), api_exit := Some 0\<rparr>)"

text \<open>\<open>startServer()\<close>: the port \<open>process.env.PORT || 10000\<close>, the period of
  the cleanup interval \<open>parseInt(CLEANUP_INTERVAL) || 3600000\<close>, and the
  server's \<open>error\<close> handler, which ends the process with 1 when the port is in
  use and only logs any other error.\<close>

definition api_port :: "jstr option \<Rightarrow> jstr" where
  "api_port envPort = js_str_or envPort (js ''10000'')"

definition cleanupIntervalMs :: "int option \<Rightarrow> int" where
  "cleanupIntervalMs envInterval = js_int_or envInterval 3600000"

datatype api_event =
    Sm sm_event
  | HttpReq time "jstr \<Rightarrow> jstr option" api_request
  | SockConnect nat
  | SockDisconnect nat
  | SockSend nat "jstr \<Rightarrow> jstr option" jstr jstr
  | CleanupTick time
  | Signal time
  | ServerError jstr

text \<open>One step (\<open>CleanupTick\<close> fires every \<open>cleanupIntervalMs\<close>); after the process exited nothing happens, and after the
  shutdown began no new HTTP request or socket is accepted.\<close>

definition api_step :: "api_state \<Rightarrow> api_event \<Rightarrow> api_state" where
  "api_step s e =
     (if api_exit s \<noteq> None then s
      else case e of
        Sm ev \<Rightarrow> s\<lparr>api_sm := sm_step (api_sm s) ev\<rparr>
      | HttpReq tNow sendFails req \<Rightarrow>
          if api_closed s then s
          else (case api_route tNow sendFails req s of (r, s') \<Rightarrow> s'\<lparr>api_http := api_http s' @ [r]\<rparr>)
      | SockConnect sock \<Rightarrow> if api_closed s then s else api_connect sock s
      | SockDisconnect sock \<Rightarrow> api_disconnect sock s
      | SockSend sock sendFails to text \<Rightarrow> api_socket_send sock sendFails to text s
      | CleanupTick tNow \<Rightarrow> api_map_chats (gemini_cleanup tNow) s
      | Signal tNow \<Rightarrow> api_shutdown tNow s
      | ServerError code \<Rightarrow> if code = js ''EADDRINUSE'' then s\<lparr>api_exit := Some 1\<rparr> else s)"

inductive api_reach :: "gemini_state \<Rightarrow> api_state \<Rightarrow> bool" where
  init: "api_reach g (api_init g)"
| step: "api_reach g s \<Longrightarrow> api_reach g (api_step s e)"


section \<open>Lemmas\<close>


lemma api_map_chats_sm [simp]:
  "sm_wf (api_sm (api_map_chats f s)) = sm_wf (api_sm s)" "qr_inv (api_sm (api_map_chats f s)) = qr_inv (api_sm s)"
  by (simp_all add: api_map_chats_def)

lemma sm_wf_stopClient: "sm_wf s \<Longrightarrow> sm_wf (stopClient s)"
  using sm_wf_step [of s StopBot] by (simp add: sm_step_def)

lemma qr_inv_stopClient: "qr_inv s \<Longrightarrow> qr_inv (stopClient s)"
  using qr_inv_step [of s StopBot] by (simp add: sm_step_def)

lemma api_route_sm:
  "api_sm (snd (api_route t f req s)) = api_sm s \<or>
   api_sm (snd (api_route t f req s)) = restartClient (api_sm s) \<or>
   (\<exists>g. api_sm (snd (api_route t f req s)) = api_sm (api_map_chats g s))"
  by (cases req) (auto simp: api_route_def api_sendMessage_def split: prod.splits)

lemma api_step_sm_inv:
  assumes "sm_wf (api_sm s) \<and> qr_inv (api_sm s)"
  shows "sm_wf (api_sm (api_step s e)) \<and> qr_inv (api_sm (api_step s e))"
proof (cases e)
  case (Sm ev)
  with assms show ?thesis by (simp add: api_step_def sm_wf_step qr_inv_step)
next
  case (HttpReq t f req)
  have "sm_wf (api_sm (snd (api_route t f req s))) \<and> qr_inv (api_sm (snd (api_route t f req s)))"
    using api_route_sm [of t f req s] assms
    by (auto simp: sm_wf_restartClient qr_inv_restartClient api_map_chats_def)
  with HttpReq assms show ?thesis by (auto simp: api_step_def split: prod.splits)
next
  case (Signal t)
  with assms show ?thesis
    by (simp add: api_step_def api_shutdown_def sm_wf_stopClient qr_inv_stopClient api_map_chats_def)
qed (use assms in \<open>simp_all add: api_step_def api_connect_def api_disconnect_def api_socket_send_def
       split: prod.splits\<close>)

section \<open>Properties\<close>



text \<open>Claim C30: \<open>POST /api/send-message\<close> answers 200 when the send fails:
  with both fields present and the bot ready, a rejection of
  \<open>client.sendMessage\<close> gives status 200 with \<open>{success: false, error}\<close>, and
  nothing is sent.\<close>

theorem api_send_failure_is_200:
  assumes "js_truthy_str to" "js_truthy_str text" "isReady (core (api_sm s))"
    "sendFails (chatId_of (the to)) = Some e"
  shows "fst (api_sendMessage sendFails to text s) = (200, ABSend (SendError e)) \<and>
         api_sent (snd (api_sendMessage sendFails to text s)) = api_sent s"
  using assms by (simp add: api_sendMessage_def sm_sendMessage_def)

theorem api_send_failure_is_200_witness:
  "fst (api_sendMessage (\<lambda>_. Some (js ''Evaluation failed'')) (Some (js ''919876543210'')) (Some (js ''hi''))
         ((api_init \<lparr>chatHistory = [], lastReplyTime = []\<rparr>)\<lparr>api_sm := (sm_init \<lparr>chatHistory = [], lastReplyTime = []\<rparr>)
             \<lparr>core := \<lparr>isReady = True, messageCount = 0, activeChats = [], engine = \<lparr>chatHistory = [], lastReplyTime = []\<rparr>\<rparr>\<rparr>\<rparr>))
     = (200, ABSend (SendError (js ''Evaluation failed'')))"
  using api_send_failure_is_200 [of "Some (js ''919876543210'')" "Some (js ''hi'')"
      "(api_init \<lparr>chatHistory = [], lastReplyTime = []\<rparr>)\<lparr>api_sm := (sm_init \<lparr>chatHistory = [], lastReplyTime = []\<rparr>)
             \<lparr>core := \<lparr>isReady = True, messageCount = 0, activeChats = [], engine = \<lparr>chatHistory = [], lastReplyTime = []\<rparr>\<rparr>\<rparr>\<rparr>"
      "\<lambda>_. Some (js ''Evaluation failed'')" "js ''Evaluation failed''"]
  by (simp add: js_defs js_def)

text \<open>The shutdown handler ends the process with code 0, and nothing happens
  after it.\<close>

theorem api_signal_exits:
  assumes "api_exit s = None"
  shows "api_exit (api_step s (Signal t)) = Some 0 \<and> api_closed (api_step s (Signal t)) \<and>
         (\<forall>e. api_step (api_step s (Signal t)) e = api_step s (Signal t))"
  using assms by (auto simp: api_step_def api_shutdown_def api_map_chats_def stopClient_def split: option.splits)

theorem api_signal_exits_witness:
  "api_exit (api_step (api_init \<lparr>chatHistory = [], lastReplyTime = []\<rparr>) (Signal 0)) = Some 0 \<and>
   api_closed (api_step (api_init \<lparr>chatHistory = [], lastReplyTime = []\<rparr>) (Signal 0))"
  using api_signal_exits [of "api_init \<lparr>chatHistory = [], lastReplyTime = []\<rparr>" 0] by (simp add: api_init_def)

end
