(* ===== verification/Spec2Isabelle.thy ===== *)
theory Spec2Isabelle
  imports ConversationStore RateLimiter Typing Language Sanitize GeminiEngine AIReplyEngine SessionMachine Registry
    BotServer ApiServer
begin

text \<open>
  \<^bold>\<open>A verification library for the WhatsApp auto-reply bot.\<close>

  The repository holds two bots. The single-session bot is src/server.js with
  \<open>SessionManager\<close> (src/unnamed/part_000, lines 1--376) and the reply engine
  \<open>GeminiAI\<close> (src/unnamed/part_001). The multi-session bot is the server in
  src/unnamed/part_002 with the registry \<open>WhatsAppHandler\<close>
  (src/whatsapp-handler.js) and the reply engine \<open>AIReply\<close>
  (src/unnamed/part_000, lines 377--868). An incoming message goes from the
  messaging adapter through the message pipeline (filters), the reply engine
  (rate limiter, language detection, conversation history, prompt, completion
  service, sanitation), the typing simulator and back to the adapter.

  \<^bold>\<open>Theories and what they model.\<close>
  \<^item> Prelude: JavaScript values. Strings are lists of UTF-16 code units
    (\<open>jstr\<close>, ASCII literals written \<open>js ''...''\<close>); a \<open>Map\<close> is an
    insertion-ordered association list (\<open>jm_get\<close>, \<open>jm_set\<close>, \<open>jm_delete\<close>,
    \<open>jm_sweep\<close> for a loop that deletes entries while iterating); \<open>parseInt(v) || d\<close>
    is \<open>js_int_or\<close>, \<open>process.env.X || d\<close> is \<open>js_str_or\<close>; \<open>trim\<close>,
    \<open>includes\<close>, \<open>startsWith\<close>, \<open>slice(-n)\<close>, \<open>join\<close> and number printing.
  \<^item> ConversationStore: \<open>AIReply\<close>'s turn lists (\<open>getConversationHistory\<close>,
    \<open>updateConversationHistory\<close>) and \<open>GeminiAI\<close>'s message lists
    (\<open>getChatHistory\<close>, \<open>updateChatHistory\<close>, \<open>clearChatHistory\<close>,
    \<open>gemini_cleanup\<close> for \<open>cleanup\<close>).
  \<^item> RateLimiter: \<open>AIReply.checkRateLimit\<close> (fixed window, with the JavaScript
    precedence of its guard and the in-place mutation of the stored object) and
    \<open>GeminiAI.canReply\<close> with \<open>recordReply\<close> (minimum spacing).
  \<^item> Typing: \<open>SessionManager.sendReplyWithTyping\<close> as a sequence of awaited
    adapter calls that stops at the first one that throws, and the delay
    formulas of the three files.
  \<^item> Language: both \<open>detectLanguage\<close> methods, with the regular expressions
    translated to their JavaScript semantics on code units (\<open>.\<close> and lookaheads
    stop at line terminators, \<open>test\<close> tries every start, \<open>i\<close> folds ASCII only).
  \<^item> Sanitize: \<open>AIReply.cleanAIResponse\<close>, each global \<open>replace\<close> as a
    left-to-right scanner.
  \<^item> GeminiEngine: \<open>GeminiAI\<close>'s prompt, fallback, \<open>generateReply\<close>, \<open>getStats\<close>.
  \<^item> AIReplyEngine: every method of \<open>AIReply\<close>: constructor, prompt,
    \<open>callGeminiAPI\<close>, \<open>generateReply\<close>, commands, statistics, sentiment, the
    hourly cleanup, \<open>generateContextAwareReply\<close>, health check, shutdown.
  \<^item> Pipeline: \<open>SessionManager.handleIncomingMessage\<close>, \<open>sendMessage\<close>,
    \<open>getStatus\<close> and one tick of the stats timer, over the record
    \<open>bot_state\<close> (\<open>isReady\<close>, \<open>messageCount\<close>, \<open>activeChats\<close>, the engine).
  \<^item> SessionMachine: the lifecycle of \<open>SessionManager\<close> (\<open>initializeClient\<close>,
    \<open>restartClient\<close>, \<open>stopClient\<close>, the adapter handlers) driven by the socket
    commands of src/server.js, as a step function \<open>sm_step\<close> on \<open>sm_state\<close> over
    events, with reachable states \<open>sm_reach\<close> as an inductive predicate.
  \<^item> ApiServer: the front end of src/server.js: the HTTP routes, the socket
    handlers \<open>connection\<close>, \<open>send_message\<close>, \<open>disconnect\<close>, the hourly
    \<open>GeminiAI.cleanup\<close> interval and the shutdown handler, as \<open>api_step\<close> over a
    record holding the SessionMachine state; \<open>start_bot\<close> and \<open>stop_bot\<close> go to
    \<open>sm_step\<close>.
  \<^item> Registry: \<open>WhatsAppHandler\<close>: \<open>createClient\<close>, \<open>destroySession\<close>,
    \<open>restartSession\<close>, \<open>cleanupAllSessions\<close>, the handlers that delete a session,
    the phone number helpers, \<open>sendMessage\<close>, \<open>sendMedia\<close>,
    \<open>getContactInfo\<close>, \<open>getQRCode\<close>, \<open>getPuppeteerOptions\<close> and the status
    reports, whose awaited \<open>getState()\<close> calls may never settle.
  \<^item> BotServer: the multi-session server of src/unnamed/part_002
    (\<open>WhatsAppBotServer\<close>): \<open>activeSessions\<close> over a store of session objects
    (the adapter handlers close over the object, so the store makes the aliasing
    explicit), the registry and \<open>AIReply\<close> it owns, its 30 s per-contact
    spacing, the MySQL tables as maps, \<open>generate_qr\<close> and
    \<open>createWhatsAppSession\<close> with the pending \<open>initialize()\<close> as a task, the
    adapter handlers (the registry's first, then the server's), the message path,
    \<open>setupDatabase\<close> with \<open>createTables\<close> (a statement on a table that could
    not be created fails and is caught),
    \<open>getSystemStats\<close>, both cron jobs, the HTTP routes and
    \<open>gracefulShutdown\<close>, composed by \<open>srv_step\<close> with reachable states
    \<open>srv_reach\<close>.

  \<^bold>\<open>How the world enters the model.\<close> What the program receives from outside
  is a parameter: the clock (one reading per \<open>Date.now()\<close> that matters),
  \<open>Math.random()\<close> (a real in \<open>[0, 1)\<close>), the completion service (a function from
  prompt to text or error), the adapter's objects and answers (messages,
  contacts, which calls throw, \<open>getState()\<close>), \<open>toLowerCase\<close>, and the
  environment settings (\<open>None\<close> when unset). Errors are values: \<open>option\<close>,
  \<open>Inl\<close> of an error datatype, or a flag saying a call threw.

  \<^bold>\<open>Concurrency and fuel.\<close> No definition needs fuel: every loop of the code is
  structural recursion or a \<^theory_text>\<open>function\<close> with a measure (the regex
  scanners of Sanitize and Language). The one wait that depends on the outside
  world, \<open>getQRCode\<close>'s promise, is a \<^theory_text>\<open>partial_function (option)\<close> over
  the stream of adapter events, and Registry proves that it returns whenever
  time advances, within the 60 s of its timer. The status reports of the
  registry await one \<open>getState()\<close> after the other with no timer; they are
  \<open>option\<close>-valued, and Registry proves that they return exactly when no
  adapter hangs. Asynchrony is explicit in SessionMachine:
  the continuation after each \<open>await\<close> and each timer is a pending task, and
  \<open>Resume i\<close> runs any of them, so all interleavings of timers, promises,
  socket commands and adapter events are runs of \<open>sm_step\<close>. Within one
  message, \<open>handleIncomingMessage\<close> is a single step (its interleaving with a
  second delivery of the same message is recorded as a finding).
  \<open>client.destroy()\<close> is taken to resolve.

  \<^bold>\<open>What the lemmas show.\<close>
  \<^item> State invariants kept by every operation: history lengths and key
    distinctness of both stores (conv_inv, chat_inv), the registry's capacity
    bound (reg_inv), and, by rule induction over reachable lifecycle states,
    fresh adapter numbers (sm_wf) and that a QR counter above 3 always has a
    restart on its way (qr_inv).
  \<^item> Functional behaviour on every branch: the end-to-end message path, its
    filters and its error path; the three branches of \<open>GeminiAI.generateReply\<close>;
    the create contract of the registry; the QR storm that restarts exactly once.
  \<^item> Refinement and equivalence: a bounded history is the last 10 entries of
    the unbounded log; the sweeps that delete while iterating equal a filter.
  \<^item> Bounds and round trips: typing delays, reply length, rate spacing,
    phone number formatting and extraction.
  \<^item> Composition: the multi-session server never answers (its message path
    goes through \<open>AIReply.generateReply\<close>), so \<open>lastActivity\<close> never moves and
    every session is removed by the first idle cleanup an hour after its
    creation (a liveness property over arbitrary event sequences); its cleanups
    never give capacity back to the registry; the front end of server.js keeps
    the lifecycle invariants of SessionMachine; every HTTP answer of the
    multi-session server is well typed (status and success agree).
  \<^item> Defects, as theorems about the code: \<open>checkRateLimit\<close> denies every
    request (so \<open>AIReply\<close> never replies), the language patterns' substring
    and line-terminator behaviour, fallbacks that are neither stored nor rate
    limited, restart after stop, leaked adapters and timers, a repeated destroy
    that reports failure.

  \<^bold>\<open>Not modelled.\<close> The Express middleware (helmet, CORS, compression, body
  parsing, logging, and the per-IP store of express-rate-limit in
  part_002): the code only configures it, and its state and behaviour are
  the library's; the column types of the SQL tables; \<open>listen\<close>; QR image
  rendering, the sessions root directories (\<open>ensureSessionDirectory\<close> of both
  classes), \<open>logClientInfo\<close> and console output;
  \<open>process.uptime\<close> and \<open>process.memoryUsage\<close> in the status objects. Their
  success or failure enters the model as inputs where the code reacts to it.
\<close>

end
